(* ===== verification/Prelude.thy ===== *)
theory Prelude
  imports Complex_Main
begin

text \<open>
  Shared vocabulary of the operator library of \<^verbatim>\<open>src/src/modules.py\<close>.
  A PyTorch tensor of rank one or two is a record of its shape and an entry function
  (\<open>tensor1\<close>, \<open>tensor2\<close>); index tensors (class targets, embedding indices) are
  \<open>int list\<close>s. Floating-point values are modelled by \<open>real\<close>: rounding is not
  modelled. The exceptions the code and PyTorch raise are the constructors of
  \<open>error\<close>; an operator returns \<open>error + _\<close>. The slot a backward returns for a
  non-differentiable input (Python's \<open>None\<close>) is \<open>NoGrad\<close>.
  Python's negative indexing is \<open>py_index\<close>, PyTorch's broadcasting of one dimension
  is \<open>bcast\<close> and \<open>bidx\<close>. The perturbation \<open>perturb2\<close>, the inner product
  \<open>frob\<close> and \<open>fwd_loss\<close> state what a backward computes: the partial derivatives
  of the scalar \<open>frob g (forward x)\<close>, the quantity that \<^verbatim>\<open>gradcheck\<close> estimates by
  finite differences. \<open>then_backward\<close> is the autograd engine's use of an operator:
  backward is run on the context that forward saved.
\<close>

named_theorems tensor_simps "equations that evaluate concrete tensors and their shapes"

section \<open>Tensors, errors, gradient slots\<close>

record tensor1 =
  len :: nat
  el :: "nat \<Rightarrow> real"

record tensor2 =
  rows :: nat
  cols :: nat
  ent :: "nat \<Rightarrow> nat \<Rightarrow> real"

datatype error = AssertionError | RuntimeError | IndexError | ZeroDivisionError | NotANumber
  | TypeError | ValueError | GradcheckError

datatype 'a grad = NoGrad | Grad 'a

type_synonym 'a result = "error + 'a"

definition tensor1_of :: "real list \<Rightarrow> tensor1" where
  "tensor1_of xs = \<lparr>len = length xs, el = (\<lambda>i. xs ! i)\<rparr>"

definition tensor2_of :: "nat \<Rightarrow> real list list \<Rightarrow> tensor2" where
  "tensor2_of C xss = \<lparr>rows = length xss, cols = C, ent = (\<lambda>t c. xss ! t ! c)\<rparr>"

definition same_shape :: "tensor2 \<Rightarrow> tensor2 \<Rightarrow> bool" where
  "same_shape a b \<longleftrightarrow> rows a = rows b \<and> cols a = cols b"

section \<open>Indexing and broadcasting\<close>

text \<open>Python/PyTorch index resolution on a dimension of size \<open>n\<close>.\<close>

definition py_index :: "nat \<Rightarrow> int \<Rightarrow> nat option" where
  "py_index n i =
     (if 0 \<le> i \<and> i < int n then Some (nat i)
      else if - int n \<le> i \<and> i < 0 then Some (nat (int n + i))
      else None)"

text \<open>Broadcasting two sizes of one dimension, and the entry a broadcast operand reads.\<close>

definition bcast :: "nat \<Rightarrow> nat \<Rightarrow> nat option" where
  "bcast m n = (if m = n then Some m else if m = 1 then Some n else if n = 1 then Some m else None)"

definition bidx :: "nat \<Rightarrow> nat \<Rightarrow> nat" where
  "bidx n c = (if n = 1 then 0 else c)"

text \<open>The shape two rank-2 operands broadcast to, and the entry a broadcast operand reads.\<close>

definition bcast2 :: "tensor2 \<Rightarrow> tensor2 \<Rightarrow> (nat \<times> nat) option" where
  "bcast2 a b = (case (bcast (rows a) (rows b), bcast (cols a) (cols b)) of
                   (Some r, Some k) \<Rightarrow> Some (r, k) | _ \<Rightarrow> None)"

definition bent :: "tensor2 \<Rightarrow> nat \<Rightarrow> nat \<Rightarrow> real" where
  "bent a t c = ent a (bidx (rows a) t) (bidx (cols a) c)"

section \<open>Perturbations and the scalar objective\<close>

definition perturb2 :: "tensor2 \<Rightarrow> nat \<Rightarrow> nat \<Rightarrow> real \<Rightarrow> tensor2" where
  "perturb2 a i j h = a\<lparr>ent := (\<lambda>t c. ent a t c + (if t = i \<and> c = j then h else 0))\<rparr>"

definition perturb1 :: "tensor1 \<Rightarrow> nat \<Rightarrow> real \<Rightarrow> tensor1" where
  "perturb1 v k h = v\<lparr>el := (\<lambda>c. el v c + (if c = k then h else 0))\<rparr>"

definition frob :: "tensor2 \<Rightarrow> tensor2 \<Rightarrow> real" where
  "frob g y = (\<Sum>t<rows g. \<Sum>c<cols g. ent g t c * ent y t c)"

definition fwd_loss :: "tensor2 \<Rightarrow> error + (tensor2 \<times> 'c) \<Rightarrow> real" where
  "fwd_loss g r = (case r of Inl _ \<Rightarrow> 0 | Inr (y, _) \<Rightarrow> frob g y)"

definition then_backward :: "error + ('o \<times> 'c) \<Rightarrow> ('c \<Rightarrow> error + 'r) \<Rightarrow> error + 'r" where
  "then_backward r k = (case r of Inl e \<Rightarrow> Inl e | Inr (_, c) \<Rightarrow> k c)"

section \<open>Lemmas shared by the operators\<close>

text \<open>The constructors of concrete tensors and shape equality, unfolded to evaluate witnesses.\<close>

declare tensor1_of_def [tensor_simps] tensor2_of_def [tensor_simps] same_shape_def [tensor_simps]

lemma product_Nil_right [simp]: "List.product xs [] = []"
  by (induction xs) simp_all

lemma sum_nth_distinct:
  assumes "distinct xs"
  shows "(\<Sum>k<length xs. if xs ! k = a then c else 0) = (if a \<in> set xs then c else (0 :: 'b :: comm_monoid_add))"
proof (cases "a \<in> set xs")
  case True
  then obtain i where i: "i < length xs" "xs ! i = a" by (auto simp: in_set_conv_nth)
  have "(\<Sum>k<length xs. if xs ! k = a then c else 0) = (\<Sum>k<length xs. if k = i then c else 0)"
    using assms i by (intro sum.cong) (auto simp: nth_eq_iff_index_eq)
  then show ?thesis using True i by simp
next
  case False
  then show ?thesis by (auto intro!: sum.neutral simp: nth_mem)
qed

lemma bidx_below [simp]: "c < n \<Longrightarrow> bidx n c = c"
  by (simp add: bidx_def)

lemma bcast_same [simp]: "bcast n n = Some n"
  by (simp add: bcast_def)

lemma bcast_Some_cases:
  "bcast m n = Some k \<Longrightarrow> (m = n \<and> k = m) \<or> (m = 1 \<and> k = n) \<or> (n = 1 \<and> k = m)"
  by (auto simp: bcast_def split: if_splits)

lemma bcast2_same_shape [simp]: "same_shape a b \<Longrightarrow> bcast2 a b = Some (rows a, cols a)"
  by (simp add: bcast2_def same_shape_def)

lemma bent_below [simp]: "t < rows a \<Longrightarrow> c < cols a \<Longrightarrow> bent a t c = ent a t c"
  by (simp add: bent_def)

lemma py_index_lt: "py_index n i = Some k \<Longrightarrow> k < n"
  by (auto simp: py_index_def split: if_splits)

lemma py_index_nonneg [simp]: "0 \<le> i \<Longrightarrow> i < int n \<Longrightarrow> py_index n i = Some (nat i)"
  by (simp add: py_index_def)

lemma py_index_neg [simp]: "i < 0 \<Longrightarrow> - int n \<le> i \<Longrightarrow> py_index n i = Some (nat (int n + i))"
  by (simp add: py_index_def)

lemma py_index_None_iff: "py_index n i = None \<longleftrightarrow> i < - int n \<or> int n \<le> i"
  by (auto simp: py_index_def)

lemma bidx_one [simp]: "bidx (Suc 0) k = 0"
  by (simp add: bidx_def)

lemma bcast_one [simp]: "bcast n (Suc 0) = Some n"
  by (simp add: bcast_def)

lemma bcast_nonzero: "bcast m n = Some k \<Longrightarrow> k \<noteq> 0 \<Longrightarrow> n \<noteq> 0"
  by (auto simp: bcast_def split: if_splits)

text \<open>Resolving a list of indices succeeds exactly when every index resolves.\<close>

lemma those_map_Some:
  "those (map f xs) = Some ys \<longleftrightarrow> length ys = length xs \<and> (\<forall>k<length xs. f (xs ! k) = Some (ys ! k))"
proof (induction xs arbitrary: ys)
  case Nil
  then show ?case by auto
next
  case (Cons a xs)
  then show ?case
    by (cases ys) (auto simp: nth_Cons split: option.splits nat.splits)
qed

lemma those_map_None: "those (map f xs) = None \<longleftrightarrow> (\<exists>a\<in>set xs. f a = None)"
  by (induction xs) (auto split: option.splits)

lemma perturb2_shape [simp]:
  "rows (perturb2 a i j h) = rows a" "cols (perturb2 a i j h) = cols a"
  by (simp_all add: perturb2_def)

lemma ent_perturb2 [simp]:
  "ent (perturb2 a i j h) t c = ent a t c + (if t = i \<and> c = j then h else 0)"
  by (simp add: perturb2_def)

lemma perturb1_len [simp]: "len (perturb1 v k h) = len v"
  by (simp add: perturb1_def)

lemma el_perturb1 [simp]: "el (perturb1 v k h) c = el v c + (if c = k then h else 0)"
  by (simp add: perturb1_def)

lemma fwd_loss_Inr [simp]: "fwd_loss g (Inr (y, ctx)) = frob g y"
  by (simp add: fwd_loss_def)

lemma then_backward_Inr [simp]: "then_backward (Inr (y, ctx)) k = k ctx"
  by (simp add: then_backward_def)

lemma then_backward_Inl [simp]: "then_backward (Inl e) k = Inl e"
  by (simp add: then_backward_def)

text \<open>Sums in which one index pair is singled out.\<close>

lemma sum_delta_mult [simp]:
  "j < (C :: nat) \<Longrightarrow> (\<Sum>c<C. f c * (if c = j then h else 0)) = f j * (h :: real)"
proof -
  have "(\<Sum>c<C. f c * (if c = j then h else 0)) = (\<Sum>c<C. if c = j then f c * h else 0)"
    by (rule sum.cong) auto
  then show "j < C \<Longrightarrow> ?thesis" by (simp add:)
qed

lemma sum_delta_left [simp]:
  "j < (C :: nat) \<Longrightarrow> (\<Sum>c<C. (if c = j then h else 0) * f c) = (h :: real) * f j"
  using sum_delta_mult[of j C f h] by (simp add: mult.commute)

lemma sum_if_const_cond:
  "(\<Sum>c<(C :: nat). if P then f c else 0) = (if P then \<Sum>c<C. f c else (0 :: real))"
  by (cases P) simp_all

lemma sum_row_delta [simp]:
  "i < (T :: nat) \<Longrightarrow> (\<Sum>t<T. \<Sum>c<(C :: nat). if t = i then f t c else 0) = (\<Sum>c<C. (f i c :: real))"
  by (simp add: sum_if_const_cond)

lemma sum_delta2_mult:
  assumes "i < (T :: nat)" "j < (C :: nat)"
  shows "(\<Sum>t<T. \<Sum>c<C. f t c * (if t = i \<and> c = j then h else 0)) = f i j * (h :: real)"
proof -
  have "(\<Sum>t<T. \<Sum>c<C. f t c * (if t = i \<and> c = j then h else 0))
        = (\<Sum>t<T. if t = i then f t j * h else 0)"
    using assms(2) by (intro sum.cong) auto
  also have "\<dots> = f i j * h" using assms(1) by (simp add:)
  finally show ?thesis .
qed

text \<open>A function that is affine in the step has the slope as its derivative.\<close>

lemma DERIV_affine:
  assumes "\<And>h. f h = a + h * (b :: real)"
  shows "(f has_real_derivative b) (at x)"
proof -
  have "f = (\<lambda>h. a + h * b)" using assms by (rule ext)
  moreover have "((\<lambda>h. a + h * b) has_real_derivative b) (at x)"
    by (auto intro!: derivative_eq_intros)
  ultimately show ?thesis by simp
qed

text \<open>
  When every output entry moves affinely with the step, the objective's derivative is the
  inner product of the upstream gradient with the slopes. Only the shape of \<open>g\<close>
  enters \<open>frob\<close>.
\<close>

lemma DERIV_frob_affine:
  assumes "\<And>h t c. t < rows g \<Longrightarrow> c < cols g \<Longrightarrow> ent (Y h) t c = p t c + h * D t c"
  shows "((\<lambda>h. frob g (Y h)) has_real_derivative
           (\<Sum>t<rows g. \<Sum>c<cols g. ent g t c * D t c)) (at x)"
proof (rule DERIV_affine)
  fix h
  have "frob g (Y h) = (\<Sum>t<rows g. \<Sum>c<cols g. ent g t c * (p t c + h * D t c))"
    unfolding frob_def by (intro sum.cong refl) (simp add: assms)
  then show "frob g (Y h) = (\<Sum>t<rows g. \<Sum>c<cols g. ent g t c * p t c)
                        + h * (\<Sum>t<rows g. \<Sum>c<cols g. ent g t c * D t c)"
    by (simp add: distrib_left sum.distrib sum_distrib_left algebra_simps)
qed

text \<open>
  When only the entry \<open>(i, j)\<close> of the output moves with the step, as for an elementwise
  operator, the objective's derivative is the upstream gradient there times that entry's
  derivative.
\<close>

lemma DERIV_frob_single:
  assumes "\<And>h t c. t < rows g \<Longrightarrow> c < cols g \<Longrightarrow>
             ent (Y h) t c = (if t = i \<and> c = j then F h else p t c)"
    and "(F has_real_derivative D) (at 0)" and "i < rows g" and "j < cols g"
  shows "((\<lambda>h. frob g (Y h)) has_real_derivative ent g i j * D) (at 0)"
proof -
  define K where "K = (\<Sum>t<rows g. \<Sum>c<cols g. ent g t c * (if t = i \<and> c = j then 0 else p t c))"
  have "frob g (Y h) = (\<Sum>t<rows g. \<Sum>c<cols g.
          ent g t c * (if t = i \<and> c = j then 0 else p t c) + ent g t c * (if t = i \<and> c = j then F h else 0))"
    for h unfolding frob_def by (intro sum.cong refl) (simp add: assms(1))
  then have eq: "frob g (Y h) = K + ent g i j * F h" for h
    using assms(3,4) by (simp add: K_def sum.distrib sum_delta2_mult)
  have "((\<lambda>h. K + ent g i j * F h) has_real_derivative ent g i j * D) (at 0)"
    using assms(2) by (auto intro!: derivative_eq_intros)
  then show ?thesis by (simp add: eq)
qed

end
