(* ===== verification/Add_Op.thy ===== *)
theory Add_Op
  imports Prelude
begin

text \<open>
  \<^verbatim>\<open>AddFn\<close> (\<^verbatim>\<open>src/src/modules.py\<close>, lines 129-137): elementwise sum of two
  tensors of one shape, guarded by \<^verbatim>\<open>assert a.shape == b.shape\<close>; backward passes the
  upstream gradient to both inputs. The context saves nothing (\<open>unit\<close>).
\<close>

definition AddFn_forward :: "tensor2 \<Rightarrow> tensor2 \<Rightarrow> (tensor2 \<times> unit) result" where
  "AddFn_forward a b =
     (if \<not> same_shape a b then Inl AssertionError
      else Inr (\<lparr>rows = rows a, cols = cols a, ent = (\<lambda>t c. ent a t c + ent b t c)\<rparr>, ()))"

definition AddFn_backward :: "unit \<Rightarrow> tensor2 \<Rightarrow> (tensor2 \<times> tensor2) result" where
  "AddFn_backward ctx y_grad = Inr (y_grad, y_grad)"

lemma same_shape_perturb2 [simp]:
  "same_shape (perturb2 a i j h) b = same_shape a b"
  "same_shape a (perturb2 b i j h) = same_shape a b"
  by (simp_all add: same_shape_def)

lemma AddFn_forward_ok:
  "same_shape a b \<Longrightarrow>
   AddFn_forward a b = Inr (\<lparr>rows = rows a, cols = cols a, ent = (\<lambda>t c. ent a t c + ent b t c)\<rparr>, ())"
  by (simp add: AddFn_forward_def)

text \<open>C33: the assertion is the only failure, and it fails exactly on a shape mismatch.\<close>

theorem add_forward_error_iff:
  "AddFn_forward a b = Inl e \<longleftrightarrow> \<not> same_shape a b \<and> e = AssertionError"
  by (auto simp: AddFn_forward_def)

text \<open>C36: forward is commutative, errors included.\<close>

theorem add_forward_commute: "AddFn_forward a b = AddFn_forward b a"
  by (auto simp: AddFn_forward_def same_shape_def add.commute)

lemma AddFn_grad:
  assumes "same_shape a b" and "same_shape g a" and "i < rows a" and "j < cols a"
  shows "then_backward (AddFn_forward a b) (\<lambda>ctx. AddFn_backward ctx g) = Inr (g, g)
         \<and> ((\<lambda>h. fwd_loss g (AddFn_forward (perturb2 a i j h) b)) has_real_derivative ent g i j) (at 0)
         \<and> ((\<lambda>h. fwd_loss g (AddFn_forward a (perturb2 b i j h))) has_real_derivative ent g i j) (at 0)"
proof -
  have ij: "i < rows g" "j < cols g" using assms by (simp_all add: same_shape_def)
  have da: "((\<lambda>h. fwd_loss g (AddFn_forward (perturb2 a i j h) b)) has_real_derivative
             (\<Sum>t<rows g. \<Sum>c<cols g. ent g t c * (if t = i \<and> c = j then 1 else 0))) (at 0)"
    using assms(1) by (simp add: AddFn_forward_ok, intro DERIV_frob_affine) auto
  have db: "((\<lambda>h. fwd_loss g (AddFn_forward a (perturb2 b i j h))) has_real_derivative
             (\<Sum>t<rows g. \<Sum>c<cols g. ent g t c * (if t = i \<and> c = j then 1 else 0))) (at 0)"
    using assms(1) by (simp add: AddFn_forward_ok, intro DERIV_frob_affine) auto
  show ?thesis
    using da db assms(1) sum_delta2_mult[OF ij, of "ent g" 1]
    by (simp add: AddFn_forward_ok AddFn_backward_def)
qed

text \<open>
  C7: run by the engine on equally shaped inputs, backward returns the upstream gradient
  unchanged for both inputs, and each is the exact partial derivative of the forward's
  objective with respect to that input's entries.
\<close>

theorem add_backward_is_gradient:
  assumes "same_shape a b" and "same_shape g a" and "i < rows a" and "j < cols a"
  shows "then_backward (AddFn_forward a b) (\<lambda>ctx. AddFn_backward ctx g) = Inr (g, g)
         \<and> ((\<lambda>h. fwd_loss g (AddFn_forward (perturb2 a i j h) b)) has_real_derivative ent g i j) (at 0)
         \<and> ((\<lambda>h. fwd_loss g (AddFn_forward a (perturb2 b i j h))) has_real_derivative ent g i j) (at 0)"
  using AddFn_grad [OF assms] .

theorem add_forward_error_iff_witness:
  "AddFn_forward (tensor2_of 2 [[1, 2]]) (tensor2_of 1 [[3]]) = Inl AssertionError"
  using add_forward_error_iff [of "tensor2_of 2 [[1, 2]]" "tensor2_of 1 [[3]]" AssertionError]
  by (simp add: tensor_simps)

theorem add_backward_is_gradient_witness:
  "then_backward (AddFn_forward (tensor2_of 2 [[1, 2]]) (tensor2_of 2 [[3, 4]]))
     (\<lambda>ctx. AddFn_backward ctx (tensor2_of 2 [[5, 6]]))
   = Inr (tensor2_of 2 [[5, 6]], tensor2_of 2 [[5, 6]])
   \<and> ((\<lambda>h. fwd_loss (tensor2_of 2 [[5, 6]])
          (AddFn_forward (perturb2 (tensor2_of 2 [[1, 2]]) 0 1 h) (tensor2_of 2 [[3, 4]])))
        has_real_derivative 6) (at 0)"
proof -
  have h: "same_shape (tensor2_of 2 [[1, 2]]) (tensor2_of 2 [[3, 4]])"
    "same_shape (tensor2_of 2 [[5, 6]]) (tensor2_of 2 [[1, 2]])"
    "0 < rows (tensor2_of 2 [[1, 2]])" "1 < cols (tensor2_of 2 [[1, 2]])"
    by (simp_all add: tensor_simps)
  show ?thesis
    using add_backward_is_gradient [OF h] by (simp add: tensor_simps)
qed

end
