(* ===== verification/Gelu_Op.thy ===== *)
theory Gelu_Op
  imports Prelude
begin

text \<open>
  \<^verbatim>\<open>GELUFn\<close> (\<^verbatim>\<open>src/src/modules.py\<close>, lines 106-118): the tanh approximation of
  GELU, elementwise. Forward computes \<open>a = sqrt (2 / pi)\<close> and the pre-tanh argument
  \<open>b = a (x + 0.044715 x\<^sup>3)\<close>, saves \<open>x\<close>, \<open>a\<close>, \<open>b\<close> and returns
  \<open>0.5 x (1 + tanh b)\<close>. Backward multiplies the upstream gradient, broadcast against
  the input's shape, by \<open>0.5 (1 + tanh b + x / cosh\<^sup>2 b \<cdot> db)\<close> with
  \<open>db = a (1 + 3 \<cdot> 0.044715 x\<^sup>2)\<close>. \<open>gelu_ref\<close> is the reference of the
  test harness, PyTorch's \<^verbatim>\<open>gelu(x, approximate="tanh")\<close>, and \<open>gelu_ref_deriv\<close>
  its derivative.
\<close>

record gelu_ctx =
  gelu_x :: tensor2
  gelu_a :: real
  gelu_b :: tensor2

definition GELUFn_forward :: "tensor2 \<Rightarrow> (tensor2 \<times> gelu_ctx) result" where
  "GELUFn_forward x =
     (let a = sqrt (2 / pi);
          b = x\<lparr>ent := (\<lambda>t c. a * (ent x t c + 0.044715 * ent x t c ^ 3))\<rparr>
      in Inr (x\<lparr>ent := (\<lambda>t c. 0.5 * ent x t c * (1 + tanh (ent b t c)))\<rparr>,
              \<lparr>gelu_x = x, gelu_a = a, gelu_b = b\<rparr>))"

definition GELUFn_backward :: "gelu_ctx \<Rightarrow> tensor2 \<Rightarrow> tensor2 result" where
  "GELUFn_backward ctx y_grad =
     (let x = gelu_x ctx; a = gelu_a ctx; b = gelu_b ctx;
          db = x\<lparr>ent := (\<lambda>t c. a * (1 + 3 * 0.044715 * ent x t c ^ 2))\<rparr>
      in case bcast2 y_grad x of
           None \<Rightarrow> Inl RuntimeError
         | Some (r, k) \<Rightarrow> Inr \<lparr>rows = r, cols = k,
             ent = (\<lambda>t c. bent y_grad t c * 0.5 *
                     (1 + tanh (bent b t c) + bent x t c / cosh (bent b t c) ^ 2 * bent db t c))\<rparr>)"

definition gelu_ref :: "real \<Rightarrow> real" where
  "gelu_ref v = 0.5 * v * (1 + tanh (sqrt (2 / pi) * (v + 0.044715 * v ^ 3)))"

definition gelu_ref_deriv :: "real \<Rightarrow> real" where
  "gelu_ref_deriv v =
     (let b = sqrt (2 / pi) * (v + 0.044715 * v ^ 3)
      in 0.5 * (1 + tanh b + v * (1 - tanh b ^ 2) * (sqrt (2 / pi) * (1 + 3 * 0.044715 * v ^ 2))))"

lemma div_cosh_square: "z / cosh y ^ 2 = z * (1 - tanh y ^ 2)" for y z :: real
proof -
  have c: "cosh y \<noteq> 0" using cosh_real_pos[of y] by linarith
  have "1 - tanh y ^ 2 = (cosh y ^ 2 - sinh y ^ 2) / cosh y ^ 2"
    using c by (simp add: tanh_def power_divide field_simps)
  also have "\<dots> = 1 / cosh y ^ 2" by (simp add: cosh_square_eq)
  finally show ?thesis by simp
qed

lemma gelu_ref_has_deriv: "(gelu_ref has_real_derivative gelu_ref_deriv v) (at v)"
  unfolding gelu_ref_def gelu_ref_deriv_def Let_def
  by (rule derivative_eq_intros refl | simp add: algebra_simps)+

lemma fwd_loss_GELUFn:
  "fwd_loss g (GELUFn_forward x) = frob g (x\<lparr>ent := (\<lambda>t c. gelu_ref (ent x t c))\<rparr>)"
  by (simp add: GELUFn_forward_def gelu_ref_def Let_def)

lemma gelu_ref_shift_deriv: "((\<lambda>h. gelu_ref (v + h)) has_real_derivative gelu_ref_deriv v) (at 0)"
  using DERIV_shift [of gelu_ref "gelu_ref_deriv v" 0 v] gelu_ref_has_deriv [of v]
  by (simp add: add.commute)

lemma GELUFn_grad:
  assumes "same_shape g x" and "i < rows x" and "j < cols x"
  shows "\<exists>dx. then_backward (GELUFn_forward x) (\<lambda>ctx. GELUFn_backward ctx g) = Inr dx
           \<and> ((\<lambda>h. fwd_loss g (GELUFn_forward (perturb2 x i j h))) has_real_derivative ent dx i j) (at 0)"
proof -
  have ij: "i < rows g" "j < cols g" using assms by (simp_all add: same_shape_def)
  define dx where "dx = projr (then_backward (GELUFn_forward x) (\<lambda>ctx. GELUFn_backward ctx g))"
  have run: "then_backward (GELUFn_forward x) (\<lambda>ctx. GELUFn_backward ctx g) = Inr dx"
    using assms(1) by (simp add: dx_def GELUFn_forward_def GELUFn_backward_def Let_def)
  have dxij: "ent dx i j = ent g i j * gelu_ref_deriv (ent x i j)"
    using assms ij by (simp add: dx_def GELUFn_forward_def GELUFn_backward_def gelu_ref_deriv_def bent_def
                              div_cosh_square Let_def field_simps)
  have "((\<lambda>h. frob g ((perturb2 x i j h)\<lparr>ent := (\<lambda>t c. gelu_ref (ent (perturb2 x i j h) t c))\<rparr>))
          has_real_derivative ent g i j * gelu_ref_deriv (ent x i j)) (at 0)"
    by (rule DERIV_frob_single [OF _ gelu_ref_shift_deriv ij, where p = "\<lambda>t c. gelu_ref (ent x t c)"]) simp
  then show ?thesis
    using run dxij by (simp add: fwd_loss_GELUFn)
qed

text \<open>
  C4: run by the engine with an upstream gradient of the output's shape, backward
  succeeds and returns the exact partial derivative of the forward's objective with
  respect to every input entry.
\<close>

theorem gelu_backward_is_gradient:
  assumes "same_shape g x" and "i < rows x" and "j < cols x"
  shows "\<exists>dx. then_backward (GELUFn_forward x) (\<lambda>ctx. GELUFn_backward ctx g) = Inr dx
           \<and> ((\<lambda>h. fwd_loss g (GELUFn_forward (perturb2 x i j h))) has_real_derivative ent dx i j) (at 0)"
  using GELUFn_grad [OF assms] .

theorem gelu_backward_is_gradient_witness:
  "\<exists>dx. then_backward (GELUFn_forward (tensor2_of 2 [[0, 1]]))
            (\<lambda>ctx. GELUFn_backward ctx (tensor2_of 2 [[1, 1]])) = Inr dx
     \<and> ((\<lambda>h. fwd_loss (tensor2_of 2 [[1, 1]]) (GELUFn_forward (perturb2 (tensor2_of 2 [[0, 1]]) 0 1 h)))
          has_real_derivative ent dx 0 1) (at 0)"
proof -
  have h: "same_shape (tensor2_of 2 [[1, 1]]) (tensor2_of 2 [[0, 1]])"
    "0 < rows (tensor2_of 2 [[0, 1]])" "1 < cols (tensor2_of 2 [[0, 1]])"
    by (simp_all add: tensor_simps)
  show ?thesis by (rule gelu_backward_is_gradient [OF h])
qed

end
