(* ===== verification/Cross_Entropy.thy ===== *)
theory Cross_Entropy
  imports Prelude
begin

text \<open>
  \<^verbatim>\<open>CrossEntropyFn\<close> (\<^verbatim>\<open>src/src/modules.py\<close>, lines 9-23): mean negative
  log-likelihood of integer targets \<open>y\<close> under the row softmax of \<open>T \<times> C\<close> logits.
  Forward exponentiates directly (no max subtraction), normalises each row into
  \<open>s\<close>, saves \<open>x, y, s\<close> and returns \<^verbatim>\<open>-s[arange(T), y].log().mean(0)\<close>: the two
  index tensors broadcast (a single target serves every row), the mean of no terms is
  NaN, and otherwise a target outside \<open>[-C, C)\<close> raises IndexError (PyTorch checks
  an index as it reads it, so a target that the broadcast leaves unread is never checked). Backward returns
  \<^verbatim>\<open>y_grad * (s - eye(C)[y]) / T\<close> and no gradient for the targets. The output and
  the upstream gradient are scalars; the objective is \<open>g \<cdot> loss\<close>.
\<close>

record ce_ctx =
  ce_x :: tensor2
  ce_y :: "int list"
  ce_s :: tensor2

definition CrossEntropyFn_forward :: "tensor2 \<Rightarrow> int list \<Rightarrow> (real \<times> ce_ctx) result" where
  "CrossEntropyFn_forward x y =
     (let T = rows x; C = cols x;
          ex = x\<lparr>ent := (\<lambda>t c. exp (ent x t c))\<rparr>;
          s = x\<lparr>ent := (\<lambda>t c. ent ex t c / (\<Sum>k<C. ent ex t k))\<rparr>;
          ctx = \<lparr>ce_x = x, ce_y = y, ce_s = s\<rparr>
      in case bcast T (length y) of
           None \<Rightarrow> Inl RuntimeError
         | Some n \<Rightarrow>
             if n = 0 then Inl NotANumber
             else (case those (map (py_index C) y) of
               None \<Rightarrow> Inl IndexError
             | Some idx \<Rightarrow> Inr (- (\<Sum>k<n. ln (ent s (bidx T k) (idx ! bidx (length y) k))) / n, ctx)))"

definition CrossEntropyFn_backward :: "ce_ctx \<Rightarrow> real \<Rightarrow> (tensor2 \<times> unit grad) result" where
  "CrossEntropyFn_backward ctx y_grad =
     (let x = ce_x ctx; y = ce_y ctx; s = ce_s ctx; T = rows x; C = cols x
      in case those (map (py_index C) y) of
           None \<Rightarrow> Inl IndexError
         | Some idx \<Rightarrow> (case bcast T (length y) of
             None \<Rightarrow> Inl RuntimeError
           | Some n \<Rightarrow> Inr (\<lparr>rows = n, cols = C,
                             ent = (\<lambda>t c. y_grad * (ent s (bidx T t) c
                                           - (if c = idx ! bidx (length y) t then 1 else 0)) / T)\<rparr>,
                           NoGrad)))"

definition scalar_loss :: "real \<Rightarrow> error + (real \<times> 'c) \<Rightarrow> real" where
  "scalar_loss g r = (case r of Inl _ \<Rightarrow> 0 | Inr (l, _) \<Rightarrow> g * l)"

section \<open>Softmax rows\<close>

definition row_lse :: "tensor2 \<Rightarrow> nat \<Rightarrow> real" where
  "row_lse x t = (\<Sum>k<cols x. exp (ent x t k))"

lemma row_lse_pos: "0 < cols x \<Longrightarrow> 0 < row_lse x t"
  unfolding row_lse_def by (rule sum_pos) auto

lemma ln_softmax:
  "0 < cols x \<Longrightarrow> ln (exp (ent x t c) / row_lse x t) = ent x t c - ln (row_lse x t)"
  using row_lse_pos [of x t] by (simp add: ln_div)

lemma softmax_bounds:
  fixes a :: "nat \<Rightarrow> real"
  assumes "c < C"
  shows "0 < exp (a c) / (\<Sum>k<C. exp (a k))" "exp (a c) / (\<Sum>k<C. exp (a k)) \<le> 1"
proof -
  have le: "exp (a c) \<le> (\<Sum>k<C. exp (a k))"
    using assms by (intro member_le_sum) auto
  have pos: "0 < (\<Sum>k<C. exp (a k))" using assms by (intro sum_pos) auto
  show "0 < exp (a c) / (\<Sum>k<C. exp (a k))" using pos by simp
  show "exp (a c) / (\<Sum>k<C. exp (a k)) \<le> 1" using le pos by simp
qed

lemma those_py_index:
  assumes "those (map (py_index C) y) = Some idx"
  shows "length idx = length y" "\<forall>k<length y. idx ! k < C"
  using assms those_map_Some [of "py_index C" y idx] py_index_lt by auto

lemma those_py_index_pos_cols:
  assumes "those (map (py_index C) y) = Some idx" and "0 < length y"
  shows "0 < C"
  using those_py_index [OF assms(1)] assms(2) by (metis gr_zeroI less_nat_zero_code)

section \<open>The loss on well-shaped inputs\<close>

lemma scalar_loss_CrossEntropy:
  assumes idx: "those (map (py_index (cols x)) y) = Some idx"
    and T: "length y = rows x" "0 < rows x"
  shows "scalar_loss g (CrossEntropyFn_forward x y)
         = g * (- (\<Sum>t<rows x. ent x t (idx ! t) - ln (row_lse x t)) / rows x)"
proof -
  have C: "0 < cols x" using those_py_index_pos_cols [OF idx] T by simp
  have "(\<Sum>k<rows x. ln (exp (ent x (bidx (rows x) k) (idx ! bidx (rows x) k))
                            / (\<Sum>c<cols x. exp (ent x (bidx (rows x) k) c))))
        = (\<Sum>t<rows x. ent x t (idx ! t) - ln (row_lse x t))"
    using C by (intro sum.cong refl) (simp add: ln_softmax [unfolded row_lse_def] row_lse_def)
  then show ?thesis
    using idx T by (simp add: CrossEntropyFn_forward_def scalar_loss_def Let_def)
qed

lemma DERIV_ln_lse_row:
  assumes "j < (C :: nat)"
  shows "((\<lambda>h. ln (\<Sum>k<C. exp (a k + (if k = j then h else 0)))) has_real_derivative
           exp (a j) / (\<Sum>k<C. exp (a k))) (at 0)"
proof -
  have pos: "0 < (\<Sum>k<C. exp (a k))" using assms by (intro sum_pos) auto
  have eq: "(\<lambda>h. ln (\<Sum>k<C. exp (a k + (if k = j then h else 0))))
            = (\<lambda>h. ln (\<Sum>k<C. exp (a k + h * (if k = j then 1 else 0))))"
    by (intro ext arg_cong[where f = ln] sum.cong refl) simp
  have "((\<lambda>h. ln (\<Sum>k<C. exp (a k + h * (if k = j then 1 else 0)))) has_real_derivative
           (\<Sum>k<C. exp (a k) * (if k = j then 1 else 0)) / (\<Sum>k<C. exp (a k))) (at 0)"
    using pos by (auto intro!: derivative_eq_intros simp: field_simps)
  then show ?thesis using assms by (simp add: eq)
qed

lemma those_py_index_valid:
  assumes "list_all (\<lambda>i. - int C \<le> i \<and> i < int C) y"
  obtains idx where "those (map (py_index C) y) = Some idx"
proof -
  have "\<forall>a\<in>set y. py_index C a \<noteq> None"
    using assms by (auto simp: list_all_iff py_index_def)
  then show ?thesis
    using that those_map_None [of "py_index C" y] by (cases "those (map (py_index C) y)") auto
qed

lemma CrossEntropyFn_grad:
  assumes valid: "list_all (\<lambda>i. - int (cols x) \<le> i \<and> i < int (cols x)) y"
    and T: "length y = rows x" "0 < rows x"
  shows "\<exists>dx. then_backward (CrossEntropyFn_forward x y) (\<lambda>ctx. CrossEntropyFn_backward ctx g)
                = Inr (dx, NoGrad)
          \<and> rows dx = rows x \<and> cols dx = cols x
          \<and> (\<forall>i<rows x. \<forall>j<cols x.
               ((\<lambda>h. scalar_loss g (CrossEntropyFn_forward (perturb2 x i j h) y))
                  has_real_derivative ent dx i j) (at 0))"
proof -
  obtain idx where idx: "those (map (py_index (cols x)) y) = Some idx"
    using those_py_index_valid [OF valid] by blast
  have C: "0 < cols x" using those_py_index_pos_cols [OF idx] T by simp
  define R where "R = then_backward (CrossEntropyFn_forward x y) (\<lambda>ctx. CrossEntropyFn_backward ctx g)"
  define dx where "dx = fst (projr R)"
  have run: "R = Inr (dx, NoGrad)" "rows dx = rows x" "cols dx = cols x"
    using idx T by (simp_all add: R_def dx_def CrossEntropyFn_forward_def CrossEntropyFn_backward_def Let_def)
  have dx_ent: "ent dx i j = g * (exp (ent x i j) / row_lse x i - (if j = idx ! i then 1 else 0)) / rows x"
    if "i < rows x" for i j
    using idx T that by (simp add: R_def dx_def CrossEntropyFn_forward_def CrossEntropyFn_backward_def
                                     Let_def row_lse_def)
  have deriv: "((\<lambda>h. scalar_loss g (CrossEntropyFn_forward (perturb2 x i j h) y))
                 has_real_derivative ent dx i j) (at 0)" if ij: "i < rows x" "j < cols x" for i j
  proof -
    let ?A = "\<lambda>h. ent x i (idx ! i) + (if idx ! i = j then h else 0)
                    - ln (\<Sum>k<cols x. exp (ent x i k + (if k = j then h else 0)))"
    let ?K = "\<Sum>t<rows x. if t = i then 0 else ent x t (idx ! t) - ln (row_lse x t)"
    have split: "scalar_loss g (CrossEntropyFn_forward (perturb2 x i j h) y) = g * (- (?K + ?A h) / rows x)" for h
    proof -
      have "(\<Sum>t<rows x. ent (perturb2 x i j h) t (idx ! t) - ln (row_lse (perturb2 x i j h) t))
            = (\<Sum>t<rows x. (if t = i then 0 else ent x t (idx ! t) - ln (row_lse x t))
                             + (if t = i then ?A h else 0))"
        by (intro sum.cong refl) (auto simp: row_lse_def)
      then show ?thesis
        using scalar_loss_CrossEntropy [of "perturb2 x i j h" y idx g] idx T ij
        by (simp add: sum.distrib)
    qed
    have dA: "(?A has_real_derivative (if idx ! i = j then 1 else 0) - exp (ent x i j) / row_lse x i) (at 0)"
    proof -
      have d1: "((\<lambda>h. if idx ! i = j then h else 0) has_real_derivative (if idx ! i = j then 1 else 0)) (at 0)"
        by (cases "idx ! i = j") (auto intro!: derivative_eq_intros)
      have "(?A has_real_derivative (0 + (if idx ! i = j then 1 else 0))
                - exp (ent x i j) / (\<Sum>k<cols x. exp (ent x i k))) (at 0)"
        by (intro DERIV_diff DERIV_add DERIV_const d1 DERIV_ln_lse_row [OF ij(2)])
      then show ?thesis by (simp add: row_lse_def)
    qed
    have "((\<lambda>h. g * (- (?K + ?A h) / rows x)) has_real_derivative
             g * (- (0 + ((if idx ! i = j then 1 else 0) - exp (ent x i j) / row_lse x i)) / rows x)) (at 0)"
      by (intro DERIV_cmult DERIV_cdivide DERIV_minus DERIV_add DERIV_const dA)
    moreover have "g * (- (0 + ((if idx ! i = j then 1 else 0) - exp (ent x i j) / row_lse x i)) / rows x)
                   = ent dx i j"
      using dx_ent [OF ij(1), of j] by (simp add: field_simps)
    ultimately show ?thesis unfolding split by simp
  qed
  show ?thesis using run deriv unfolding R_def by blast
qed

text \<open>
  C2: for valid targets, one per row, backward run on forward's context returns no
  gradient for the targets and, for the logits, \<open>g (s - onehot) / T\<close>: the exact
  partial derivative of the forward's objective with respect to every logit.
\<close>

theorem cross_entropy_backward_is_gradient:
  assumes valid: "list_all (\<lambda>i. - int (cols x) \<le> i \<and> i < int (cols x)) y"
    and T: "length y = rows x" "0 < rows x"
  shows "\<exists>dx. then_backward (CrossEntropyFn_forward x y) (\<lambda>ctx. CrossEntropyFn_backward ctx g)
                = Inr (dx, NoGrad)
          \<and> rows dx = rows x \<and> cols dx = cols x
          \<and> (\<forall>i<rows x. \<forall>j<cols x.
               ((\<lambda>h. scalar_loss g (CrossEntropyFn_forward (perturb2 x i j h) y))
                  has_real_derivative ent dx i j) (at 0))"
  using CrossEntropyFn_grad [OF assms] .

section \<open>Properties of the loss and its gradient\<close>

lemma bcast_bidx_below:
  assumes "bcast T K = Some n" and "k < n"
  shows "bidx K k < K"
  using bcast_Some_cases [OF assms(1)] assms(2) by (auto simp: bidx_def)

text \<open>C28: whenever forward returns a value, the loss is non-negative.\<close>

theorem cross_entropy_loss_nonneg:
  assumes "CrossEntropyFn_forward x y = Inr (l, ctx)"
  shows "0 \<le> l"
proof -
  obtain n idx where n: "bcast (rows x) (length y) = Some n" and idx: "those (map (py_index (cols x)) y) = Some idx"
    and n0: "n \<noteq> 0"
    and l: "l = - (\<Sum>k<n. ln (exp (ent x (bidx (rows x) k) (idx ! bidx (length y) k))
                               / (\<Sum>c<cols x. exp (ent x (bidx (rows x) k) c)))) / n"
    using assms by (auto simp: CrossEntropyFn_forward_def Let_def split: option.splits if_splits)
  have "ln (exp (ent x (bidx (rows x) k) (idx ! bidx (length y) k))
            / (\<Sum>c<cols x. exp (ent x (bidx (rows x) k) c))) \<le> 0" if "k < n" for k
  proof -
    have "idx ! bidx (length y) k < cols x"
      using those_py_index [OF idx] bcast_bidx_below [OF n that] by simp
    then show ?thesis using softmax_bounds by (simp add: ln_le_zero_iff)
  qed
  then have "(\<Sum>k<n. ln (exp (ent x (bidx (rows x) k) (idx ! bidx (length y) k))
                          / (\<Sum>c<cols x. exp (ent x (bidx (rows x) k) c)))) \<le> 0"
    by (intro sum_nonpos) auto
  then show ?thesis using l by (simp add: divide_nonpos_nonneg)
qed

text \<open>C29: the saved softmax has rows that sum to one.\<close>

theorem cross_entropy_softmax_rows:
  assumes "CrossEntropyFn_forward x y = Inr (l, ctx)"
  shows "(\<Sum>c<cols x. ent (ce_s ctx) t c) = 1"
proof -
  obtain n idx where n: "bcast (rows x) (length y) = Some n" "n \<noteq> 0"
    and idx: "those (map (py_index (cols x)) y) = Some idx"
    and ctx: "ce_s ctx = x\<lparr>ent := (\<lambda>t c. exp (ent x t c) / (\<Sum>k<cols x. exp (ent x t k)))\<rparr>"
    using assms by (auto simp: CrossEntropyFn_forward_def Let_def split: option.splits if_splits)
  have "length y \<noteq> 0" using bcast_nonzero [OF n] .
  then have C: "0 < cols x" using those_py_index_pos_cols [OF idx] by simp
  have "0 < (\<Sum>k<cols x. exp (ent x t k))" using C by (intro sum_pos) auto
  then show ?thesis by (simp add: ctx sum_divide_distrib [symmetric])
qed

text \<open>
  C24: a single target broadcasts to every row: forward does not reject targets of
  length one for \<open>T\<close> rows, and scores every row against that one class.
\<close>

theorem cross_entropy_single_target_broadcast:
  assumes "py_index (cols x) y0 = Some c0" and "0 < rows x"
  shows "\<exists>ctx. CrossEntropyFn_forward x [y0]
           = Inr (- (\<Sum>t<rows x. ln (exp (ent x t c0) / row_lse x t)) / rows x, ctx)"
proof -
  have "(\<Sum>k<rows x. ln (exp (ent x (bidx (rows x) k) c0) / (\<Sum>c<cols x. exp (ent x (bidx (rows x) k) c))))
        = (\<Sum>t<rows x. ln (exp (ent x t c0) / row_lse x t))"
    by (intro sum.cong refl) (simp add: row_lse_def)
  then show ?thesis using assms by (simp add: CrossEntropyFn_forward_def Let_def)
qed


text \<open>
  C30: for valid targets, one per row, every row of the logits' gradient sums to zero:
  the softmax and the one-hot row each sum to one.
\<close>

theorem cross_entropy_grad_rows_sum_zero:
  assumes valid: "list_all (\<lambda>i. - int (cols x) \<le> i \<and> i < int (cols x)) y"
    and T: "length y = rows x" and t: "t < rows x"
    and run: "then_backward (CrossEntropyFn_forward x y) (\<lambda>ctx. CrossEntropyFn_backward ctx g) = Inr (dx, s)"
  shows "(\<Sum>c<cols dx. ent dx t c) = 0"
proof -
  obtain idx where idx: "those (map (py_index (cols x)) y) = Some idx"
    using those_py_index_valid [OF valid] by blast
  have C: "0 < cols x" using those_py_index_pos_cols [OF idx] T t by simp
  have it: "idx ! t < cols x" using those_py_index [OF idx] T t by simp
  have dx: "cols dx = cols x"
    "ent dx t c = g * (exp (ent x t c) / row_lse x t - (if c = idx ! t then 1 else 0)) / rows x" for c
    using run idx T t by (auto simp: CrossEntropyFn_forward_def CrossEntropyFn_backward_def Let_def row_lse_def)
  have "(\<Sum>c<cols x. exp (ent x t c) / row_lse x t) = 1"
    using row_lse_pos [OF C, of t] by (simp add: sum_divide_distrib [symmetric] row_lse_def)
  then have "(\<Sum>c<cols x. exp (ent x t c) / row_lse x t - (if c = idx ! t then 1 else 0)) = 0"
    using it by (simp add: sum_subtractf)
  then show ?thesis
    by (simp add: dx sum_divide_distrib [symmetric] sum_distrib_left [symmetric])
qed

section \<open>Witnesses\<close>

theorem cross_entropy_backward_is_gradient_witness:
  "\<exists>dx. then_backward (CrossEntropyFn_forward (tensor2_of 2 [[0, 1]]) [1]) (\<lambda>ctx. CrossEntropyFn_backward ctx 1)
          = Inr (dx, NoGrad)
     \<and> ((\<lambda>h. scalar_loss 1 (CrossEntropyFn_forward (perturb2 (tensor2_of 2 [[0, 1]]) 0 1 h) [1]))
          has_real_derivative ent dx 0 1) (at 0)"
proof -
  have h: "list_all (\<lambda>i. - int (cols (tensor2_of 2 [[0, 1]])) \<le> i \<and> i < int (cols (tensor2_of 2 [[0, 1]]))) [1]"
    "length [1 :: int] = rows (tensor2_of 2 [[0, 1]])" "0 < rows (tensor2_of 2 [[0, 1]])"
    by (simp_all add: tensor_simps)
  have r: "0 < rows (tensor2_of 2 [[0, 1]])" "1 < cols (tensor2_of 2 [[0, 1]])" by (simp_all add: tensor_simps)
  show ?thesis using cross_entropy_backward_is_gradient [OF h, of 1] r by blast
qed

theorem cross_entropy_loss_nonneg_witness:
  "0 \<le> fst (projr (CrossEntropyFn_forward (tensor2_of 2 [[0, 1]]) [1]))"
proof -
  have f: "CrossEntropyFn_forward (tensor2_of 2 [[0, 1]]) [1]
           = Inr (fst (projr (CrossEntropyFn_forward (tensor2_of 2 [[0, 1]]) [1])), snd (projr (CrossEntropyFn_forward (tensor2_of 2 [[0, 1]]) [1])))"
    by (simp add: CrossEntropyFn_forward_def Let_def tensor_simps)
  show ?thesis by (rule cross_entropy_loss_nonneg [OF f])
qed

theorem cross_entropy_softmax_rows_witness:
  "(\<Sum>c<cols (tensor2_of 2 [[0, 1]]). ent (ce_s (snd (projr (CrossEntropyFn_forward (tensor2_of 2 [[0, 1]]) [1])))) 0 c) = 1"
proof -
  have f: "CrossEntropyFn_forward (tensor2_of 2 [[0, 1]]) [1]
           = Inr (fst (projr (CrossEntropyFn_forward (tensor2_of 2 [[0, 1]]) [1])), snd (projr (CrossEntropyFn_forward (tensor2_of 2 [[0, 1]]) [1])))"
    by (simp add: CrossEntropyFn_forward_def Let_def tensor_simps)
  show ?thesis by (rule cross_entropy_softmax_rows [OF f])
qed

theorem cross_entropy_single_target_broadcast_witness:
  "\<exists>ctx. CrossEntropyFn_forward (tensor2_of 2 [[0, 1], [2, 3]]) [1]
     = Inr (- (\<Sum>t<rows (tensor2_of 2 [[0, 1], [2, 3]]).
                ln (exp (ent (tensor2_of 2 [[0, 1], [2, 3]]) t 1) / row_lse (tensor2_of 2 [[0, 1], [2, 3]]) t))
            / rows (tensor2_of 2 [[0, 1], [2, 3]]), ctx)"
proof -
  have h: "py_index (cols (tensor2_of 2 [[0, 1], [2, 3]])) 1 = Some 1" "0 < rows (tensor2_of 2 [[0, 1], [2, 3]])"
    by (simp_all add: tensor_simps py_index_def)
  show ?thesis by (rule cross_entropy_single_target_broadcast [OF h])
qed


theorem cross_entropy_grad_rows_sum_zero_witness:
  "(\<Sum>c<cols (fst (projr (then_backward (CrossEntropyFn_forward (tensor2_of 2 [[0, 1]]) [1]) (\<lambda>ctx. CrossEntropyFn_backward ctx 1)))).
      ent (fst (projr (then_backward (CrossEntropyFn_forward (tensor2_of 2 [[0, 1]]) [1]) (\<lambda>ctx. CrossEntropyFn_backward ctx 1)))) 0 c) = 0"
proof -
  let ?R = "then_backward (CrossEntropyFn_forward (tensor2_of 2 [[0, 1]]) [1]) (\<lambda>ctx. CrossEntropyFn_backward ctx 1)"
  have h: "list_all (\<lambda>i. - int (cols (tensor2_of 2 [[0, 1]])) \<le> i \<and> i < int (cols (tensor2_of 2 [[0, 1]]))) [1]"
    "length [1 :: int] = rows (tensor2_of 2 [[0, 1]])" "0 < rows (tensor2_of 2 [[0, 1]])"
    by (simp_all add: tensor_simps)
  have run: "?R = Inr (fst (projr ?R), snd (projr ?R))"
    by (simp add: CrossEntropyFn_forward_def CrossEntropyFn_backward_def Let_def tensor_simps)
  show ?thesis by (rule cross_entropy_grad_rows_sum_zero [OF h(1,2,3) run])
qed

end
