(* ===== verification/Layer_Norm.thy ===== *)
theory Layer_Norm
  imports Prelude
begin

text \<open>
  \<^verbatim>\<open>LayerNormFn\<close> (\<^verbatim>\<open>src/src/modules.py\<close>, lines 34-61): per row of a
  \<open>T \<times> C\<close> input, subtract the mean \<open>m\<close>, scale by \<open>sigma = 1 / sqrt (v + eps)\<close>
  where \<open>v\<close> is the (biased) variance and \<open>eps = 10\<^sup>-\<^sup>5\<close>, then apply the gain
  \<open>gamma\<close> and shift \<open>beta\<close>, which broadcast as PyTorch broadcasts them.
  The context saves \<open>x, gamma, beta, m, mu, v, sigma, y\<close>. Backward returns
  \<open>dx, dgamma, dbeta\<close> by the three \<^verbatim>\<open>einsum\<close> contractions of the source; its
  \<^verbatim>\<open>1 / C\<close> is Python integer division by \<open>C\<close> and raises ZeroDivisionError for
  \<open>C = 0\<close>. An upstream gradient of another shape than the output is rejected with a
  RuntimeError, as the engine's shape check does.
\<close>

definition ln_eps :: real where
  "ln_eps = 0.00001"

record layernorm_ctx =
  ln_x :: tensor2
  ln_gamma :: tensor1
  ln_beta :: tensor1
  ln_m :: tensor1
  ln_mu :: tensor2
  ln_v :: tensor1
  ln_sigma :: tensor1
  ln_y :: tensor2

definition LayerNormFn_forward :: "tensor2 \<Rightarrow> tensor1 \<Rightarrow> tensor1 \<Rightarrow> (tensor2 \<times> layernorm_ctx) result" where
  "LayerNormFn_forward x gamma beta =
     (let eps = ln_eps; C = cols x;
          m = \<lparr>len = rows x, el = (\<lambda>t. (\<Sum>c<C. ent x t c) / C)\<rparr>;
          mu = x\<lparr>ent := (\<lambda>t c. ent x t c - el m t)\<rparr>;
          v = \<lparr>len = rows x, el = (\<lambda>t. (\<Sum>c<C. ent mu t c ^ 2) / C)\<rparr>;
          sigma = \<lparr>len = rows x, el = (\<lambda>t. 1 / sqrt (el v t + eps))\<rparr>
      in case bcast C (len gamma) of
           None \<Rightarrow> Inl RuntimeError
         | Some N \<Rightarrow> (case bcast N (len beta) of
             None \<Rightarrow> Inl RuntimeError
           | Some N' \<Rightarrow>
               (let y = \<lparr>rows = rows x, cols = N',
                         ent = (\<lambda>t c. ent mu t (bidx C c) * el sigma t * el gamma (bidx (len gamma) c)
                                      + el beta (bidx (len beta) c))\<rparr>
                in Inr (y, \<lparr>ln_x = x, ln_gamma = gamma, ln_beta = beta, ln_m = m, ln_mu = mu,
                            ln_v = v, ln_sigma = sigma, ln_y = y\<rparr>))))"

definition LayerNormFn_backward :: "layernorm_ctx \<Rightarrow> tensor2 \<Rightarrow> (tensor2 \<times> tensor1 \<times> tensor1) result" where
  "LayerNormFn_backward ctx y_grad =
     (let x = ln_x ctx; gamma = ln_gamma ctx; mu = ln_mu ctx; sigma = ln_sigma ctx;
          T = rows x; C = cols x; N = cols y_grad; G = len gamma;
          dgamma = \<lparr>len = N, el = (\<lambda>c. \<Sum>t<T. ent y_grad t c * ent mu t (bidx C c) * el sigma t)\<rparr>;
          dbeta = \<lparr>len = N, el = (\<lambda>c. \<Sum>t<T. ent y_grad t c)\<rparr>
      in if rows y_grad \<noteq> rows (ln_y ctx) \<or> cols y_grad \<noteq> cols (ln_y ctx) then Inl RuntimeError
         else if C = 0 then Inl ZeroDivisionError
         else
           (let s1 = (\<lambda>t. \<Sum>c<N. ent y_grad t c * el gamma (bidx G c) * el sigma t);
                s2 = (\<lambda>t. \<Sum>c<N. ent y_grad t c * el gamma (bidx G c) * ent mu t (bidx C c) * el sigma t ^ 3)
            in Inr (\<lparr>rows = T, cols = N,
                      ent = (\<lambda>t c. ent y_grad t c * el gamma (bidx G c) * el sigma t
                                   - 1 / C * s1 t - 1 / C * ent mu t (bidx C c) * s2 t)\<rparr>,
                    dgamma, dbeta)))"

section \<open>Row statistics\<close>

definition row_mean :: "tensor2 \<Rightarrow> nat \<Rightarrow> real" where
  "row_mean x t = (\<Sum>c<cols x. ent x t c) / cols x"

definition row_var :: "tensor2 \<Rightarrow> nat \<Rightarrow> real" where
  "row_var x t = (\<Sum>c<cols x. (ent x t c - row_mean x t) ^ 2) / cols x"

definition ln_dir :: "nat \<Rightarrow> nat \<Rightarrow> nat \<Rightarrow> real" where
  "ln_dir C j c = (if c = j then 1 else 0) - 1 / C"

definition ln_row_obj :: "tensor2 \<Rightarrow> tensor1 \<Rightarrow> tensor1 \<Rightarrow> tensor2 \<Rightarrow> nat \<Rightarrow> real" where
  "ln_row_obj x gamma beta g t =
     (\<Sum>c<cols x. ent g t c * ((ent x t c - row_mean x t) * (1 / sqrt (row_var x t + ln_eps))
                               * el gamma c + el beta c))"

lemma ln_eps_pos [simp]: "0 < ln_eps"
  by (simp add: ln_eps_def)

lemma LayerNormFn_forward_shape:
  assumes "len gamma = cols x" "len beta = cols x"
  shows "\<exists>y ctx. LayerNormFn_forward x gamma beta = Inr (y, ctx) \<and> rows y = rows x \<and> cols y = cols x"
  using assms by (simp add: LayerNormFn_forward_def Let_def)

lemma row_var_nonneg: "0 \<le> row_var x t"
  by (simp add: row_var_def sum_nonneg)

lemma row_centered_sum: "0 < cols x \<Longrightarrow> (\<Sum>c<cols x. ent x t c - row_mean x t) = 0"
  by (simp add: row_mean_def sum_subtractf)

section \<open>The derivative of one normalised row\<close>

text \<open>
  Moving entry \<open>j\<close> of a row of width \<open>C\<close> by \<open>h\<close> moves its centred entries by
  \<open>h \<cdot> e c\<close>, \<open>e c = [c = j] - 1/C\<close>. The lemmas below differentiate the variance,
  the inverse standard deviation and the row's objective along that direction.
\<close>

lemma sum_ln_dir_mult:
  assumes "j < C" "(\<Sum>c<C. mu c) = 0"
  shows "(\<Sum>c<C. f c * ln_dir C j c) = f j - (\<Sum>c<C. f c) / C"
  by (simp add: ln_dir_def right_diff_distrib sum_subtractf sum_divide_distrib[symmetric] assms(1))

lemma DERIV_row_var:
  assumes "0 < C" "j < C" "(\<Sum>c<C. mu c) = 0"
  shows "((\<lambda>h. (\<Sum>c<C. (mu c + h * ln_dir C j c) ^ 2) / C + ln_eps) has_real_derivative
           2 * mu j / C) (at 0)"
proof -
  have "((\<lambda>h. \<Sum>c<C. (mu c + h * ln_dir C j c) ^ 2) has_real_derivative
           (\<Sum>c<C. 2 * mu c * ln_dir C j c)) (at 0)"
    by (auto intro!: derivative_eq_intros simp: algebra_simps)
  then have "((\<lambda>h. (\<Sum>c<C. (mu c + h * ln_dir C j c) ^ 2) / C + ln_eps) has_real_derivative
           (\<Sum>c<C. 2 * mu c * ln_dir C j c) / C + 0) (at 0)"
    by (intro DERIV_add DERIV_cdivide DERIV_const)
  moreover have "(\<Sum>c<C. 2 * mu c * ln_dir C j c) = 2 * mu j"
    using sum_ln_dir_mult[OF assms(2,3), of "\<lambda>c. 2 * mu c"] assms(3)
    by (simp add: sum_distrib_left[symmetric])
  ultimately show ?thesis by simp
qed

lemma DERIV_inv_sqrt:
  assumes "(V has_real_derivative D) (at 0)" and "0 < V 0"
  shows "((\<lambda>h. 1 / sqrt (V h)) has_real_derivative (- ((1 / sqrt (V 0)) ^ 3) * D / 2)) (at 0)"
proof -
  have "((\<lambda>h. 1 / sqrt (V h)) has_real_derivative
          - (1 * (inverse (sqrt (V 0)) / 2 * D)) / (sqrt (V 0) * sqrt (V 0))) (at 0)"
    using assms by (auto intro!: derivative_eq_intros)
  moreover have "- (1 * (inverse (sqrt (V 0)) / 2 * D)) / (sqrt (V 0) * sqrt (V 0))
                 = - ((1 / sqrt (V 0)) ^ 3) * D / 2"
    using assms(2) by (simp add: field_simps power3_eq_cube)
  ultimately show ?thesis by metis
qed

text \<open>The objective of one row, with the inverse standard deviation left abstract.\<close>

lemma DERIV_ln_row_objective:
  assumes "j < C" "(\<Sum>c<C. mu c) = 0"
    and rs: "(rs has_real_derivative r') (at 0)" "rs 0 = \<sigma>"
  shows "((\<lambda>h. \<Sum>c<C. g c * ((mu c + h * ln_dir C j c) * rs h * \<gamma> c + \<beta> c))
           has_real_derivative
           (g j * \<gamma> j * \<sigma> - (\<Sum>c<C. g c * \<gamma> c * \<sigma>) / C + r' * (\<Sum>c<C. g c * \<gamma> c * mu c))) (at 0)"
proof -
  have "((\<lambda>h. \<Sum>c<C. g c * ((mu c + h * ln_dir C j c) * rs h * \<gamma> c + \<beta> c))
           has_real_derivative (\<Sum>c<C. g c * ((ln_dir C j c * \<sigma> + mu c * r') * \<gamma> c))) (at 0)"
    using rs by (auto intro!: derivative_eq_intros simp: algebra_simps)
  moreover have "(\<Sum>c<C. g c * ((ln_dir C j c * \<sigma> + mu c * r') * \<gamma> c))
      = (\<Sum>c<C. (g c * \<gamma> c * \<sigma>) * ln_dir C j c) + r' * (\<Sum>c<C. g c * \<gamma> c * mu c)"
    by (simp add: sum.distrib sum_distrib_left algebra_simps)
  moreover have "(\<Sum>c<C. (g c * \<gamma> c * \<sigma>) * ln_dir C j c)
      = g j * \<gamma> j * \<sigma> - (\<Sum>c<C. g c * \<gamma> c * \<sigma>) / C"
    by (rule sum_ln_dir_mult [OF assms(1,2)])
  ultimately show ?thesis by simp
qed

section \<open>The operator on the shapes the module supplies\<close>

text \<open>
  With \<open>gamma\<close> and \<open>beta\<close> of length \<open>C\<close>, forward succeeds and the objective
  is the sum over rows of the normalised row against the upstream gradient.
\<close>

lemma fwd_loss_LayerNorm:
  assumes "len gamma = cols x" "len beta = cols x" "cols g = cols x"
  shows "fwd_loss g (LayerNormFn_forward x gamma beta) = (\<Sum>t<rows g. ln_row_obj x gamma beta g t)"
  unfolding LayerNormFn_forward_def ln_row_obj_def frob_def
  using assms by (simp add: Let_def row_mean_def row_var_def frob_def)

lemma row_mean_perturb2:
  "j < cols x \<Longrightarrow> row_mean (perturb2 x i j h) t = row_mean x t + (if t = i then h / cols x else 0)"
  by (simp add: row_mean_def sum.distrib add_divide_distrib)

lemma centered_perturb2:
  "j < cols x \<Longrightarrow>
   ent (perturb2 x i j h) t c - row_mean (perturb2 x i j h) t
   = (ent x t c - row_mean x t) + (if t = i then h * ln_dir (cols x) j c else 0)"
  by (simp add: row_mean_perturb2 ln_dir_def algebra_simps)

lemma row_var_perturb2:
  "j < cols x \<Longrightarrow> row_var (perturb2 x i j h) t
   = (\<Sum>c<cols x. ((ent x t c - row_mean x t) + (if t = i then h * ln_dir (cols x) j c else 0)) ^ 2) / cols x"
  unfolding row_var_def by (simp only: perturb2_shape centered_perturb2)

lemma ln_row_obj_perturb2_other:
  "j < cols x \<Longrightarrow> t \<noteq> i \<Longrightarrow> ln_row_obj (perturb2 x i j h) gamma beta g t = ln_row_obj x gamma beta g t"
  by (simp add: ln_row_obj_def centered_perturb2 row_var_perturb2 row_var_def del: ent_perturb2)

lemma ln_row_obj_perturb2_same:
  "j < cols x \<Longrightarrow> ln_row_obj (perturb2 x i j h) gamma beta g i
   = (\<Sum>c<cols x. ent g i c * (((ent x i c - row_mean x i) + h * ln_dir (cols x) j c)
        * (1 / sqrt ((\<Sum>c<cols x. ((ent x i c - row_mean x i) + h * ln_dir (cols x) j c) ^ 2) / cols x + ln_eps))
        * el gamma c + el beta c))"
  by (simp add: ln_row_obj_def centered_perturb2 row_var_perturb2 del: ent_perturb2)

text \<open>The row-wise objective, differentiated in one input entry.\<close>

lemma layernorm_dx_deriv:
  assumes shapes: "len gamma = cols x" "len beta = cols x" "same_shape g x"
    and ij: "i < rows x" "j < cols x"
  defines "mu \<equiv> \<lambda>c. ent x i c - row_mean x i"
    and "\<sigma> \<equiv> 1 / sqrt (row_var x i + ln_eps)"
  shows "((\<lambda>h. fwd_loss g (LayerNormFn_forward (perturb2 x i j h) gamma beta)) has_real_derivative
           ent g i j * el gamma j * \<sigma> - 1 / cols x * (\<Sum>c<cols x. ent g i c * el gamma c * \<sigma>)
           - 1 / cols x * mu j * (\<Sum>c<cols x. ent g i c * el gamma c * mu c * \<sigma> ^ 3)) (at 0)"
proof -
  let ?C = "cols x"
  let ?V = "\<lambda>h. (\<Sum>c<?C. (mu c + h * ln_dir ?C j c) ^ 2) / ?C + ln_eps"
  let ?R = "\<lambda>h. \<Sum>c<?C. ent g i c * ((mu c + h * ln_dir ?C j c) * (1 / sqrt (?V h)) * el gamma c + el beta c)"
  have C: "0 < ?C" using ij by simp
  have mu0: "(\<Sum>c<?C. mu c) = 0" using row_centered_sum[OF C] by (simp add: mu_def)
  have V0: "?V 0 = row_var x i + ln_eps" by (simp add: mu_def row_var_def)
  have Vpos: "0 < ?V 0" using V0 row_var_nonneg[of x i] ln_eps_pos by linarith
  have dV: "(?V has_real_derivative 2 * mu j / ?C) (at 0)"
    by (rule DERIV_row_var [OF C ij(2) mu0])
  have rs0: "1 / sqrt (?V 0) = \<sigma>" by (simp only: V0 \<sigma>_def)
  have drs: "((\<lambda>h. 1 / sqrt (?V h)) has_real_derivative - (\<sigma> ^ 3) * (2 * mu j / ?C) / 2) (at 0)"
    using DERIV_inv_sqrt [OF dV Vpos] by (simp only: rs0)
  have dR: "(?R has_real_derivative
             ent g i j * el gamma j * \<sigma> - (\<Sum>c<?C. ent g i c * el gamma c * \<sigma>) / ?C
             + (- (\<sigma> ^ 3) * (2 * mu j / ?C) / 2) * (\<Sum>c<?C. ent g i c * el gamma c * mu c)) (at 0)"
    by (rule DERIV_ln_row_objective [OF ij(2) mu0 drs rs0])
  have split: "fwd_loss g (LayerNormFn_forward (perturb2 x i j h) gamma beta)
        = (\<Sum>t<rows x. if t = i then 0 else ln_row_obj x gamma beta g t) + ?R h" for h
  proof -
    have "fwd_loss g (LayerNormFn_forward (perturb2 x i j h) gamma beta)
          = (\<Sum>t<rows x. ln_row_obj (perturb2 x i j h) gamma beta g t)"
      using shapes by (simp add: fwd_loss_LayerNorm same_shape_def)
    also have "\<dots> = (\<Sum>t<rows x. (if t = i then 0 else ln_row_obj x gamma beta g t)
                                    + (if t = i then ?R h else 0))"
      using ij by (intro sum.cong refl)
        (auto simp: ln_row_obj_perturb2_other ln_row_obj_perturb2_same mu_def)
    finally show ?thesis using ij by (simp add: sum.distrib)
  qed
  have "((\<lambda>h. (\<Sum>t<rows x. if t = i then 0 else ln_row_obj x gamma beta g t) + ?R h) has_real_derivative
          0 + (ent g i j * el gamma j * \<sigma> - (\<Sum>c<?C. ent g i c * el gamma c * \<sigma>) / ?C
             + (- (\<sigma> ^ 3) * (2 * mu j / ?C) / 2) * (\<Sum>c<?C. ent g i c * el gamma c * mu c))) (at 0)"
    by (intro DERIV_add DERIV_const dR)
  moreover have "0 + (ent g i j * el gamma j * \<sigma> - (\<Sum>c<?C. ent g i c * el gamma c * \<sigma>) / ?C
             + (- (\<sigma> ^ 3) * (2 * mu j / ?C) / 2) * (\<Sum>c<?C. ent g i c * el gamma c * mu c))
      = ent g i j * el gamma j * \<sigma> - 1 / ?C * (\<Sum>c<?C. ent g i c * el gamma c * \<sigma>)
           - 1 / ?C * mu j * (\<Sum>c<?C. ent g i c * el gamma c * mu c * \<sigma> ^ 3)"
  proof -
    have s1: "(\<Sum>c<?C. ent g i c * el gamma c * \<sigma>) = \<sigma> * (\<Sum>c<?C. ent g i c * el gamma c)"
      by (simp add: sum_distrib_left mult_ac)
    have s3: "(\<Sum>c<?C. ent g i c * el gamma c * mu c * \<sigma> ^ 3)
              = \<sigma> ^ 3 * (\<Sum>c<?C. ent g i c * el gamma c * mu c)"
      by (simp add: sum_distrib_left mult_ac)
    show ?thesis unfolding s1 s3 using C by (simp add: field_simps)
  qed
  ultimately show ?thesis unfolding split by (simp only:)
qed

lemma ln_row_obj_perturb_gamma:
  "k < cols x \<Longrightarrow> ln_row_obj x (perturb1 gamma k h) beta g t
   = ln_row_obj x gamma beta g t
     + h * (ent g t k * (ent x t k - row_mean x t) * (1 / sqrt (row_var x t + ln_eps)))"
  unfolding ln_row_obj_def
  by (simp add: distrib_left distrib_right sum.distrib mult.assoc)
     (simp add: if_distrib[where f = "\<lambda>z. z * _"] if_distrib[where f = "\<lambda>z. _ * z"]
                if_distrib[where f = "\<lambda>z. z / _"] sum.delta cong: if_cong)

lemma ln_row_obj_perturb_beta:
  "k < cols x \<Longrightarrow> ln_row_obj x gamma (perturb1 beta k h) g t
   = ln_row_obj x gamma beta g t + h * ent g t k"
  unfolding ln_row_obj_def
  by (simp add: distrib_left sum.distrib mult.commute)

lemma LayerNormFn_grad:
  assumes shapes: "len gamma = cols x" "len beta = cols x" "same_shape g x" and C: "0 < cols x"
  shows "\<exists>dx dgamma dbeta.
      then_backward (LayerNormFn_forward x gamma beta) (\<lambda>ctx. LayerNormFn_backward ctx g)
        = Inr (dx, dgamma, dbeta)
    \<and> (\<forall>i<rows x. \<forall>j<cols x.
         ((\<lambda>h. fwd_loss g (LayerNormFn_forward (perturb2 x i j h) gamma beta))
            has_real_derivative ent dx i j) (at 0))
    \<and> (\<forall>k<cols x.
         ((\<lambda>h. fwd_loss g (LayerNormFn_forward x (perturb1 gamma k h) beta))
            has_real_derivative el dgamma k) (at 0))
    \<and> (\<forall>k<cols x.
         ((\<lambda>h. fwd_loss g (LayerNormFn_forward x gamma (perturb1 beta k h)))
            has_real_derivative el dbeta k) (at 0))"
proof -
  define R where "R = then_backward (LayerNormFn_forward x gamma beta) (\<lambda>ctx. LayerNormFn_backward ctx g)"
  define dx where "dx = fst (projr R)"
  define dgamma where "dgamma = fst (snd (projr R))"
  define dbeta where "dbeta = snd (snd (projr R))"
  have gs: "rows g = rows x" "cols g = cols x" using shapes(3) by (simp_all add: same_shape_def)
  have run: "R = Inr (dx, dgamma, dbeta)"
    using shapes C gs by (simp add: R_def dx_def dgamma_def dbeta_def LayerNormFn_forward_def
                                     LayerNormFn_backward_def Let_def)
  let ?mu = "\<lambda>t c. ent x t c - row_mean x t"
  let ?\<sigma> = "\<lambda>t. 1 / sqrt (row_var x t + ln_eps)"
  have dx_ent: "ent dx i j = ent g i j * el gamma j * ?\<sigma> i
           - 1 / cols x * (\<Sum>c<cols x. ent g i c * el gamma c * ?\<sigma> i)
           - 1 / cols x * ?mu i j * (\<Sum>c<cols x. ent g i c * el gamma c * ?mu i c * ?\<sigma> i ^ 3)"
    if "j < cols x" for i j
    using shapes C gs that by (simp add: dx_def R_def LayerNormFn_forward_def LayerNormFn_backward_def
                                         Let_def row_mean_def row_var_def)
  have dgamma_el: "el dgamma k = (\<Sum>t<rows x. ent g t k * ?mu t k * ?\<sigma> t)" if "k < cols x" for k
    using shapes C gs that by (simp add: dgamma_def R_def LayerNormFn_forward_def LayerNormFn_backward_def
                                         Let_def row_mean_def row_var_def)
  have dbeta_el: "el dbeta k = (\<Sum>t<rows x. ent g t k)" for k
    using shapes C gs by (simp add: dbeta_def R_def LayerNormFn_forward_def LayerNormFn_backward_def Let_def)
  have gx: "((\<lambda>h. fwd_loss g (LayerNormFn_forward (perturb2 x i j h) gamma beta))
             has_real_derivative ent dx i j) (at 0)" if "i < rows x" "j < cols x" for i j
    using layernorm_dx_deriv [OF shapes(1-3) that] dx_ent [OF that(2)] by simp
  have ggamma: "((\<lambda>h. fwd_loss g (LayerNormFn_forward x (perturb1 gamma k h) beta))
             has_real_derivative el dgamma k) (at 0)" if k: "k < cols x" for k
  proof (rule DERIV_affine)
    fix h
    show "fwd_loss g (LayerNormFn_forward x (perturb1 gamma k h) beta)
          = fwd_loss g (LayerNormFn_forward x gamma beta) + h * el dgamma k"
      using shapes gs k
      by (simp add: fwd_loss_LayerNorm ln_row_obj_perturb_gamma dgamma_el sum.distrib
                    sum_distrib_left mult_ac)
  qed
  have gbeta: "((\<lambda>h. fwd_loss g (LayerNormFn_forward x gamma (perturb1 beta k h)))
             has_real_derivative el dbeta k) (at 0)" if k: "k < cols x" for k
  proof (rule DERIV_affine)
    fix h
    show "fwd_loss g (LayerNormFn_forward x gamma (perturb1 beta k h))
          = fwd_loss g (LayerNormFn_forward x gamma beta) + h * el dbeta k"
      using shapes gs k
      by (simp add: fwd_loss_LayerNorm ln_row_obj_perturb_beta dbeta_el sum.distrib sum_distrib_left)
  qed
  show ?thesis using run gx ggamma gbeta unfolding R_def by blast
qed

text \<open>
  C1: run by the engine on inputs of the shapes the module supplies (\<open>C > 0\<close>, gain
  and bias of length \<open>C\<close>) with an upstream gradient of the output's shape, backward
  succeeds, and its three results are the exact partial derivatives of the forward's
  objective with respect to every entry of the input, the gain and the bias.
\<close>

theorem layernorm_backward_is_gradient:
  assumes shapes: "len gamma = cols x" "len beta = cols x" "same_shape g x" and C: "0 < cols x"
  shows "\<exists>dx dgamma dbeta.
      then_backward (LayerNormFn_forward x gamma beta) (\<lambda>ctx. LayerNormFn_backward ctx g)
        = Inr (dx, dgamma, dbeta)
    \<and> (\<forall>i<rows x. \<forall>j<cols x.
         ((\<lambda>h. fwd_loss g (LayerNormFn_forward (perturb2 x i j h) gamma beta))
            has_real_derivative ent dx i j) (at 0))
    \<and> (\<forall>k<cols x.
         ((\<lambda>h. fwd_loss g (LayerNormFn_forward x (perturb1 gamma k h) beta))
            has_real_derivative el dgamma k) (at 0))
    \<and> (\<forall>k<cols x.
         ((\<lambda>h. fwd_loss g (LayerNormFn_forward x gamma (perturb1 beta k h)))
            has_real_derivative el dbeta k) (at 0))"
  using LayerNormFn_grad [OF assms] .

text \<open>
  C21: with no features (\<open>C = 0\<close>) forward succeeds with an empty output, but backward,
  run by the engine on a gradient of that shape, raises ZeroDivisionError at the Python
  integer division \<^verbatim>\<open>1 / C\<close>.
\<close>

theorem layernorm_zero_features_backward_error:
  assumes "cols x = 0" "len gamma \<le> 1" "len beta \<le> 1" "rows g = rows x" "cols g = 0"
  shows "(\<exists>y ctx. LayerNormFn_forward x gamma beta = Inr (y, ctx) \<and> cols y = 0)
         \<and> then_backward (LayerNormFn_forward x gamma beta) (\<lambda>ctx. LayerNormFn_backward ctx g)
            = Inl ZeroDivisionError"
proof -
  have "bcast 0 (len gamma) = Some 0" "bcast 0 (len beta) = Some 0"
    using assms(2,3) by (auto simp: bcast_def le_Suc_eq)
  then show ?thesis using assms by (simp add: LayerNormFn_forward_def LayerNormFn_backward_def Let_def)
qed

lemma layernorm_forward_cols:
  assumes "LayerNormFn_forward x gamma beta = Inr (y, ctx)" and "c < cols y"
  shows "bidx (cols x) c < cols x"
proof -
  obtain N N' where N: "bcast (cols x) (len gamma) = Some N" and N': "bcast N (len beta) = Some N'"
    and y: "cols y = N'"
    using assms(1) by (auto simp: LayerNormFn_forward_def Let_def split: option.splits)
  show ?thesis
  proof (cases "cols x = 1")
    case True
    then show ?thesis by (simp add: bidx_def)
  next
    case False
    then have "N = cols x" using bcast_Some_cases [OF N] by auto
    then have "N' = cols x" using bcast_Some_cases [OF N'] False by auto
    then show ?thesis using assms(2) y by simp
  qed
qed

text \<open>
  C35: rows of the input that are equal give equal rows of the output: forward treats
  the rows independently.
\<close>

theorem layernorm_equal_rows:
  assumes "LayerNormFn_forward x gamma beta = Inr (y, ctx)"
    and "\<forall>c<cols x. ent x t c = ent x t' c"
  shows "\<forall>c<cols y. ent y t c = ent y t' c"
proof -
  have m: "(\<Sum>c<cols x. ent x t c) = (\<Sum>c<cols x. ent x t' c)"
    using assms(2) by (intro sum.cong) auto
  have v: "(\<Sum>c<cols x. (ent x t c - (\<Sum>c<cols x. ent x t c) / cols x)\<^sup>2)
         = (\<Sum>c<cols x. (ent x t' c - (\<Sum>c<cols x. ent x t' c) / cols x)\<^sup>2)"
    using assms(2) m by (intro sum.cong) auto
  have e: "ent x t (bidx (cols x) c) = ent x t' (bidx (cols x) c)" if "c < cols y" for c
    using assms(2) layernorm_forward_cols [OF assms(1) that] by simp
  show ?thesis using assms(1) m v e
    by (auto simp: LayerNormFn_forward_def Let_def split: option.splits)
qed

theorem layernorm_backward_is_gradient_witness:
  "\<exists>dx dgamma dbeta.
      then_backward (LayerNormFn_forward (tensor2_of 2 [[1, 3]]) (tensor1_of [1, 1]) (tensor1_of [0, 0]))
        (\<lambda>ctx. LayerNormFn_backward ctx (tensor2_of 2 [[1, 0]])) = Inr (dx, dgamma, dbeta)
    \<and> ((\<lambda>h. fwd_loss (tensor2_of 2 [[1, 0]])
            (LayerNormFn_forward (perturb2 (tensor2_of 2 [[1, 3]]) 0 1 h) (tensor1_of [1, 1]) (tensor1_of [0, 0])))
         has_real_derivative ent dx 0 1) (at 0)"
proof -
  have h: "len (tensor1_of [1, 1]) = cols (tensor2_of 2 [[1, 3]])"
    "len (tensor1_of [0, 0]) = cols (tensor2_of 2 [[1, 3]])"
    "same_shape (tensor2_of 2 [[1, 0]]) (tensor2_of 2 [[1, 3]])"
    "0 < cols (tensor2_of 2 [[1, 3]])"
    by (simp_all add: tensor_simps)
  have r: "0 < rows (tensor2_of 2 [[1, 3]])" "1 < cols (tensor2_of 2 [[1, 3]])"
    by (simp_all add: tensor_simps)
  show ?thesis using layernorm_backward_is_gradient [OF h] r by blast
qed

theorem layernorm_zero_features_backward_error_witness:
  "then_backward (LayerNormFn_forward (tensor2_of 0 [[], []]) (tensor1_of []) (tensor1_of []))
     (\<lambda>ctx. LayerNormFn_backward ctx (tensor2_of 0 [[], []])) = Inl ZeroDivisionError"
proof -
  have h: "cols (tensor2_of 0 [[], []]) = 0" "len (tensor1_of []) \<le> 1" "len (tensor1_of []) \<le> 1"
    "rows (tensor2_of 0 [[], []]) = rows (tensor2_of 0 [[], []])" "cols (tensor2_of 0 [[], []]) = 0"
    by (simp_all add: tensor_simps)
  show ?thesis using layernorm_zero_features_backward_error [OF h] by blast
qed

theorem layernorm_equal_rows_witness:
  "ent (fst (projr (LayerNormFn_forward (tensor2_of 2 [[1, 3], [1, 3]]) (tensor1_of [2, 2]) (tensor1_of [1, 1])))) 0 1
   = ent (fst (projr (LayerNormFn_forward (tensor2_of 2 [[1, 3], [1, 3]]) (tensor1_of [2, 2]) (tensor1_of [1, 1])))) 1 1"
proof -
  let ?r = "LayerNormFn_forward (tensor2_of 2 [[1, 3], [1, 3]]) (tensor1_of [2, 2]) (tensor1_of [1, 1])"
  have f: "?r = Inr (fst (projr ?r), snd (projr ?r))"
    by (simp add: LayerNormFn_forward_def Let_def tensor_simps bcast_def)
  have e: "\<forall>c<cols (tensor2_of 2 [[1, 3], [1, 3]]). ent (tensor2_of 2 [[1, 3], [1, 3]]) 0 c
                                               = ent (tensor2_of 2 [[1, 3], [1, 3]]) 1 c"
    by (auto simp: tensor_simps less_Suc_eq numeral_2_eq_2)
  have c: "1 < cols (fst (projr ?r))"
    by (simp add: LayerNormFn_forward_def Let_def tensor_simps bcast_def)
  show ?thesis using layernorm_equal_rows [OF f e] c by blast
qed

end
