(* ===== verification/Linear_Op.thy ===== *)
theory Linear_Op
  imports Prelude
begin

text \<open>
  \<^verbatim>\<open>LinearFn\<close> (\<^verbatim>\<open>src/src/modules.py\<close>, lines 76-89): \<open>y = x W\<^sup>T + b\<close> for a
  \<open>T \<times> I\<close> input, an \<open>O \<times> I\<close> weight and a bias of length \<open>O\<close> (or 1, which
  \<^verbatim>\<open>expand_as\<close> broadcasts). The context saves input, weight and bias. Backward
  returns \<open>g W\<close>, \<open>g\<^sup>T x\<close> and the column sums of \<open>g\<close>. The failures are the
  RuntimeErrors of \<^verbatim>\<open>@\<close> and \<^verbatim>\<open>expand_as\<close> on incompatible shapes.
\<close>

record linear_ctx =
  lin_x :: tensor2
  lin_weight :: tensor2
  lin_bias :: tensor1

definition LinearFn_forward :: "tensor2 \<Rightarrow> tensor2 \<Rightarrow> tensor1 \<Rightarrow> (tensor2 \<times> linear_ctx) result" where
  "LinearFn_forward x weight bias =
     (let ctx = \<lparr>lin_x = x, lin_weight = weight, lin_bias = bias\<rparr> in
      if cols x \<noteq> cols weight then Inl RuntimeError
      else if len bias \<noteq> rows weight \<and> len bias \<noteq> 1 then Inl RuntimeError
      else Inr (\<lparr>rows = rows x, cols = rows weight,
                 ent = (\<lambda>t u. (\<Sum>k<cols x. ent x t k * ent weight u k) + el bias (bidx (len bias) u))\<rparr>,
                ctx))"

definition LinearFn_backward :: "linear_ctx \<Rightarrow> tensor2 \<Rightarrow> (tensor2 \<times> tensor2 \<times> tensor1) result" where
  "LinearFn_backward ctx y_grad =
     (let x = lin_x ctx; weight = lin_weight ctx in
      if cols y_grad \<noteq> rows weight then Inl RuntimeError
      else if rows y_grad \<noteq> rows x then Inl RuntimeError
      else Inr (\<lparr>rows = rows y_grad, cols = cols weight,
                 ent = (\<lambda>t k. \<Sum>u<cols y_grad. ent y_grad t u * ent weight u k)\<rparr>,
                \<lparr>rows = cols y_grad, cols = cols x,
                 ent = (\<lambda>u k. \<Sum>t<rows y_grad. ent y_grad t u * ent x t k)\<rparr>,
                \<lparr>len = cols y_grad, el = (\<lambda>u. \<Sum>t<rows y_grad. ent y_grad t u)\<rparr>))"

definition linear_out :: "tensor2 \<Rightarrow> tensor2 \<Rightarrow> tensor1 \<Rightarrow> tensor2" where
  "linear_out x weight bias =
     \<lparr>rows = rows x, cols = rows weight,
      ent = (\<lambda>t u. (\<Sum>k<cols x. ent x t k * ent weight u k) + el bias (bidx (len bias) u))\<rparr>"

lemma LinearFn_forward_ok:
  "cols x = cols weight \<Longrightarrow> len bias = rows weight \<or> len bias = 1 \<Longrightarrow>
   LinearFn_forward x weight bias
   = Inr (linear_out x weight bias, \<lparr>lin_x = x, lin_weight = weight, lin_bias = bias\<rparr>)"
  by (auto simp: LinearFn_forward_def linear_out_def Let_def)

lemma ent_linear_out [simp]:
  "ent (linear_out x weight bias) t u
   = (\<Sum>k<cols x. ent x t k * ent weight u k) + el bias (bidx (len bias) u)"
  "rows (linear_out x weight bias) = rows x" "cols (linear_out x weight bias) = rows weight"
  by (simp_all add: linear_out_def)

text \<open>How the output moves when one entry of an input moves.\<close>

lemma linear_out_perturb_x:
  "j < cols x \<Longrightarrow> ent (linear_out (perturb2 x i j h) weight bias) t u
   = ent (linear_out x weight bias) t u + h * (if t = i then ent weight u j else 0)"
  by (auto simp: distrib_right sum.distrib)

lemma linear_out_perturb_w:
  "j < cols x \<Longrightarrow> ent (linear_out x (perturb2 weight i j h) bias) t u
   = ent (linear_out x weight bias) t u + h * (if u = i then ent x t j else 0)"
  by (auto simp: distrib_left sum.distrib mult.commute)

text \<open>C31: forward fails, with a RuntimeError, exactly on incompatible shapes.\<close>

theorem linear_forward_error_iff:
  "LinearFn_forward x w b = Inl e
   \<longleftrightarrow> (cols x \<noteq> cols w \<or> (len b \<noteq> rows w \<and> len b \<noteq> 1)) \<and> e = RuntimeError"
  by (auto simp: LinearFn_forward_def Let_def)

lemma linear_out_perturb_b:
  "ent (linear_out x weight (perturb1 bias k h)) t u
   = ent (linear_out x weight bias) t u + h * (if bidx (len bias) u = k then 1 else 0)"
  by simp

lemma LinearFn_grad:
  assumes shapes: "cols x = cols w" "len b = rows w" "rows g = rows x" "cols g = rows w"
  shows "\<exists>dx dw db. then_backward (LinearFn_forward x w b) (\<lambda>ctx. LinearFn_backward ctx g)
                       = Inr (dx, dw, db)
    \<and> (\<forall>i<rows x. \<forall>j<cols x.
         ((\<lambda>h. fwd_loss g (LinearFn_forward (perturb2 x i j h) w b)) has_real_derivative ent dx i j) (at 0))
    \<and> (\<forall>i<rows w. \<forall>j<cols w.
         ((\<lambda>h. fwd_loss g (LinearFn_forward x (perturb2 w i j h) b)) has_real_derivative ent dw i j) (at 0))
    \<and> (\<forall>k<len b.
         ((\<lambda>h. fwd_loss g (LinearFn_forward x w (perturb1 b k h))) has_real_derivative el db k) (at 0))"
proof -
  define dx where "dx = \<lparr>rows = rows g, cols = cols w,
                          ent = (\<lambda>t k. \<Sum>u<cols g. ent g t u * ent w u k)\<rparr>"
  define dw where "dw = \<lparr>rows = cols g, cols = cols x,
                          ent = (\<lambda>u k. \<Sum>t<rows g. ent g t u * ent x t k)\<rparr>"
  define db where "db = \<lparr>len = cols g, el = (\<lambda>u. \<Sum>t<rows g. ent g t u)\<rparr>"
  have run: "then_backward (LinearFn_forward x w b) (\<lambda>ctx. LinearFn_backward ctx g) = Inr (dx, dw, db)"
    using shapes by (simp add: LinearFn_forward_ok LinearFn_backward_def dx_def dw_def db_def)
  have gx: "((\<lambda>h. fwd_loss g (LinearFn_forward (perturb2 x i j h) w b)) has_real_derivative ent dx i j) (at 0)"
    if ij: "i < rows x" "j < cols x" for i j
  proof -
    have "((\<lambda>h. frob g (linear_out (perturb2 x i j h) w b)) has_real_derivative
            (\<Sum>t<rows g. \<Sum>c<cols g. ent g t c * (if t = i then ent w c j else 0))) (at 0)"
      by (rule DERIV_frob_affine [where p = "ent (linear_out x w b)"])
         (rule linear_out_perturb_x [OF ij(2)])
    then show ?thesis
      using shapes ij
      by (simp add: LinearFn_forward_ok dx_def if_distrib[where f = "\<lambda>z. _ * z"] cong: if_cong)
  qed
  have gw: "((\<lambda>h. fwd_loss g (LinearFn_forward x (perturb2 w i j h) b)) has_real_derivative ent dw i j) (at 0)"
    if ij: "i < rows w" "j < cols w" for i j
  proof -
    have "((\<lambda>h. frob g (linear_out x (perturb2 w i j h) b)) has_real_derivative
            (\<Sum>t<rows g. \<Sum>c<cols g. ent g t c * (if c = i then ent x t j else 0))) (at 0)"
      by (rule DERIV_frob_affine [where p = "ent (linear_out x w b)"])
         (rule linear_out_perturb_w, simp add: ij shapes)
    then show ?thesis using shapes ij by (simp add: LinearFn_forward_ok dw_def mult.commute)
  qed
  have gb: "((\<lambda>h. fwd_loss g (LinearFn_forward x w (perturb1 b k h))) has_real_derivative el db k) (at 0)"
    if k: "k < len b" for k
  proof -
    have "((\<lambda>h. frob g (linear_out x w (perturb1 b k h))) has_real_derivative
            (\<Sum>t<rows g. \<Sum>c<cols g. ent g t c * (if bidx (len b) c = k then 1 else 0))) (at 0)"
      by (rule DERIV_frob_affine [where p = "ent (linear_out x w b)"]) (rule linear_out_perturb_b)
    moreover have "(\<Sum>t<rows g. \<Sum>c<cols g. ent g t c * (if bidx (len b) c = k then 1 else 0))
                   = (\<Sum>t<rows g. \<Sum>c<cols g. ent g t c * (if c = k then 1 else 0))"
      using shapes by (intro sum.cong refl) simp
    ultimately show ?thesis using shapes k by (simp add: LinearFn_forward_ok db_def)
  qed
  show ?thesis using run gx gw gb by blast
qed

text \<open>
  C3: run by the engine on inputs of the shapes the module supplies (bias of length
  \<open>O\<close>) and an upstream gradient of the output's shape, backward succeeds, and its three
  results are the exact partial derivatives of the forward's objective with respect to
  every entry of the input, the weight and the bias.
\<close>

theorem linear_backward_is_gradient:
  assumes shapes: "cols x = cols w" "len b = rows w" "rows g = rows x" "cols g = rows w"
  shows "\<exists>dx dw db. then_backward (LinearFn_forward x w b) (\<lambda>ctx. LinearFn_backward ctx g)
                       = Inr (dx, dw, db)
    \<and> (\<forall>i<rows x. \<forall>j<cols x.
         ((\<lambda>h. fwd_loss g (LinearFn_forward (perturb2 x i j h) w b)) has_real_derivative ent dx i j) (at 0))
    \<and> (\<forall>i<rows w. \<forall>j<cols w.
         ((\<lambda>h. fwd_loss g (LinearFn_forward x (perturb2 w i j h) b)) has_real_derivative ent dw i j) (at 0))
    \<and> (\<forall>k<len b.
         ((\<lambda>h. fwd_loss g (LinearFn_forward x w (perturb1 b k h))) has_real_derivative el db k) (at 0))"
  using LinearFn_grad [OF assms] .

theorem linear_forward_error_iff_witness:
  "LinearFn_forward (tensor2_of 2 [[1, 2]]) (tensor2_of 2 [[3, 4]]) (tensor1_of [5, 6]) = Inl RuntimeError"
  using linear_forward_error_iff [of "tensor2_of 2 [[1, 2]]" "tensor2_of 2 [[3, 4]]" "tensor1_of [5, 6]"]
  by (simp add: tensor_simps)

theorem linear_backward_is_gradient_witness:
  "\<exists>dx dw db. then_backward (LinearFn_forward (tensor2_of 1 [[2]]) (tensor2_of 1 [[3]]) (tensor1_of [5]))
                 (\<lambda>ctx. LinearFn_backward ctx (tensor2_of 1 [[7]])) = Inr (dx, dw, db)
     \<and> ((\<lambda>h. fwd_loss (tensor2_of 1 [[7]])
            (LinearFn_forward (perturb2 (tensor2_of 1 [[2]]) 0 0 h) (tensor2_of 1 [[3]]) (tensor1_of [5])))
          has_real_derivative ent dx 0 0) (at 0)"
proof -
  have h: "cols (tensor2_of 1 [[2]]) = cols (tensor2_of 1 [[3]])"
    "len (tensor1_of [5]) = rows (tensor2_of 1 [[3]])"
    "rows (tensor2_of 1 [[7]]) = rows (tensor2_of 1 [[2]])"
    "cols (tensor2_of 1 [[7]]) = rows (tensor2_of 1 [[3]])"
    by (simp_all add: tensor_simps)
  have r: "0 < rows (tensor2_of 1 [[2]])" "0 < cols (tensor2_of 1 [[2]])"
    by (simp_all add: tensor_simps)
  show ?thesis using linear_backward_is_gradient [OF h] r by blast
qed

end
