(* ===== verification/Embedding_Op.thy ===== *)
theory Embedding_Op
  imports Prelude
begin

text \<open>
  \<^verbatim>\<open>EmbeddingFn\<close> (\<^verbatim>\<open>src/src/modules.py\<close>, lines 148-158): forward gathers the
  rows \<^verbatim>\<open>emb[x]\<close> of an \<open>N \<times> D\<close> table at the integer indices \<open>x\<close>, with Python's
  negative indexing; an index outside \<open>[-N, N)\<close> raises IndexError. Backward builds
  \<^verbatim>\<open>torch.index_add(torch.zeros_like(emb), 0, x, y_grad)\<close>: the loop
  \<open>index_add_loop\<close> adds row \<open>t\<close> of the upstream gradient to row \<open>x ! t\<close> of a
  zero table, in order. \<^verbatim>\<open>index_add\<close> checks the source's shape (RuntimeError) and
  accepts only indices in \<open>[0, N)\<close> (IndexError): unlike forward, no negative index.
  The index input gets no gradient (\<open>NoGrad\<close>).
\<close>

record embedding_ctx =
  emb_x :: "int list"
  emb_table :: tensor2

definition EmbeddingFn_forward :: "int list \<Rightarrow> tensor2 \<Rightarrow> (tensor2 \<times> embedding_ctx) result" where
  "EmbeddingFn_forward x emb =
     (case those (map (py_index (rows emb)) x) of
        None \<Rightarrow> Inl IndexError
      | Some idx \<Rightarrow> Inr (\<lparr>rows = length x, cols = cols emb, ent = (\<lambda>t d. ent emb (idx ! t) d)\<rparr>,
                        \<lparr>emb_x = x, emb_table = emb\<rparr>))"

primrec index_add_loop :: "tensor2 \<Rightarrow> tensor2 \<Rightarrow> nat \<Rightarrow> nat list \<Rightarrow> tensor2" where
  "index_add_loop acc src t [] = acc"
| "index_add_loop acc src t (i # is) =
     index_add_loop (acc\<lparr>ent := (\<lambda>r d. ent acc r d + (if r = i then ent src t d else 0))\<rparr>) src (Suc t) is"

definition EmbeddingFn_backward :: "embedding_ctx \<Rightarrow> tensor2 \<Rightarrow> (unit grad \<times> tensor2) result" where
  "EmbeddingFn_backward ctx y_grad =
     (let x = emb_x ctx; emb = emb_table ctx in
      if rows y_grad \<noteq> length x \<or> cols y_grad \<noteq> cols emb then Inl RuntimeError
      else if \<not> list_all (\<lambda>i. 0 \<le> i \<and> i < int (rows emb)) x then Inl IndexError
      else Inr (NoGrad, index_add_loop (emb\<lparr>ent := (\<lambda>r d. 0)\<rparr>) y_grad 0 (map nat x)))"

section \<open>The accumulation loop\<close>

lemma index_add_loop_shape [simp]:
  "rows (index_add_loop acc src t is) = rows acc" "cols (index_add_loop acc src t is) = cols acc"
  by (induction "is" arbitrary: acc t) simp_all

text \<open>The loop adds, to each row, the source rows of every position that names it.\<close>

lemma index_add_loop_ent:
  "ent (index_add_loop acc src t is) r d
   = ent acc r d + (\<Sum>k<length is. if is ! k = r then ent src (t + k) d else 0)"
proof (induction "is" arbitrary: acc t)
  case Nil
  then show ?case by simp
next
  case (Cons i "is")
  have "(\<Sum>k<length (i # is). if (i # is) ! k = r then ent src (t + k) d else 0)
        = (if i = r then ent src t d else 0)
          + (\<Sum>k<length is. if is ! k = r then ent src (Suc t + k) d else 0)"
    unfolding length_Cons sum.lessThan_Suc_shift by (simp cong: if_cong)
  then show ?case by (simp add: Cons.IH)
qed

lemma index_add_loop_zero_src:
  assumes "\<And>t d. ent src t d = 0"
  shows "ent (index_add_loop acc src t is) r d = ent acc r d"
  by (simp add: index_add_loop_ent assms cong: if_cong)

lemma distinct_map_nat_nonneg:
  "list_all (\<lambda>i. 0 \<le> i) x \<Longrightarrow> distinct x \<Longrightarrow> distinct (map nat x)"
  by (auto simp: distinct_map list_all_iff inj_on_def eq_nat_nat_iff)

lemma those_py_index_nonneg:
  "list_all (\<lambda>i. 0 \<le> i \<and> i < int n) x \<Longrightarrow> those (map (py_index n) x) = Some (map nat x)"
  by (induction x) auto

lemma EmbeddingFn_forward_nonneg:
  "list_all (\<lambda>i. 0 \<le> i \<and> i < int (rows emb)) x \<Longrightarrow>
   EmbeddingFn_forward x emb
   = Inr (\<lparr>rows = length x, cols = cols emb, ent = (\<lambda>t d. ent emb (map nat x ! t) d)\<rparr>,
          \<lparr>emb_x = x, emb_table = emb\<rparr>)"
  by (simp add: EmbeddingFn_forward_def those_py_index_nonneg)

section \<open>Properties\<close>

text \<open>
  C6: for valid indices and an upstream gradient of the output's shape, the gradient of
  the table has row \<open>n\<close> equal to the sum of the upstream rows at every position whose
  index is \<open>n\<close>: repeated indices accumulate, they do not overwrite.
\<close>

theorem embedding_backward_accumulates:
  assumes "list_all (\<lambda>i. 0 \<le> i \<and> i < int (rows emb)) x"
    and "rows g = length x" "cols g = cols emb"
  shows "\<exists>demb. then_backward (EmbeddingFn_forward x emb) (\<lambda>ctx. EmbeddingFn_backward ctx g)
                   = Inr (NoGrad, demb)
           \<and> rows demb = rows emb \<and> cols demb = cols emb
           \<and> (\<forall>n d. ent demb n d = (\<Sum>t<length x. if nat (x ! t) = n then ent g t d else 0))"
  using assms by (simp add: EmbeddingFn_forward_nonneg EmbeddingFn_backward_def index_add_loop_ent cong: if_cong)

lemma EmbeddingFn_grad:
  assumes valid: "list_all (\<lambda>i. 0 \<le> i \<and> i < int (rows emb)) x"
    and shape: "rows g = length x" "cols g = cols emb"
  shows "\<exists>demb. then_backward (EmbeddingFn_forward x emb) (\<lambda>ctx. EmbeddingFn_backward ctx g)
                   = Inr (NoGrad, demb)
           \<and> (\<forall>n<rows emb. \<forall>d<cols emb.
                ((\<lambda>h. fwd_loss g (EmbeddingFn_forward x (perturb2 emb n d h)))
                   has_real_derivative ent demb n d) (at 0))"
proof -
  define demb where "demb = index_add_loop (emb\<lparr>ent := (\<lambda>r d. 0)\<rparr>) g 0 (map nat x)"
  have run: "then_backward (EmbeddingFn_forward x emb) (\<lambda>ctx. EmbeddingFn_backward ctx g)
             = Inr (NoGrad, demb)"
    using assms by (simp add: EmbeddingFn_forward_nonneg EmbeddingFn_backward_def demb_def)
  have valid': "list_all (\<lambda>i. 0 \<le> i \<and> i < int (rows (perturb2 emb n d h))) x" for n d h
    using valid by simp
  have deriv: "((\<lambda>h. fwd_loss g (EmbeddingFn_forward x (perturb2 emb n d h)))
                 has_real_derivative ent demb n d) (at 0)" if "d < cols emb" for n d
  proof -
    have "((\<lambda>h. frob g \<lparr>rows = length x, cols = cols emb,
                         ent = (\<lambda>t c. ent (perturb2 emb n d h) (map nat x ! t) c)\<rparr>)
           has_real_derivative
           (\<Sum>t<rows g. \<Sum>c<cols g. ent g t c * (if map nat x ! t = n \<and> c = d then 1 else 0))) (at 0)"
      by (rule DERIV_frob_affine [where p = "\<lambda>t c. ent emb (map nat x ! t) c"]) simp
    moreover have inner: "(\<Sum>c<cols g. ent g t c * (if map nat x ! t = n \<and> c = d then 1 else 0))
                   = (if nat (x ! t) = n then ent g t d else 0)" if "t < length x" for t
      using shape \<open>d < cols emb\<close> that by (cases "nat (x ! t) = n") simp_all
    then have "(\<Sum>t<rows g. \<Sum>c<cols g. ent g t c * (if map nat x ! t = n \<and> c = d then 1 else 0))
                   = (\<Sum>t<length x. if nat (x ! t) = n then ent g t d else 0)"
      using shape by (intro sum.cong) simp_all
    ultimately show ?thesis
      using valid'[of n d] by (simp add: EmbeddingFn_forward_nonneg demb_def index_add_loop_ent cong: if_cong)
  qed
  show ?thesis using run deriv by blast
qed

text \<open>
  C5: for valid indices, backward returns no gradient for the indices and, for the
  table, the exact partial derivative of the forward's objective at every table entry.
\<close>

theorem embedding_backward_is_gradient:
  assumes valid: "list_all (\<lambda>i. 0 \<le> i \<and> i < int (rows emb)) x"
    and shape: "rows g = length x" "cols g = cols emb"
  shows "\<exists>demb. then_backward (EmbeddingFn_forward x emb) (\<lambda>ctx. EmbeddingFn_backward ctx g)
                   = Inr (NoGrad, demb)
           \<and> (\<forall>n<rows emb. \<forall>d<cols emb.
                ((\<lambda>h. fwd_loss g (EmbeddingFn_forward x (perturb2 emb n d h)))
                   has_real_derivative ent demb n d) (at 0))"
  using EmbeddingFn_grad [OF assms] .

text \<open>
  C19: an index in \<open>[-N, 0)\<close> is accepted by forward, which reads row \<open>N + i\<close> as
  Python does, but \<^verbatim>\<open>index_add\<close> in backward rejects it: the engine's backward pass
  raises IndexError for an input forward accepted.
\<close>

theorem embedding_negative_index_backward_error:
  assumes "list_all (\<lambda>i. - int (rows emb) \<le> i \<and> i < int (rows emb)) x"
    and "\<exists>i\<in>set x. i < 0"
    and "rows g = length x" "cols g = cols emb"
  shows "(\<exists>y ctx. EmbeddingFn_forward x emb = Inr (y, ctx))
         \<and> then_backward (EmbeddingFn_forward x emb) (\<lambda>ctx. EmbeddingFn_backward ctx g) = Inl IndexError"
proof -
  have "\<forall>a\<in>set x. py_index (rows emb) a \<noteq> None"
    using assms(1) by (auto simp: list_all_iff py_index_def)
  then obtain idx where idx: "those (map (py_index (rows emb)) x) = Some idx"
    using those_map_None [of "py_index (rows emb)" x] by (cases "those (map (py_index (rows emb)) x)") auto
  have "\<not> list_all (\<lambda>i. 0 \<le> i \<and> i < int (rows emb)) x"
  proof
    assume "list_all (\<lambda>i. 0 \<le> i \<and> i < int (rows emb)) x"
    then show False using assms(2) by (auto simp: list_all_iff)
  qed
  then show ?thesis
    using idx assms(3,4) by (simp add: EmbeddingFn_forward_def EmbeddingFn_backward_def)
qed

text \<open>C32: forward fails exactly when an index lies outside \<open>[-N, N)\<close>, with IndexError.\<close>

theorem embedding_forward_error_iff:
  "EmbeddingFn_forward x emb = Inl e
   \<longleftrightarrow> (\<exists>i\<in>set x. i < - int (rows emb) \<or> int (rows emb) \<le> i) \<and> e = IndexError"
proof -
  show ?thesis
    using those_map_None [of "py_index (rows emb)" x] py_index_None_iff
    by (auto simp: EmbeddingFn_forward_def split: option.splits)
qed

text \<open>
  C18: round trip of gather and scatter: for distinct indices in \<open>[0, N)\<close>, backward's
  \<^verbatim>\<open>index_add\<close>, applied to forward's own output as upstream gradient, gives back the table
  on every row an index names and zero on every other row; for a permutation of the rows it
  gives back the table.
\<close>

theorem embedding_scatter_gather_roundtrip:
  assumes dist: "distinct x" and valid: "list_all (\<lambda>i. 0 \<le> i \<and> i < int (rows emb)) x"
    and fwd: "EmbeddingFn_forward x emb = Inr (y, ctx)"
  shows "\<exists>d. EmbeddingFn_backward ctx y = Inr (NoGrad, d) \<and> rows d = rows emb \<and> cols d = cols emb
           \<and> (\<forall>r<rows emb. \<forall>c<cols emb. ent d r c = (if int r \<in> set x then ent emb r c else 0))"
proof -
  have y: "y = \<lparr>rows = length x, cols = cols emb, ent = (\<lambda>t d. ent emb (map nat x ! t) d)\<rparr>"
    and ctx: "ctx = \<lparr>emb_x = x, emb_table = emb\<rparr>"
    using fwd EmbeddingFn_forward_nonneg [OF valid] by auto
  have dm: "distinct (map nat x)"
    using valid dist by (intro distinct_map_nat_nonneg) (auto simp: list_all_iff)
  have mem: "int r \<in> set x \<longleftrightarrow> r \<in> set (map nat x)" for r
    using valid by (force simp: list_all_iff)
  have "ent (index_add_loop (emb\<lparr>ent := (\<lambda>r d. 0)\<rparr>) y 0 (map nat x)) r c
        = (if int r \<in> set x then ent emb r c else 0)" for r c
  proof -
    have "ent (index_add_loop (emb\<lparr>ent := (\<lambda>r d. 0)\<rparr>) y 0 (map nat x)) r c
          = (\<Sum>k<length (map nat x). if map nat x ! k = r then ent emb r c else 0)"
      unfolding index_add_loop_ent y by (simp cong: if_cong)
    then show ?thesis using sum_nth_distinct [OF dm, of r "ent emb r c"] mem [of r] by simp
  qed
  then show ?thesis
    using valid by (simp add: EmbeddingFn_backward_def ctx y)
qed


theorem embedding_backward_accumulates_witness:
  "\<exists>demb. then_backward (EmbeddingFn_forward [1, 1] (tensor2_of 1 [[10], [20]]))
               (\<lambda>ctx. EmbeddingFn_backward ctx (tensor2_of 1 [[3], [4]])) = Inr (NoGrad, demb)
     \<and> ent demb 1 0 = 7"
proof -
  have h: "list_all (\<lambda>i. 0 \<le> i \<and> i < int (rows (tensor2_of 1 [[10], [20]]))) [1, 1]"
    "rows (tensor2_of 1 [[3], [4]]) = length [1, 1 :: int]"
    "cols (tensor2_of 1 [[3], [4]]) = cols (tensor2_of 1 [[10], [20]])"
    by (simp_all add: tensor_simps)
  have s: "(\<Sum>t<length [1, 1 :: int]. if nat ([1, 1 :: int] ! t) = 1 then ent (tensor2_of 1 [[3], [4]]) t 0 else 0)
           = (7 :: real)"
    by (simp add: tensor_simps lessThan_Suc)
  show ?thesis using embedding_backward_accumulates [OF h] s by auto
qed

theorem embedding_backward_is_gradient_witness:
  "\<exists>demb. then_backward (EmbeddingFn_forward [1, 1] (tensor2_of 1 [[10], [20]]))
               (\<lambda>ctx. EmbeddingFn_backward ctx (tensor2_of 1 [[3], [4]])) = Inr (NoGrad, demb)
     \<and> ((\<lambda>h. fwd_loss (tensor2_of 1 [[3], [4]])
            (EmbeddingFn_forward [1, 1] (perturb2 (tensor2_of 1 [[10], [20]]) 1 0 h)))
          has_real_derivative ent demb 1 0) (at 0)"
proof -
  have h: "list_all (\<lambda>i. 0 \<le> i \<and> i < int (rows (tensor2_of 1 [[10], [20]]))) [1, 1]"
    "rows (tensor2_of 1 [[3], [4]]) = length [1, 1 :: int]"
    "cols (tensor2_of 1 [[3], [4]]) = cols (tensor2_of 1 [[10], [20]])"
    by (simp_all add: tensor_simps)
  have r: "1 < rows (tensor2_of 1 [[10], [20]])" "0 < cols (tensor2_of 1 [[10], [20]])"
    by (simp_all add: tensor_simps)
  show ?thesis using embedding_backward_is_gradient [OF h] r by blast
qed

theorem embedding_negative_index_backward_error_witness:
  "(\<exists>y ctx. EmbeddingFn_forward [-1] (tensor2_of 1 [[10], [20]]) = Inr (y, ctx))
   \<and> then_backward (EmbeddingFn_forward [-1] (tensor2_of 1 [[10], [20]]))
       (\<lambda>ctx. EmbeddingFn_backward ctx (tensor2_of 1 [[3]])) = Inl IndexError"
proof -
  have h: "list_all (\<lambda>i. - int (rows (tensor2_of 1 [[10], [20]])) \<le> i \<and> i < int (rows (tensor2_of 1 [[10], [20]]))) [-1]"
    "\<exists>i\<in>set [-1 :: int]. i < 0"
    "rows (tensor2_of 1 [[3]]) = length [-1 :: int]"
    "cols (tensor2_of 1 [[3]]) = cols (tensor2_of 1 [[10], [20]])"
    by (simp_all add: tensor_simps)
  show ?thesis by (rule embedding_negative_index_backward_error [OF h])
qed

theorem embedding_forward_error_iff_witness:
  "EmbeddingFn_forward [2] (tensor2_of 1 [[10], [20]]) = Inl IndexError"
  using embedding_forward_error_iff [of "[2]" "tensor2_of 1 [[10], [20]]" IndexError]
  by (simp add: tensor_simps)

theorem embedding_scatter_gather_roundtrip_witness:
  "\<exists>d. EmbeddingFn_backward (snd (projr (EmbeddingFn_forward [1, 0] \<lparr>rows = 2, cols = 1, ent = (\<lambda>r c. real r + 1)\<rparr>)))
                            (fst (projr (EmbeddingFn_forward [1, 0] \<lparr>rows = 2, cols = 1, ent = (\<lambda>r c. real r + 1)\<rparr>)))
        = Inr (NoGrad, d) \<and> ent d 0 0 = 1 \<and> ent d 1 0 = 2"
proof -
  let ?E = "\<lparr>rows = 2, cols = 1, ent = (\<lambda>r c. real r + 1)\<rparr>"
  have h: "distinct [1, 0 :: int]" "list_all (\<lambda>i. 0 \<le> i \<and> i < int (rows ?E)) [1, 0]"
    "EmbeddingFn_forward [1, 0] ?E = Inr (fst (projr (EmbeddingFn_forward [1, 0] ?E)), snd (projr (EmbeddingFn_forward [1, 0] ?E)))"
    by (simp_all add: EmbeddingFn_forward_def)
  obtain d where d: "EmbeddingFn_backward (snd (projr (EmbeddingFn_forward [1, 0] ?E))) (fst (projr (EmbeddingFn_forward [1, 0] ?E)))
                     = Inr (NoGrad, d)"
    and e: "\<forall>r<rows ?E. \<forall>c<cols ?E. ent d r c = (if int r \<in> set [1, 0] then ent ?E r c else 0)"
    using embedding_scatter_gather_roundtrip [OF h] by blast
  have "ent d 0 0 = 1" "ent d 1 0 = 2" using e by simp_all
  then show ?thesis using d by blast
qed

end
