(* ===== verification/Torch_Modules.thy ===== *)
theory Torch_Modules
  imports Layer_Norm Linear_Op Embedding_Op Cross_Entropy Gelu_Op Add_Op
begin

text \<open>
  The \<^verbatim>\<open>nn.Module\<close> wrappers of \<^verbatim>\<open>src/src/modules.py\<close>: each owns its parameters
  (a record) and calls its operator's forward with them. \<^verbatim>\<open>LayerNorm\<close> initialises
  the gain to ones and the bias to zeros (lines 64-73). \<^verbatim>\<open>Linear\<close> (lines 92-103)
  and \<^verbatim>\<open>Embedding\<close> (lines 161-168) draw their parameters at random: the generator
  is not modelled, the draws are relations (\<open>Linear_init_drawn\<close>,
  \<open>Embedding_init_drawn\<close>) between the constructor's arguments and every parameter
  record it may produce. \<^verbatim>\<open>Linear\<close>'s weight is drawn by
  \<^verbatim>\<open>kaiming_uniform_(a = sqrt 5)\<close>, whose bound \<open>kaiming_uniform_bound\<close> is
  PyTorch's, and its bias uniformly within the bound the code computes (\<open>linear_bound\<close>).
  The parameterless wrappers \<^verbatim>\<open>CrossEntropy\<close>, \<^verbatim>\<open>GELU\<close> and \<^verbatim>\<open>Add\<close> call
  their operator directly.
\<close>

record layernorm_module =
  lnm_gamma :: tensor1
  lnm_beta :: tensor1

definition LayerNorm_init :: "nat \<Rightarrow> layernorm_module" where
  "LayerNorm_init c_dim = \<lparr>lnm_gamma = \<lparr>len = c_dim, el = (\<lambda>c. 1)\<rparr>,
                           lnm_beta = \<lparr>len = c_dim, el = (\<lambda>c. 0)\<rparr>\<rparr>"

definition LayerNorm_forward :: "layernorm_module \<Rightarrow> tensor2 \<Rightarrow> (tensor2 \<times> layernorm_ctx) result" where
  "LayerNorm_forward m x = LayerNormFn_forward x (lnm_gamma m) (lnm_beta m)"

record linear_module =
  lm_weight :: tensor2
  lm_bias :: tensor1

definition linear_module_shaped :: "nat \<Rightarrow> nat \<Rightarrow> linear_module \<Rightarrow> bool" where
  "linear_module_shaped in_c out_c m \<longleftrightarrow>
     rows (lm_weight m) = out_c \<and> cols (lm_weight m) = in_c \<and> len (lm_bias m) = out_c"

definition Linear_forward :: "linear_module \<Rightarrow> tensor2 \<Rightarrow> (tensor2 \<times> linear_ctx) result" where
  "Linear_forward m x = LinearFn_forward x (lm_weight m) (lm_bias m)"

definition kaiming_uniform_bound :: "real \<Rightarrow> nat \<Rightarrow> real" where
  "kaiming_uniform_bound a fan_in = sqrt (2 / (1 + a ^ 2)) * sqrt (3 / fan_in)"

definition linear_bound :: "nat \<Rightarrow> real" where
  "linear_bound fan_in = (if 0 < fan_in then 1 / sqrt fan_in else 0)"

definition Linear_init_drawn :: "nat \<Rightarrow> nat \<Rightarrow> linear_module \<Rightarrow> bool" where
  "Linear_init_drawn in_c out_c m \<longleftrightarrow>
     linear_module_shaped in_c out_c m
     \<and> (\<forall>u<out_c. \<forall>k<in_c. - kaiming_uniform_bound (sqrt 5) in_c \<le> ent (lm_weight m) u k
                            \<and> ent (lm_weight m) u k < kaiming_uniform_bound (sqrt 5) in_c)
     \<and> (\<forall>u<out_c. - linear_bound in_c \<le> el (lm_bias m) u \<and> el (lm_bias m) u \<le> linear_bound in_c)"

record embedding_module =
  em_emb :: tensor2

definition Embedding_init_drawn :: "nat \<Rightarrow> nat \<Rightarrow> embedding_module \<Rightarrow> bool" where
  "Embedding_init_drawn n_emb d_emb m \<longleftrightarrow> rows (em_emb m) = n_emb \<and> cols (em_emb m) = d_emb"

definition Embedding_forward :: "embedding_module \<Rightarrow> int list \<Rightarrow> (tensor2 \<times> embedding_ctx) result" where
  "Embedding_forward m x = EmbeddingFn_forward x (em_emb m)"

definition CrossEntropy_forward :: "tensor2 \<Rightarrow> int list \<Rightarrow> (real \<times> ce_ctx) result" where
  "CrossEntropy_forward x y = CrossEntropyFn_forward x y"

definition GELU_forward :: "tensor2 \<Rightarrow> (tensor2 \<times> gelu_ctx) result" where
  "GELU_forward x = GELUFn_forward x"

definition Add_forward :: "tensor2 \<Rightarrow> tensor2 \<Rightarrow> (tensor2 \<times> unit) result" where
  "Add_forward a b = AddFn_forward a b"

lemma kaiming_bound_sqrt5:
  assumes "0 < n"
  shows "kaiming_uniform_bound (sqrt 5) n = linear_bound n"
proof -
  have "kaiming_uniform_bound (sqrt 5) n = sqrt (2 / 6 * (3 / n))"
    by (simp add: kaiming_uniform_bound_def real_sqrt_mult [symmetric])
  also have "\<dots> = 1 / sqrt n" by (simp add: real_sqrt_divide)
  finally show ?thesis using assms by (simp add: linear_bound_def)
qed

text \<open>
  C37: at its initial parameters the LayerNorm module normalises every row: the output
  row sums to zero and its mean square is \<open>v / (v + eps)\<close> for the row variance
  \<open>v\<close>, strictly below one (the spec's ``variance \<open>\<approx>\<close> 1'').
\<close>

theorem layernorm_init_normalizes:
  assumes "0 < cols x"
  shows "\<exists>y ctx. LayerNorm_forward (LayerNorm_init (cols x)) x = Inr (y, ctx)
           \<and> rows y = rows x \<and> cols y = cols x
           \<and> (\<forall>t<rows x. (\<Sum>c<cols x. ent y t c) = 0
                 \<and> (\<Sum>c<cols x. ent y t c ^ 2) / cols x = row_var x t / (row_var x t + ln_eps)
                 \<and> (\<Sum>c<cols x. ent y t c ^ 2) / cols x < 1)"
proof -
  let ?\<sigma> = "\<lambda>t. 1 / sqrt (row_var x t + ln_eps)"
  define y where "y = fst (projr (LayerNorm_forward (LayerNorm_init (cols x)) x))"
  have run: "LayerNorm_forward (LayerNorm_init (cols x)) x
             = Inr (y, snd (projr (LayerNorm_forward (LayerNorm_init (cols x)) x)))"
    by (simp add: y_def LayerNorm_forward_def LayerNorm_init_def LayerNormFn_forward_def Let_def)
  have shape: "rows y = rows x" "cols y = cols x"
    by (simp_all add: y_def LayerNorm_forward_def LayerNorm_init_def LayerNormFn_forward_def Let_def)
  have ent_y: "ent y t c = (ent x t c - row_mean x t) * ?\<sigma> t" if "c < cols x" for t c
    using that by (simp add: y_def LayerNorm_forward_def LayerNorm_init_def LayerNormFn_forward_def Let_def
                             row_mean_def row_var_def)
  have rows_ok: "(\<Sum>c<cols x. ent y t c) = 0
                 \<and> (\<Sum>c<cols x. ent y t c ^ 2) / cols x = row_var x t / (row_var x t + ln_eps)
                 \<and> (\<Sum>c<cols x. ent y t c ^ 2) / cols x < 1" for t
  proof -
    have pos: "0 < row_var x t + ln_eps" using row_var_nonneg [of x t] ln_eps_pos by linarith
    have s1: "(\<Sum>c<cols x. ent y t c) = ?\<sigma> t * (\<Sum>c<cols x. ent x t c - row_mean x t)"
      by (simp add: ent_y sum_distrib_left mult.commute)
    have s2: "(\<Sum>c<cols x. ent y t c ^ 2) = ?\<sigma> t ^ 2 * (\<Sum>c<cols x. (ent x t c - row_mean x t) ^ 2)"
      by (simp add: ent_y sum_distrib_left power_divide)
    have sq: "?\<sigma> t ^ 2 = 1 / (row_var x t + ln_eps)"
      using pos by (simp add: power_divide)
    have eq: "(\<Sum>c<cols x. ent y t c ^ 2) / cols x = row_var x t / (row_var x t + ln_eps)"
      unfolding s2 sq by (simp add: row_var_def)
    have "row_var x t / (row_var x t + ln_eps) < 1" using pos by simp
    then show ?thesis using eq s1 row_centered_sum [OF assms] by simp
  qed
  show ?thesis using run shape rows_ok by blast
qed

text \<open>
  C39: a Linear module whose parameters have the shapes its constructor allocates never
  fails on an input of width \<open>in_c\<close>, and maps \<open>T\<close> rows to \<open>T \<times> out_c\<close>.
\<close>

theorem linear_module_forward_total:
  assumes "linear_module_shaped in_c out_c m" and "cols x = in_c"
  shows "\<exists>y ctx. Linear_forward m x = Inr (y, ctx) \<and> rows y = rows x \<and> cols y = out_c"
  using assms by (simp add: linear_module_shaped_def Linear_forward_def LinearFn_forward_ok linear_out_def)

text \<open>
  C38: a freshly constructed Linear module is bounded: on inputs with entries in
  \<open>[-1, 1]\<close> every output entry lies within \<open>(in_c + 1) / sqrt in_c\<close>, the weight's
  Kaiming bound for \<open>a = sqrt 5\<close> being the bias bound \<open>1 / sqrt in_c\<close> the code computes.
\<close>

theorem linear_init_output_bound:
  assumes init: "Linear_init_drawn in_c out_c m" and x: "cols x = in_c"
    and small: "\<forall>t<rows x. \<forall>k<in_c. \<bar>ent x t k\<bar> \<le> 1"
    and run: "Linear_forward m x = Inr (y, ctx)"
  shows "rows y = rows x \<and> cols y = out_c
         \<and> (\<forall>t<rows y. \<forall>u<cols y. \<bar>ent y t u\<bar> \<le> (in_c + 1) * linear_bound in_c)"
proof -
  have sh: "rows (lm_weight m) = out_c" "cols (lm_weight m) = in_c" "len (lm_bias m) = out_c"
    using init by (simp_all add: Linear_init_drawn_def linear_module_shaped_def)
  have y: "y = linear_out x (lm_weight m) (lm_bias m)"
    using run x sh by (simp add: Linear_forward_def LinearFn_forward_ok)
  have w: "\<bar>ent (lm_weight m) u k\<bar> \<le> linear_bound in_c" if "u < out_c" "k < in_c" for u k
  proof -
    have "0 < in_c" using that by simp
    then have "- linear_bound in_c \<le> ent (lm_weight m) u k \<and> ent (lm_weight m) u k < linear_bound in_c"
      using init that kaiming_bound_sqrt5 [of in_c] by (simp add: Linear_init_drawn_def)
    then show ?thesis by (simp add: abs_le_iff)
  qed
  have b: "\<bar>el (lm_bias m) u\<bar> \<le> linear_bound in_c" if "u < out_c" for u
    using init that by (auto simp: Linear_init_drawn_def abs_le_iff)
  have ent_bound: "\<bar>ent y t u\<bar> \<le> (in_c + 1) * linear_bound in_c" if t: "t < rows x" and u: "u < out_c" for t u
  proof -
    have "\<bar>\<Sum>k<in_c. ent x t k * ent (lm_weight m) u k\<bar> \<le> (\<Sum>k<in_c. \<bar>ent x t k * ent (lm_weight m) u k\<bar>)"
      by (rule sum_abs)
    also have "\<dots> \<le> (\<Sum>k<in_c. linear_bound in_c)"
    proof (rule sum_mono)
      fix k assume "k \<in> {..<in_c}"
      then have "\<bar>ent x t k\<bar> \<le> 1" "\<bar>ent (lm_weight m) u k\<bar> \<le> linear_bound in_c"
        using small t w u by auto
      then show "\<bar>ent x t k * ent (lm_weight m) u k\<bar> \<le> linear_bound in_c"
        using mult_mono [of "\<bar>ent x t k\<bar>" 1 "\<bar>ent (lm_weight m) u k\<bar>" "linear_bound in_c"]
        by (simp add: abs_mult)
    qed
    finally have s: "\<bar>\<Sum>k<in_c. ent x t k * ent (lm_weight m) u k\<bar> \<le> in_c * linear_bound in_c"
      by simp
    have "\<bar>ent y t u\<bar> \<le> \<bar>\<Sum>k<in_c. ent x t k * ent (lm_weight m) u k\<bar> + \<bar>el (lm_bias m) u\<bar>"
      using x sh u by (simp add: y abs_triangle_ineq)
    also have "\<dots> \<le> in_c * linear_bound in_c + linear_bound in_c"
      using s b [OF u] by linarith
    finally show ?thesis by (simp add: algebra_simps)
  qed
  show ?thesis using ent_bound sh by (simp add: y add.commute)
qed

theorem layernorm_init_normalizes_witness:
  "\<exists>y ctx. LayerNorm_forward (LayerNorm_init 2) (tensor2_of 2 [[1, 3]]) = Inr (y, ctx)
     \<and> (\<Sum>c<2. ent y 0 c) = 0"
proof -
  have h: "0 < cols (tensor2_of 2 [[1, 3]])" by (simp add: tensor_simps)
  have c: "cols (tensor2_of 2 [[1, 3]]) = 2" "0 < rows (tensor2_of 2 [[1, 3]])"
    by (simp_all add: tensor_simps)
  show ?thesis using layernorm_init_normalizes [OF h] c by fastforce
qed

theorem linear_module_forward_total_witness:
  "\<exists>y ctx. Linear_forward \<lparr>lm_weight = tensor2_of 2 [[1, 0], [0, 1], [1, 1]], lm_bias = tensor1_of [0, 0, 0]\<rparr>
             (tensor2_of 2 [[5, 7]]) = Inr (y, ctx)
     \<and> rows y = rows (tensor2_of 2 [[5, 7]]) \<and> cols y = 3"
proof -
  have h: "linear_module_shaped 2 3 \<lparr>lm_weight = tensor2_of 2 [[1, 0], [0, 1], [1, 1]], lm_bias = tensor1_of [0, 0, 0]\<rparr>"
    "cols (tensor2_of 2 [[5, 7]]) = 2"
    by (simp_all add: linear_module_shaped_def tensor_simps)
  show ?thesis by (rule linear_module_forward_total [OF h])
qed

theorem linear_init_output_bound_witness:
  "\<bar>ent (fst (projr (Linear_forward \<lparr>lm_weight = \<lparr>rows = 1, cols = 1, ent = (\<lambda>u k. 0.5)\<rparr>,
                                                 lm_bias = \<lparr>len = 1, el = (\<lambda>u. 0.5)\<rparr>\<rparr>
                                   \<lparr>rows = 1, cols = 1, ent = (\<lambda>t k. 1)\<rparr>))) 0 0\<bar> \<le> 2"
proof -
  let ?m = "\<lparr>lm_weight = \<lparr>rows = 1, cols = 1, ent = (\<lambda>u k. 0.5 :: real)\<rparr>, lm_bias = \<lparr>len = 1, el = (\<lambda>u. 0.5 :: real)\<rparr>\<rparr>"
  let ?x = "\<lparr>rows = 1, cols = 1, ent = (\<lambda>t k. 1 :: real)\<rparr>"
  have h: "Linear_init_drawn 1 1 ?m" "cols ?x = 1" "\<forall>t<rows ?x. \<forall>k<1. \<bar>ent ?x t k\<bar> \<le> 1"
    "Linear_forward ?m ?x = Inr (fst (projr (Linear_forward ?m ?x)), snd (projr (Linear_forward ?m ?x)))"
    by (simp_all add: Linear_init_drawn_def linear_module_shaped_def kaiming_bound_sqrt5 linear_bound_def
                      Linear_forward_def LinearFn_forward_def Let_def)
  show ?thesis using linear_init_output_bound [OF h] by (simp add: linear_bound_def)
qed

end
