(* ===== verification/Harness.thy ===== *)
theory Harness
  imports Add_Op Gelu_Op Cross_Entropy Torch_Modules
begin

text \<open>
  The test harness of \<^verbatim>\<open>src/src/modules.py\<close> (the \<^verbatim>\<open>__main__\<close> block, lines 186-244).
  A Python argument of an operator is an \<open>arg\<close> (a float tensor of rank 2 or 1, or an
  index tensor), a result is a \<open>pyval\<close> (the scalar loss or a rank-2 tensor). Each
  operator is applied as \<^verbatim>\<open>Function.apply\<close> to the argument list (\<open>*_apply\<close>), and
  the engine's backward of that application is \<open>*_vjp\<close>, which returns one gradient slot
  per argument. The test table \<open>harness_tests\<close> holds, per operator, the parameter
  specification (a shape drawn by \<^verbatim>\<open>torch.rand\<close>, or a \<^verbatim>\<open>torch.randint\<close> index
  tensor), the operator and the reference forward of \<^verbatim>\<open>torch.nn.functional\<close>; the
  reference forwards are modelled from PyTorch's documented semantics. \<open>allclose\<close> is
  \<^verbatim>\<open>torch.allclose\<close>; \<open>gradcheck\<close> is \<^verbatim>\<open>torch.autograd.gradcheck\<close>: a numerical
  Jacobian by central differences of step \<open>eps\<close>, an analytic Jacobian by one backward per
  output entry with a one-hot upstream gradient, and an entrywise comparison
  (\<open>slow_gradcheck\<close>), then a backward with a zero upstream gradient whose results
  must be zero and of the inputs' sizes (\<open>backward_mul_check\<close>). The loop of
  the harness is \<open>run_tests\<close>: it prints \<^verbatim>\<open>"<test> passed"\<close> per test and stops at the
  first exception.
\<close>

section \<open>Arguments, values and the operators' applications\<close>

datatype arg = T2 tensor2 | T1 tensor1 | Idx "int list"

datatype pyval = Scalar real | Tensor tensor2

definition value_of :: "('o \<Rightarrow> pyval) \<Rightarrow> error + ('o \<times> 'c) \<Rightarrow> error + pyval" where
  "value_of w r = (case r of Inl e \<Rightarrow> Inl e | Inr (y, _) \<Rightarrow> Inr (w y))"

fun CrossEntropy_apply :: "arg list \<Rightarrow> error + pyval" where
  "CrossEntropy_apply [T2 x, Idx y] = value_of Scalar (CrossEntropyFn_forward x y)"
| "CrossEntropy_apply _ = Inl TypeError"

fun CrossEntropy_vjp :: "arg list \<Rightarrow> pyval \<Rightarrow> error + arg grad list" where
  "CrossEntropy_vjp [T2 x, Idx y] (Scalar g) =
     (case then_backward (CrossEntropyFn_forward x y) (\<lambda>ctx. CrossEntropyFn_backward ctx g) of
        Inl e \<Rightarrow> Inl e
      | Inr (dx, _) \<Rightarrow> Inr [Grad (T2 dx), NoGrad])"
| "CrossEntropy_vjp _ _ = Inl TypeError"

fun LayerNorm_apply :: "arg list \<Rightarrow> error + pyval" where
  "LayerNorm_apply [T2 x, T1 gamma, T1 beta] = value_of Tensor (LayerNormFn_forward x gamma beta)"
| "LayerNorm_apply _ = Inl TypeError"

fun LayerNorm_vjp :: "arg list \<Rightarrow> pyval \<Rightarrow> error + arg grad list" where
  "LayerNorm_vjp [T2 x, T1 gamma, T1 beta] (Tensor g) =
     (case then_backward (LayerNormFn_forward x gamma beta) (\<lambda>ctx. LayerNormFn_backward ctx g) of
        Inl e \<Rightarrow> Inl e
      | Inr (dx, dgamma, dbeta) \<Rightarrow> Inr [Grad (T2 dx), Grad (T1 dgamma), Grad (T1 dbeta)])"
| "LayerNorm_vjp _ _ = Inl TypeError"

fun Linear_apply :: "arg list \<Rightarrow> error + pyval" where
  "Linear_apply [T2 x, T2 w, T1 b] = value_of Tensor (LinearFn_forward x w b)"
| "Linear_apply _ = Inl TypeError"

fun Linear_vjp :: "arg list \<Rightarrow> pyval \<Rightarrow> error + arg grad list" where
  "Linear_vjp [T2 x, T2 w, T1 b] (Tensor g) =
     (case then_backward (LinearFn_forward x w b) (\<lambda>ctx. LinearFn_backward ctx g) of
        Inl e \<Rightarrow> Inl e
      | Inr (dx, dw, db) \<Rightarrow> Inr [Grad (T2 dx), Grad (T2 dw), Grad (T1 db)])"
| "Linear_vjp _ _ = Inl TypeError"

fun GELU_apply :: "arg list \<Rightarrow> error + pyval" where
  "GELU_apply [T2 x] = value_of Tensor (GELUFn_forward x)"
| "GELU_apply _ = Inl TypeError"

fun GELU_vjp :: "arg list \<Rightarrow> pyval \<Rightarrow> error + arg grad list" where
  "GELU_vjp [T2 x] (Tensor g) =
     (case then_backward (GELUFn_forward x) (\<lambda>ctx. GELUFn_backward ctx g) of
        Inl e \<Rightarrow> Inl e
      | Inr dx \<Rightarrow> Inr [Grad (T2 dx)])"
| "GELU_vjp _ _ = Inl TypeError"

fun Add_apply :: "arg list \<Rightarrow> error + pyval" where
  "Add_apply [T2 a, T2 b] = value_of Tensor (AddFn_forward a b)"
| "Add_apply _ = Inl TypeError"

fun Add_vjp :: "arg list \<Rightarrow> pyval \<Rightarrow> error + arg grad list" where
  "Add_vjp [T2 a, T2 b] (Tensor g) =
     (case then_backward (AddFn_forward a b) (\<lambda>ctx. AddFn_backward ctx g) of
        Inl e \<Rightarrow> Inl e
      | Inr (da, db) \<Rightarrow> Inr [Grad (T2 da), Grad (T2 db)])"
| "Add_vjp _ _ = Inl TypeError"

fun Embedding_apply :: "arg list \<Rightarrow> error + pyval" where
  "Embedding_apply [Idx x, T2 emb] = value_of Tensor (EmbeddingFn_forward x emb)"
| "Embedding_apply _ = Inl TypeError"

fun Embedding_vjp :: "arg list \<Rightarrow> pyval \<Rightarrow> error + arg grad list" where
  "Embedding_vjp [Idx x, T2 emb] (Tensor g) =
     (case then_backward (EmbeddingFn_forward x emb) (\<lambda>ctx. EmbeddingFn_backward ctx g) of
        Inl e \<Rightarrow> Inl e
      | Inr (_, demb) \<Rightarrow> Inr [NoGrad, Grad (T2 demb)])"
| "Embedding_vjp _ _ = Inl TypeError"

section \<open>Reference forwards of \<^verbatim>\<open>torch.nn.functional\<close>\<close>

text \<open>
  \<^verbatim>\<open>cross_entropy\<close> with mean reduction: batch sizes must agree (\<^verbatim>\<open>ValueError\<close>),
  targets must lie in \<open>[0, C)\<close> or be the default \<^verbatim>\<open>ignore_index\<close> \<open>-100\<close>
  (\<^verbatim>\<open>IndexError\<close>); the loss is the mean of \<open>lse(x_t) - x_t[y_t]\<close> over the rows
  whose target is not ignored, NaN when there is none.
\<close>

fun cross_entropy_ref :: "arg list \<Rightarrow> error + pyval" where
  "cross_entropy_ref [T2 x, Idx y] =
     (if length y \<noteq> rows x then Inl ValueError
      else if \<not> list_all (\<lambda>i. i = -100 \<or> 0 \<le> i \<and> i < int (cols x)) y then Inl IndexError
      else (let n = length (filter (\<lambda>t. y ! t \<noteq> -100) [0..<rows x])
            in if n = 0 then Inl NotANumber
               else Inr (Scalar ((\<Sum>t<rows x. if y ! t = -100 then 0
                                               else ln (row_lse x t) - ent x t (nat (y ! t))) / n))))"
| "cross_entropy_ref _ = Inl TypeError"

text \<open>\<^verbatim>\<open>layer_norm(x, (C,), g, b)\<close> with the harness's \<open>C\<close> and \<^verbatim>\<open>eps = 1e-5\<close>.\<close>

fun layer_norm_ref :: "nat \<Rightarrow> arg list \<Rightarrow> error + pyval" where
  "layer_norm_ref C [T2 x, T1 g, T1 b] =
     (if cols x \<noteq> C \<or> len g \<noteq> C \<or> len b \<noteq> C then Inl RuntimeError
      else Inr (Tensor \<lparr>rows = rows x, cols = C,
                        ent = (\<lambda>t c. (ent x t c - row_mean x t) / sqrt (row_var x t + 0.00001) * el g c
                                     + el b c)\<rparr>))"
| "layer_norm_ref C _ = Inl TypeError"

text \<open>\<^verbatim>\<open>linear(x, w, b) = x w^T + b\<close>, the bias broadcast along the output features.\<close>

fun linear_ref :: "arg list \<Rightarrow> error + pyval" where
  "linear_ref [T2 x, T2 w, T1 b] =
     (if cols x \<noteq> cols w \<or> bcast (rows w) (len b) \<noteq> Some (rows w) then Inl RuntimeError
      else Inr (Tensor \<lparr>rows = rows x, cols = rows w,
                        ent = (\<lambda>t u. (\<Sum>k<cols w. ent x t k * ent w u k) + el b (bidx (len b) u))\<rparr>))"
| "linear_ref _ = Inl TypeError"

fun gelu_tanh_ref :: "arg list \<Rightarrow> error + pyval" where
  "gelu_tanh_ref [T2 x] = Inr (Tensor (x\<lparr>ent := (\<lambda>t c. gelu_ref (ent x t c))\<rparr>))"
| "gelu_tanh_ref _ = Inl TypeError"

text \<open>\<^verbatim>\<open>torch.add\<close> broadcasts its operands.\<close>

fun add_ref :: "arg list \<Rightarrow> error + pyval" where
  "add_ref [T2 a, T2 b] =
     (case bcast2 a b of
        None \<Rightarrow> Inl RuntimeError
      | Some (r, k) \<Rightarrow> Inr (Tensor \<lparr>rows = r, cols = k, ent = (\<lambda>t c. bent a t c + bent b t c)\<rparr>))"
| "add_ref _ = Inl TypeError"

text \<open>\<^verbatim>\<open>embedding(x, emb)\<close> rejects every index outside \<open>[0, N)\<close>, negative ones included.\<close>

fun embedding_ref :: "arg list \<Rightarrow> error + pyval" where
  "embedding_ref [Idx x, T2 emb] =
     (if \<not> list_all (\<lambda>i. 0 \<le> i \<and> i < int (rows emb)) x then Inl IndexError
      else Inr (Tensor \<lparr>rows = length x, cols = cols emb, ent = (\<lambda>t d. ent emb (nat (x ! t)) d)\<rparr>))"
| "embedding_ref _ = Inl TypeError"

section \<open>The test table and the random draws\<close>

text \<open>
  A parameter is either a shape tuple, drawn by \<^verbatim>\<open>torch.rand\<close> (entries in \<open>[0, 1)\<close>),
  or \<^verbatim>\<open>torch.randint(high, size=(n,))\<close> (entries in \<open>[0, high)\<close>; PyTorch rejects
  \<open>high \<le> 0\<close>). The random generator is not modelled: \<open>drawn\<close> relates a parameter to
  every argument it may produce.
\<close>

datatype param = Shape "nat list" | RandInt int nat

fun drawn :: "param \<Rightarrow> arg \<Rightarrow> bool" where
  "drawn (Shape [r, c]) (T2 x) =
     (rows x = r \<and> cols x = c \<and> (\<forall>t<r. \<forall>k<c. 0 \<le> ent x t k \<and> ent x t k < 1))"
| "drawn (Shape [n]) (T1 v) = (len v = n \<and> (\<forall>k<n. 0 \<le> el v k \<and> el v k < 1))"
| "drawn (RandInt hi n) (Idx y) = (0 < hi \<and> length y = n \<and> list_all (\<lambda>i. 0 \<le> i \<and> i < hi) y)"
| "drawn _ _ = False"

record test_info =
  test_name :: string
  test_params :: "param list"
  test_func :: "arg list \<Rightarrow> error + pyval"
  test_vjp :: "arg list \<Rightarrow> pyval \<Rightarrow> error + arg grad list"
  test_ref :: "arg list \<Rightarrow> error + pyval"

definition cross_entropy_test :: "nat \<Rightarrow> nat \<Rightarrow> test_info" where
  "cross_entropy_test T C =
     \<lparr>test_name = ''cross_entropy'', test_params = [Shape [T, C], RandInt (int C - 1) T],
      test_func = CrossEntropy_apply, test_vjp = CrossEntropy_vjp, test_ref = cross_entropy_ref\<rparr>"

definition layer_norm_test :: "nat \<Rightarrow> nat \<Rightarrow> test_info" where
  "layer_norm_test T C =
     \<lparr>test_name = ''layer_norm'', test_params = [Shape [T, C], Shape [C], Shape [C]],
      test_func = LayerNorm_apply, test_vjp = LayerNorm_vjp, test_ref = layer_norm_ref C\<rparr>"

definition linear_test :: "nat \<Rightarrow> nat \<Rightarrow> test_info" where
  "linear_test T C =
     \<lparr>test_name = ''linear'', test_params = [Shape [T, C], Shape [C, C], Shape [C]],
      test_func = Linear_apply, test_vjp = Linear_vjp, test_ref = linear_ref\<rparr>"

definition gelu_test :: "nat \<Rightarrow> nat \<Rightarrow> test_info" where
  "gelu_test T C =
     \<lparr>test_name = ''gelu'', test_params = [Shape [T, C]],
      test_func = GELU_apply, test_vjp = GELU_vjp, test_ref = gelu_tanh_ref\<rparr>"

definition add_test :: "nat \<Rightarrow> nat \<Rightarrow> test_info" where
  "add_test T C =
     \<lparr>test_name = ''add'', test_params = [Shape [T, C], Shape [T, C]],
      test_func = Add_apply, test_vjp = Add_vjp, test_ref = add_ref\<rparr>"

definition embedding_test :: "nat \<Rightarrow> nat \<Rightarrow> test_info" where
  "embedding_test T C =
     \<lparr>test_name = ''embedding'', test_params = [RandInt (int T - 1) T, Shape [T, C]],
      test_func = Embedding_apply, test_vjp = Embedding_vjp, test_ref = embedding_ref\<rparr>"

definition harness_tests :: "nat \<Rightarrow> nat \<Rightarrow> test_info list" where
  "harness_tests T C = [cross_entropy_test T C, layer_norm_test T C, linear_test T C,
                        gelu_test T C, add_test T C, embedding_test T C]"


section \<open>The checks: \<^verbatim>\<open>allclose\<close> and \<^verbatim>\<open>gradcheck\<close>\<close>

definition close :: "real \<Rightarrow> real \<Rightarrow> real \<Rightarrow> real \<Rightarrow> bool" where
  "close rtol atol a b \<longleftrightarrow> \<bar>a - b\<bar> \<le> atol + rtol * \<bar>b\<bar>"

fun allclose :: "real \<Rightarrow> real \<Rightarrow> pyval \<Rightarrow> pyval \<Rightarrow> bool" where
  "allclose rtol atol (Scalar a) (Scalar b) = close rtol atol a b"
| "allclose rtol atol (Tensor a) (Tensor b) =
     (same_shape a b \<and> (\<forall>t<rows a. \<forall>c<cols a. close rtol atol (ent a t c) (ent b t c)))"
| "allclose rtol atol _ _ = False"

text \<open>
  The entries \<^verbatim>\<open>gradcheck\<close> perturbs (those of the float arguments; index tensors
  do not require gradients), the entries of the output, one entry of an output or of a
  returned gradient (a missing gradient counts as zero), the perturbed argument list, and
  the one-hot upstream gradient of an output entry.
\<close>

fun arg_entries :: "arg \<Rightarrow> (nat \<times> nat) list" where
  "arg_entries (T2 x) = List.product [0..<rows x] [0..<cols x]"
| "arg_entries (T1 v) = map (Pair 0) [0..<len v]"
| "arg_entries (Idx y) = []"

definition input_entries :: "arg list \<Rightarrow> (nat \<times> nat \<times> nat) list" where
  "input_entries args = concat (map (\<lambda>k. map (Pair k) (arg_entries (args ! k))) [0..<length args])"

fun pyval_entries :: "pyval \<Rightarrow> (nat \<times> nat) list" where
  "pyval_entries (Scalar r) = [(0, 0)]"
| "pyval_entries (Tensor y) = List.product [0..<rows y] [0..<cols y]"

fun pyval_entry :: "pyval \<Rightarrow> nat \<times> nat \<Rightarrow> real" where
  "pyval_entry (Scalar r) pq = r"
| "pyval_entry (Tensor y) (p, q) = ent y p q"

fun grad_entry :: "arg grad \<Rightarrow> nat \<times> nat \<Rightarrow> real" where
  "grad_entry NoGrad ij = 0"
| "grad_entry (Grad (T2 d)) (i, j) = ent d i j"
| "grad_entry (Grad (T1 d)) (i, j) = el d j"
| "grad_entry (Grad (Idx y)) ij = 0"

fun perturb_arg :: "arg \<Rightarrow> nat \<times> nat \<Rightarrow> real \<Rightarrow> arg" where
  "perturb_arg (T2 x) (i, j) h = T2 (perturb2 x i j h)"
| "perturb_arg (T1 v) (i, j) h = T1 (perturb1 v j h)"
| "perturb_arg (Idx y) ij h = Idx y"

definition perturb_args :: "arg list \<Rightarrow> nat \<times> nat \<times> nat \<Rightarrow> real \<Rightarrow> arg list" where
  "perturb_args args kij h = (case kij of (k, ij) \<Rightarrow> args[k := perturb_arg (args ! k) ij h])"

fun onehot :: "pyval \<Rightarrow> nat \<times> nat \<Rightarrow> pyval" where
  "onehot (Scalar r) pq = Scalar 1"
| "onehot (Tensor y) (p, q) =
     Tensor \<lparr>rows = rows y, cols = cols y, ent = (\<lambda>t c. if t = p \<and> c = q then 1 else 0)\<rparr>"

text \<open>Evaluation of a list of computations that may raise; the first exception wins.\<close>

primrec sequence :: "(error + 'a) list \<Rightarrow> error + 'a list" where
  "sequence [] = Inr []"
| "sequence (r # rs) =
     (case r of Inl e \<Rightarrow> Inl e
      | Inr a \<Rightarrow> (case sequence rs of Inl e \<Rightarrow> Inl e | Inr as \<Rightarrow> Inr (a # as)))"

text \<open>
  One column of the numerical Jacobian: the central difference
  \<open>(f (x + eps) - f (x - eps)) / (2 eps)\<close> of every output entry, for one input entry.
  One row of the analytic Jacobian: the gradients backward returns for the one-hot upstream
  gradient of one output entry, read at every input entry.
\<close>

definition central_diff :: "(arg list \<Rightarrow> error + pyval) \<Rightarrow> arg list \<Rightarrow> pyval \<Rightarrow> real \<Rightarrow>
                            nat \<times> nat \<times> nat \<Rightarrow> error + real list" where
  "central_diff f args out eps kij =
     (case f (perturb_args args kij eps) of
        Inl e \<Rightarrow> Inl e
      | Inr a \<Rightarrow> (case f (perturb_args args kij (- eps)) of
          Inl e \<Rightarrow> Inl e
        | Inr b \<Rightarrow> Inr (map (\<lambda>pq. (pyval_entry a pq - pyval_entry b pq) / (2 * eps)) (pyval_entries out))))"

definition vjp_row :: "(arg list \<Rightarrow> pyval \<Rightarrow> error + arg grad list) \<Rightarrow> arg list \<Rightarrow> pyval \<Rightarrow>
                       nat \<times> nat \<Rightarrow> error + real list" where
  "vjp_row vjp args out pq =
     (case vjp args (onehot out pq) of
        Inl e \<Rightarrow> Inl e
      | Inr gs \<Rightarrow> Inr (map (\<lambda>(k, ij). grad_entry (gs ! k) ij) (input_entries args)))"

definition slow_gradcheck :: "test_info \<Rightarrow> arg list \<Rightarrow> real \<Rightarrow> real \<Rightarrow> real \<Rightarrow> error + unit" where
  "slow_gradcheck ti args eps atol rtol =
     (case test_func ti args of
        Inl e \<Rightarrow> Inl e
      | Inr out \<Rightarrow>
          (case sequence (map (central_diff (test_func ti) args out eps) (input_entries args)) of
             Inl e \<Rightarrow> Inl e
           | Inr num \<Rightarrow>
               (case sequence (map (vjp_row (test_vjp ti) args out) (pyval_entries out)) of
                  Inl e \<Rightarrow> Inl e
                | Inr ana \<Rightarrow>
                    if (\<forall>a<length num. \<forall>b<length ana. close rtol atol (ana ! b ! a) (num ! a ! b))
                    then Inr () else Inl GradcheckError)))"

text \<open>
  After the Jacobians, \<^verbatim>\<open>gradcheck\<close> runs backward once more with a zero upstream
  gradient (\<^verbatim>\<open>_test_backward_mul_by_grad_output\<close>): every gradient it returns for an
  input that requires one must be zero (else ``backward not multiplied by grad_output'') and
  of that input's type and size (else ``grad is incorrect type/size''); a gradient of
  \<^verbatim>\<open>None\<close> is skipped, and the index input is not among the inputs that require one.
  A backward that returns another number of gradients than there are inputs is rejected by
  the engine. The check of undefined upstream gradients that follows calls the same backward
  on the same zeros (a \<^verbatim>\<open>Function\<close> materialises an undefined gradient as zeros) with
  the same test, so it passes and fails with this one.
\<close>

fun zeros_like :: "pyval \<Rightarrow> pyval" where
  "zeros_like (Scalar r) = Scalar 0"
| "zeros_like (Tensor y) = Tensor \<lparr>rows = rows y, cols = cols y, ent = (\<lambda>t c. 0)\<rparr>"

fun zero_grad_ok :: "arg \<Rightarrow> arg grad \<Rightarrow> bool" where
  "zero_grad_ok (Idx y) g = True"
| "zero_grad_ok a NoGrad = True"
| "zero_grad_ok (T2 x) (Grad (T2 d)) = ((\<forall>t<rows d. \<forall>c<cols d. ent d t c = 0) \<and> same_shape d x)"
| "zero_grad_ok (T1 v) (Grad (T1 d)) = ((\<forall>c<len d. el d c = 0) \<and> len d = len v)"
| "zero_grad_ok a g = False"

definition backward_mul_check :: "test_info \<Rightarrow> arg list \<Rightarrow> error + unit" where
  "backward_mul_check ti args =
     (case test_func ti args of
        Inl e \<Rightarrow> Inl e
      | Inr out \<Rightarrow>
          (case test_vjp ti args (zeros_like out) of
             Inl e \<Rightarrow> Inl e
           | Inr gs \<Rightarrow>
               if length gs \<noteq> length args then Inl RuntimeError
               else if list_all2 zero_grad_ok args gs then Inr () else Inl GradcheckError))"

definition gradcheck :: "test_info \<Rightarrow> arg list \<Rightarrow> real \<Rightarrow> real \<Rightarrow> real \<Rightarrow> error + unit" where
  "gradcheck ti args eps atol rtol =
     (case slow_gradcheck ti args eps atol rtol of
        Inl e \<Rightarrow> Inl e
      | Inr _ \<Rightarrow> backward_mul_check ti args)"

section \<open>The harness loop\<close>

definition harness_atol :: real where
  "harness_atol = 0.01"

definition harness_rtol :: real where
  "harness_rtol = 0.01"

text \<open>
  The assertion of line 240: the operator is evaluated first, then the reference, and an
  exception of either propagates. A NaN result, which the model represents by
  \<open>NotANumber\<close>, is a value in Python: \<^verbatim>\<open>allclose\<close> is false on it and the assert
  raises \<^verbatim>\<open>AssertionError\<close>.
\<close>

definition forward_check :: "test_info \<Rightarrow> arg list \<Rightarrow> error + unit" where
  "forward_check ti args =
     (case test_func ti args of
        Inl e \<Rightarrow>
          if e \<noteq> NotANumber then Inl e
          else (case test_ref ti args of
                  Inl e' \<Rightarrow> if e' \<noteq> NotANumber then Inl e' else Inl AssertionError
                | Inr b \<Rightarrow> Inl AssertionError)
      | Inr a \<Rightarrow> (case test_ref ti args of
          Inl e \<Rightarrow> if e \<noteq> NotANumber then Inl e else Inl AssertionError
        | Inr b \<Rightarrow> if allclose harness_rtol harness_atol a b then Inr () else Inl AssertionError))"

text \<open>
  The loop over the table: forward check, then \<^verbatim>\<open>gradcheck\<close> with step \<open>eps\<close>; the
  lines printed so far, and the exception that stopped the script, if any.
\<close>

fun run_tests :: "real \<Rightarrow> test_info list \<Rightarrow> arg list list \<Rightarrow> string list \<times> error option" where
  "run_tests eps (ti # tis) (args # argss) =
     (case forward_check ti args of
        Inl e \<Rightarrow> ([], Some e)
      | Inr _ \<Rightarrow> (case gradcheck ti args eps harness_atol harness_rtol of
          Inl e \<Rightarrow> ([], Some e)
        | Inr _ \<Rightarrow> (let (out, err) = run_tests eps tis argss
                   in ((test_name ti @ '' passed'') # out, err))))"
| "run_tests eps _ _ = ([], None)"

text \<open>
  The script: the loop, then, if nothing was raised, the closing banner of line 244 (with
  its ANSI colour codes). \<open>harness_main\<close> is the script as written: \<open>T, C = 32, 64\<close>
  and step \<open>1e-6\<close>.
\<close>

definition all_passed_banner :: string where
  "all_passed_banner = CHR 0x1B # ''[1;32m'' @ ''all tests passed! yay congrats >w<'' @ CHR 0x1B # ''[0m''"

definition harness_script :: "nat \<Rightarrow> nat \<Rightarrow> real \<Rightarrow> arg list list \<Rightarrow> string list \<times> error option" where
  "harness_script T C eps argss =
     (case run_tests eps (harness_tests T C) argss of
        (out, None) \<Rightarrow> (out @ [all_passed_banner], None)
      | (out, Some e) \<Rightarrow> (out, Some e))"

definition harness_main :: "arg list list \<Rightarrow> string list \<times> error option" where
  "harness_main argss = harness_script 32 64 0.000001 argss"

text \<open>Case analysis on a draw, by the parameter it was drawn for.\<close>

fun_cases drawn_T2E: "drawn (Shape [r, c]) a"
fun_cases drawn_T1E: "drawn (Shape [n]) a"
fun_cases drawn_IdxE: "drawn (RandInt hi n) a"

end
