(* ===== verification/Harness_Types.thy ===== *)
theory Harness_Types
  imports Harness
begin

text \<open>
  Shape typing of the engine's calls. The autograd engine checks every gradient a backward
  returns against its input (\<^verbatim>\<open>validate_outputs\<close>): \<open>grad_fits\<close> holds when a float
  argument receives a gradient of its own shape and an index argument receives
  \<^verbatim>\<open>None\<close>; \<open>pyval_fits\<close> holds when an upstream gradient has the shape of the output.
  On every argument list of the harness, each operator's forward succeeds (progress) and,
  for every upstream gradient of the output's shape, its backward succeeds with gradients
  that fit the arguments (preservation of the shapes through backward). With a zero
  upstream gradient those gradients are zero, which is what \<^verbatim>\<open>gradcheck\<close>'s second
  check asks (\<open>backward_mul_check\<close>); for zero features LayerNorm's backward raises there.
\<close>

fun grad_fits :: "arg \<Rightarrow> arg grad \<Rightarrow> bool" where
  "grad_fits (T2 x) (Grad (T2 d)) = same_shape d x"
| "grad_fits (T1 v) (Grad (T1 d)) = (len d = len v)"
| "grad_fits (Idx y) NoGrad = True"
| "grad_fits _ _ = False"

fun pyval_fits :: "pyval \<Rightarrow> pyval \<Rightarrow> bool" where
  "pyval_fits (Scalar g) (Scalar l) = True"
| "pyval_fits (Tensor g) (Tensor y) = same_shape g y"
| "pyval_fits _ _ = False"

definition backward_typed :: "test_info \<Rightarrow> arg list \<Rightarrow> bool" where
  "backward_typed ti args \<longleftrightarrow>
     (\<exists>out. test_func ti args = Inr out
        \<and> (\<forall>g. pyval_fits g out \<longrightarrow> (\<exists>gs. test_vjp ti args g = Inr gs \<and> list_all2 grad_fits args gs)))"

lemma pyval_fits_Tensor:
  "pyval_fits g (Tensor y) \<longleftrightarrow> (\<exists>G. g = Tensor G \<and> rows G = rows y \<and> cols G = cols y)"
  by (cases g) (auto simp: same_shape_def)

lemma pyval_fits_Scalar: "pyval_fits g (Scalar l) \<longleftrightarrow> (\<exists>r. g = Scalar r)"
  by (cases g) auto

lemma typed_cross_entropy:
  assumes "list_all2 drawn (test_params (cross_entropy_test T C)) args" and "0 < T"
  shows "backward_typed (cross_entropy_test T C) args"
proof -
  obtain x y where args: "args = [T2 x, Idx y]" and x: "rows x = T" "cols x = C"
    and y: "length y = T" "list_all (\<lambda>i. 0 \<le> i \<and> i < int C - 1) y"
    using assms(1) by (auto simp: cross_entropy_test_def list_all2_Cons1 elim!: drawn_T2E drawn_IdxE)
  have valid: "list_all (\<lambda>i. 0 \<le> i \<and> i < int (cols x)) y"
    using y(2) x by (auto simp: list_all_iff)
  then have valid': "list_all (\<lambda>i. - int (cols x) \<le> i \<and> i < int (cols x)) y"
    by (auto simp: list_all_iff)
  have idx: "those (map (py_index (cols x)) y) = Some (map nat y)"
    by (rule those_py_index_nonneg [OF valid])
  obtain l c0 where run: "CrossEntropyFn_forward x y = Inr (l, c0)"
    using x y assms(2) idx by (simp add: CrossEntropyFn_forward_def Let_def)
  have bwd: "\<exists>gs. CrossEntropy_vjp args (Scalar g) = Inr gs \<and> list_all2 grad_fits args gs" for g
  proof -
    obtain dx where "then_backward (CrossEntropyFn_forward x y) (\<lambda>ctx. CrossEntropyFn_backward ctx g)
                      = Inr (dx, NoGrad)" and "rows dx = rows x" "cols dx = cols x"
      using CrossEntropyFn_grad [OF valid', of g] x y assms(2) by auto
    then show ?thesis by (simp add: args same_shape_def)
  qed
  show ?thesis
    using bwd by (auto simp: backward_typed_def cross_entropy_test_def args value_of_def run pyval_fits_Scalar)
qed

lemma typed_layer_norm:
  assumes "list_all2 drawn (test_params (layer_norm_test T C)) args" and "0 < C"
  shows "backward_typed (layer_norm_test T C) args"
proof -
  obtain x g b where args: "args = [T2 x, T1 g, T1 b]" and x: "rows x = T" "cols x = C"
    and gb: "len g = C" "len b = C"
    using assms(1) by (auto simp: layer_norm_test_def list_all2_Cons1 elim!: drawn_T2E drawn_T1E)
  obtain y c0 where run: "LayerNormFn_forward x g b = Inr (y, c0)" and y: "rows y = rows x" "cols y = cols x"
    using LayerNormFn_forward_shape [of g x b] x gb by auto
  have bwd: "\<exists>gs. LayerNorm_vjp args (Tensor G) = Inr gs \<and> list_all2 grad_fits args gs"
    if "rows G = rows y" "cols G = cols y" for G
    using that x gb y assms(2) run
    by (simp add: args then_backward_def LayerNormFn_backward_def LayerNormFn_forward_def Let_def
                  same_shape_def)
  show ?thesis
    using bwd by (auto simp: backward_typed_def layer_norm_test_def args value_of_def run pyval_fits_Tensor)
qed

lemma typed_linear:
  assumes "list_all2 drawn (test_params (linear_test T C)) args"
  shows "backward_typed (linear_test T C) args"
proof -
  obtain x w b where args: "args = [T2 x, T2 w, T1 b]" and x: "rows x = T" "cols x = C"
    and w: "rows w = C" "cols w = C" and b: "len b = C"
    using assms by (auto simp: linear_test_def list_all2_Cons1 elim!: drawn_T2E drawn_T1E)
  have run: "LinearFn_forward x w b = Inr (linear_out x w b, \<lparr>lin_x = x, lin_weight = w, lin_bias = b\<rparr>)"
    using x w b by (simp add: LinearFn_forward_ok)
  have bwd: "\<exists>gs. Linear_vjp args (Tensor G) = Inr gs \<and> list_all2 grad_fits args gs"
    if "rows G = rows x" "cols G = rows w" for G
    using that x w b by (simp add: args run then_backward_def LinearFn_backward_def same_shape_def)
  show ?thesis
    using bwd by (auto simp: backward_typed_def linear_test_def args value_of_def run pyval_fits_Tensor)
qed

lemma typed_gelu:
  assumes "list_all2 drawn (test_params (gelu_test T C)) args"
  shows "backward_typed (gelu_test T C) args"
proof -
  obtain x where args: "args = [T2 x]"
    using assms by (auto simp: gelu_test_def list_all2_Cons1 elim!: drawn_T2E)
  have bwd: "\<exists>gs. GELU_vjp args (Tensor G) = Inr gs \<and> list_all2 grad_fits args gs"
    if "rows G = rows x" "cols G = cols x" for G
    using that by (simp add: args then_backward_def GELUFn_forward_def GELUFn_backward_def Let_def
                             bcast2_def same_shape_def)
  show ?thesis
    using bwd by (auto simp: backward_typed_def gelu_test_def args value_of_def GELUFn_forward_def Let_def
                             pyval_fits_Tensor)
qed

lemma typed_add:
  assumes "list_all2 drawn (test_params (add_test T C)) args"
  shows "backward_typed (add_test T C) args"
proof -
  obtain a b where args: "args = [T2 a, T2 b]" and ab: "same_shape a b"
    using assms by (auto simp: add_test_def list_all2_Cons1 same_shape_def elim!: drawn_T2E)
  show ?thesis
    using ab by (auto simp: backward_typed_def add_test_def args value_of_def AddFn_forward_ok
                            then_backward_def AddFn_backward_def pyval_fits_Tensor same_shape_def)
qed

lemma typed_embedding:
  assumes "list_all2 drawn (test_params (embedding_test T C)) args"
  shows "backward_typed (embedding_test T C) args"
proof -
  obtain x emb where args: "args = [Idx x, T2 emb]" and emb: "rows emb = T" "cols emb = C"
    and x: "length x = T" "list_all (\<lambda>i. 0 \<le> i \<and> i < int T - 1) x"
    using assms by (auto simp: embedding_test_def list_all2_Cons1 elim!: drawn_T2E drawn_IdxE)
  have valid: "list_all (\<lambda>i. 0 \<le> i \<and> i < int (rows emb)) x"
    using x(2) emb by (auto simp: list_all_iff)
  show ?thesis
    using valid
    by (auto simp: backward_typed_def embedding_test_def args value_of_def EmbeddingFn_forward_nonneg
                   then_backward_def EmbeddingFn_backward_def pyval_fits_Tensor same_shape_def)
qed

lemma backward_mul_checkI:
  assumes "test_func ti args = Inr out" and "test_vjp ti args (zeros_like out) = Inr gs"
    and "list_all2 zero_grad_ok args gs"
  shows "backward_mul_check ti args = Inr ()"
  using assms by (simp add: backward_mul_check_def list_all2_lengthD)

lemma mul_check_cross_entropy:
  assumes "list_all2 drawn (test_params (cross_entropy_test T C)) args" and "0 < T"
  shows "backward_mul_check (cross_entropy_test T C) args = Inr ()"
proof -
  obtain x y where args: "args = [T2 x, Idx y]" and x: "rows x = T" "cols x = C"
    and y: "length y = T" "list_all (\<lambda>i. 0 \<le> i \<and> i < int C - 1) y"
    using assms(1) by (auto simp: cross_entropy_test_def list_all2_Cons1 elim!: drawn_T2E drawn_IdxE)
  have valid: "list_all (\<lambda>i. 0 \<le> i \<and> i < int (cols x)) y"
    using y(2) x by (auto simp: list_all_iff)
  have idx: "those (map (py_index (cols x)) y) = Some (map nat y)"
    by (rule those_py_index_nonneg [OF valid])
  show ?thesis
    using x y assms(2) idx
    by (intro backward_mul_checkI)
       (auto simp: cross_entropy_test_def args value_of_def CrossEntropyFn_forward_def
                   CrossEntropyFn_backward_def then_backward_def Let_def same_shape_def)
qed

lemma mul_check_layer_norm:
  assumes "list_all2 drawn (test_params (layer_norm_test T C)) args" and "0 < C"
  shows "backward_mul_check (layer_norm_test T C) args = Inr ()"
proof -
  obtain x g b where args: "args = [T2 x, T1 g, T1 b]" and x: "rows x = T" "cols x = C"
    and gb: "len g = C" "len b = C"
    using assms(1) by (auto simp: layer_norm_test_def list_all2_Cons1 elim!: drawn_T2E drawn_T1E)
  show ?thesis
    using x gb assms(2)
    by (intro backward_mul_checkI)
       (auto simp: layer_norm_test_def args value_of_def LayerNormFn_forward_def
                   LayerNormFn_backward_def then_backward_def Let_def same_shape_def)
qed

lemma mul_check_linear:
  assumes "list_all2 drawn (test_params (linear_test T C)) args"
  shows "backward_mul_check (linear_test T C) args = Inr ()"
proof -
  obtain x w b where args: "args = [T2 x, T2 w, T1 b]" and x: "rows x = T" "cols x = C"
    and w: "rows w = C" "cols w = C" and b: "len b = C"
    using assms by (auto simp: linear_test_def list_all2_Cons1 elim!: drawn_T2E drawn_T1E)
  have run: "LinearFn_forward x w b = Inr (linear_out x w b, \<lparr>lin_x = x, lin_weight = w, lin_bias = b\<rparr>)"
    using x w b by (simp add: LinearFn_forward_ok)
  show ?thesis
    using x w b
    by (intro backward_mul_checkI)
       (auto simp: linear_test_def args value_of_def run then_backward_def LinearFn_backward_def
                   same_shape_def)
qed

lemma mul_check_gelu:
  assumes "list_all2 drawn (test_params (gelu_test T C)) args"
  shows "backward_mul_check (gelu_test T C) args = Inr ()"
proof -
  obtain x where args: "args = [T2 x]"
    using assms by (auto simp: gelu_test_def list_all2_Cons1 elim!: drawn_T2E)
  show ?thesis
    by (intro backward_mul_checkI)
       (auto simp: gelu_test_def args value_of_def GELUFn_forward_def GELUFn_backward_def Let_def
                   then_backward_def bcast2_def same_shape_def)
qed

lemma mul_check_add:
  assumes "list_all2 drawn (test_params (add_test T C)) args"
  shows "backward_mul_check (add_test T C) args = Inr ()"
proof -
  obtain a b where args: "args = [T2 a, T2 b]" and ab: "same_shape a b"
    using assms by (auto simp: add_test_def list_all2_Cons1 same_shape_def elim!: drawn_T2E)
  show ?thesis
    using ab
    by (intro backward_mul_checkI)
       (auto simp: add_test_def args value_of_def AddFn_forward_ok then_backward_def AddFn_backward_def
                   same_shape_def)
qed

lemma mul_check_embedding:
  assumes "list_all2 drawn (test_params (embedding_test T C)) args"
  shows "backward_mul_check (embedding_test T C) args = Inr ()"
proof -
  obtain x emb where args: "args = [Idx x, T2 emb]" and emb: "rows emb = T" "cols emb = C"
    and x: "length x = T" "list_all (\<lambda>i. 0 \<le> i \<and> i < int T - 1) x"
    using assms by (auto simp: embedding_test_def list_all2_Cons1 elim!: drawn_T2E drawn_IdxE)
  have valid: "list_all (\<lambda>i. 0 \<le> i \<and> i < int (rows emb)) x"
    using x(2) emb by (auto simp: list_all_iff)
  show ?thesis
    using valid x(1)
    by (intro backward_mul_checkI)
       (auto simp: embedding_test_def args value_of_def EmbeddingFn_forward_nonneg then_backward_def
                   EmbeddingFn_backward_def index_add_loop_zero_src same_shape_def)
qed

lemma harness_mul_checks:
  assumes "0 < T" and "0 < C" and "ti \<in> set (harness_tests T C)" and "list_all2 drawn (test_params ti) args"
  shows "backward_mul_check ti args = Inr ()"
  using assms mul_check_cross_entropy mul_check_layer_norm mul_check_linear mul_check_gelu mul_check_add
        mul_check_embedding
  by (auto simp: harness_tests_def)

text \<open>
  C15: progress and preservation of shapes: on every argument list the harness may draw
  (\<open>T > 0\<close>, \<open>C > 0\<close>), each operator's forward succeeds and, for every upstream
  gradient of its output's shape, the engine's backward succeeds and returns a gradient of
  each float argument's shape and \<^verbatim>\<open>None\<close> for each index argument, as the engine's
  validation requires.
\<close>

theorem harness_backward_well_typed:
  assumes "0 < T" and "0 < C" and "ti \<in> set (harness_tests T C)"
    and "list_all2 drawn (test_params ti) args"
  shows "\<exists>out. test_func ti args = Inr out
           \<and> (\<forall>g. pyval_fits g out \<longrightarrow> (\<exists>gs. test_vjp ti args g = Inr gs \<and> list_all2 grad_fits args gs))"
proof -
  have "backward_typed ti args"
    using assms typed_cross_entropy typed_layer_norm typed_linear typed_gelu typed_add typed_embedding
    by (auto simp: harness_tests_def)
  then show ?thesis by (simp add: backward_typed_def)
qed

text \<open>
  C16: \<^verbatim>\<open>gradcheck\<close>'s check that backward multiplies by the upstream gradient passes
  on every argument list the harness may draw (\<open>T > 0\<close>, \<open>C > 0\<close>): with a zero upstream
  gradient every operator's backward returns zero gradients of its inputs' sizes, and
  \<^verbatim>\<open>None\<close> for the index input.
\<close>

theorem harness_backward_mul_check_passes:
  assumes "0 < T" and "0 < C" and "ti \<in> set (harness_tests T C)"
    and "list_all2 drawn (test_params ti) args"
  shows "backward_mul_check ti args = Inr ()"
  using harness_mul_checks [OF assms] .

text \<open>
  C22: with zero features (\<open>C = 0\<close>) LayerNorm's \<^verbatim>\<open>gradcheck\<close> raises
  \<^verbatim>\<open>ZeroDivisionError\<close>, although there is no entry to compare: the Jacobians are empty and
  agree, and the exception comes from backward's \<open>1 / C\<close> in the zero-upstream check.
\<close>

theorem layer_norm_gradcheck_zero_features:
  assumes "list_all2 drawn (test_params (layer_norm_test T 0)) args"
  shows "gradcheck (layer_norm_test T 0) args eps atol rtol = Inl ZeroDivisionError"
proof -
  obtain x g b where args: "args = [T2 x, T1 g, T1 b]" and x: "rows x = T" "cols x = 0"
    and gb: "len g = 0" "len b = 0"
    using assms by (auto simp: layer_norm_test_def list_all2_Cons1 elim!: drawn_T2E drawn_T1E)
  have ie: "input_entries args = []"
    using x gb by (simp add: input_entries_def args)
  obtain y c0 where run: "LayerNormFn_forward x g b = Inr (y, c0)" and y: "rows y = T" "cols y = 0"
    using LayerNormFn_forward_shape [of g x b] x gb by auto
  have slow: "slow_gradcheck (layer_norm_test T 0) args eps atol rtol = Inr ()"
    using y ie by (simp add: slow_gradcheck_def layer_norm_test_def args value_of_def run)
  have "backward_mul_check (layer_norm_test T 0) args = Inl ZeroDivisionError"
    using x gb y run
    by (simp add: backward_mul_check_def layer_norm_test_def args value_of_def then_backward_def
                  LayerNormFn_backward_def LayerNormFn_forward_def Let_def)
  then show ?thesis by (simp add: gradcheck_def slow)
qed

theorem harness_backward_well_typed_witness:
  "\<exists>out. test_func (layer_norm_test 1 1)
           [T2 \<lparr>rows = 1, cols = 1, ent = (\<lambda>t c. 0.5)\<rparr>, T1 \<lparr>len = 1, el = (\<lambda>c. 0.5)\<rparr>, T1 \<lparr>len = 1, el = (\<lambda>c. 0.5)\<rparr>]
         = Inr out
     \<and> (\<forall>g. pyval_fits g out \<longrightarrow>
          (\<exists>gs. test_vjp (layer_norm_test 1 1)
                  [T2 \<lparr>rows = 1, cols = 1, ent = (\<lambda>t c. 0.5)\<rparr>, T1 \<lparr>len = 1, el = (\<lambda>c. 0.5)\<rparr>,
                   T1 \<lparr>len = 1, el = (\<lambda>c. 0.5)\<rparr>] g = Inr gs
                \<and> list_all2 grad_fits
                    [T2 \<lparr>rows = 1, cols = 1, ent = (\<lambda>t c. 0.5)\<rparr>, T1 \<lparr>len = 1, el = (\<lambda>c. 0.5)\<rparr>,
                     T1 \<lparr>len = 1, el = (\<lambda>c. 0.5)\<rparr>] gs))"
proof -
  have h: "0 < (1 :: nat)" "0 < (1 :: nat)" "layer_norm_test 1 1 \<in> set (harness_tests 1 1)"
    "list_all2 drawn (test_params (layer_norm_test 1 1))
       [T2 \<lparr>rows = 1, cols = 1, ent = (\<lambda>t c. 0.5)\<rparr>, T1 \<lparr>len = 1, el = (\<lambda>c. 0.5)\<rparr>, T1 \<lparr>len = 1, el = (\<lambda>c. 0.5)\<rparr>]"
    by (simp_all add: harness_tests_def layer_norm_test_def)
  show ?thesis by (rule harness_backward_well_typed [OF h])
qed

theorem harness_backward_mul_check_passes_witness:
  "backward_mul_check (gelu_test 1 1) [T2 \<lparr>rows = 1, cols = 1, ent = (\<lambda>t c. 0.5)\<rparr>] = Inr ()"
proof -
  have h: "0 < (1 :: nat)" "0 < (1 :: nat)" "gelu_test 1 1 \<in> set (harness_tests 1 1)"
    "list_all2 drawn (test_params (gelu_test 1 1)) [T2 \<lparr>rows = 1, cols = 1, ent = (\<lambda>t c. 0.5)\<rparr>]"
    by (simp_all add: harness_tests_def gelu_test_def)
  show ?thesis by (rule harness_backward_mul_check_passes [OF h])
qed

theorem layer_norm_gradcheck_zero_features_witness:
  "gradcheck (layer_norm_test 2 0)
     [T2 \<lparr>rows = 2, cols = 0, ent = (\<lambda>t c. 0)\<rparr>, T1 \<lparr>len = 0, el = (\<lambda>c. 0)\<rparr>, T1 \<lparr>len = 0, el = (\<lambda>c. 0)\<rparr>]
     0.000001 0.01 0.01 = Inl ZeroDivisionError"
proof -
  have h: "list_all2 drawn (test_params (layer_norm_test 2 0))
     [T2 \<lparr>rows = 2, cols = 0, ent = (\<lambda>t c. 0)\<rparr>, T1 \<lparr>len = 0, el = (\<lambda>c. 0)\<rparr>, T1 \<lparr>len = 0, el = (\<lambda>c. 0)\<rparr>]"
    by (simp add: layer_norm_test_def)
  show ?thesis by (rule layer_norm_gradcheck_zero_features [OF h])
qed

end
