(* ===== verification/Harness_Checks.thy ===== *)
theory Harness_Checks
  imports Harness_Types
begin

text \<open>
  What the harness of \<^verbatim>\<open>src/src/modules.py\<close> establishes about the operators,
  proved for every input its random draws may produce: each forward agrees with the
  reference of \<^verbatim>\<open>torch.nn.functional\<close>; \<^verbatim>\<open>gradcheck\<close> passes at every step
  for the affine operators and for all small enough steps for every operator; the script
  prints \<^verbatim>\<open>passed\<close> six times and its banner; and on every input the script ends
  after a prefix of the tests, with the banner or with the first exception. Two inputs outside the draws show where an operator and its
  reference part ways.
\<close>

text \<open>
  The entries \<^verbatim>\<open>gradcheck\<close> compares, as functions: \<open>fval\<close> is one output entry of
  the operator applied to the arguments with one input entry moved by \<open>h\<close>, \<open>gval\<close>
  the entry of the analytic Jacobian backward returns for it. \<open>jacobian_ok\<close> says that
  the operator and its backward succeed on the arguments and their perturbations, and that
  every analytic entry is the derivative of the matching numerical one.
\<close>

definition fval :: "test_info \<Rightarrow> arg list \<Rightarrow> nat \<times> nat \<times> nat \<Rightarrow> nat \<times> nat \<Rightarrow> real \<Rightarrow> real" where
  "fval ti args kij pq h =
     (case test_func ti (perturb_args args kij h) of Inl _ \<Rightarrow> 0 | Inr a \<Rightarrow> pyval_entry a pq)"

definition gval :: "test_info \<Rightarrow> arg list \<Rightarrow> pyval \<Rightarrow> nat \<times> nat \<times> nat \<Rightarrow> nat \<times> nat \<Rightarrow> real" where
  "gval ti args out kij pq =
     (case test_vjp ti args (onehot out pq) of Inl _ \<Rightarrow> 0 | Inr gs \<Rightarrow> grad_entry (gs ! fst kij) (snd kij))"

definition jacobian_ok :: "test_info \<Rightarrow> arg list \<Rightarrow> pyval \<Rightarrow> bool" where
  "jacobian_ok ti args out \<longleftrightarrow>
     test_func ti args = Inr out
     \<and> (\<forall>kij\<in>set (input_entries args). \<forall>h. \<exists>a. test_func ti (perturb_args args kij h) = Inr a)
     \<and> (\<forall>pq\<in>set (pyval_entries out). \<exists>gs. test_vjp ti args (onehot out pq) = Inr gs)
     \<and> (\<forall>kij\<in>set (input_entries args). \<forall>pq\<in>set (pyval_entries out).
          (fval ti args kij pq has_real_derivative gval ti args out kij pq) (at 0))"


lemma allclose_same_entries:
  assumes "same_shape a b" and "\<forall>t<rows a. \<forall>c<cols a. ent a t c = ent b t c"
  shows "allclose harness_rtol harness_atol (Tensor a) (Tensor b)"
  using assms by (simp add: close_def harness_rtol_def harness_atol_def)

lemma allclose_Scalar_refl [simp]: "allclose harness_rtol harness_atol (Scalar l) (Scalar l)"
  by (simp add: close_def harness_rtol_def harness_atol_def)

lemma forward_check_Inr:
  "test_func ti args = Inr a \<Longrightarrow> test_ref ti args = Inr b \<Longrightarrow> allclose harness_rtol harness_atol a b \<Longrightarrow>
   forward_check ti args = Inr ()"
  by (simp add: forward_check_def)

lemma forward_check_cross_entropy:
  assumes "list_all2 drawn (test_params (cross_entropy_test T C)) args" and "0 < T"
  shows "forward_check (cross_entropy_test T C) args = Inr ()"
proof -
  obtain x y where args: "args = [T2 x, Idx y]" and x: "rows x = T" "cols x = C"
    and y: "length y = T" "list_all (\<lambda>i. 0 \<le> i \<and> i < int C - 1) y"
    using assms(1) by (auto simp: cross_entropy_test_def list_all2_Cons1 elim!: drawn_T2E drawn_IdxE)
  have valid: "list_all (\<lambda>i. 0 \<le> i \<and> i < int (cols x)) y"
    using y(2) x by (auto simp: list_all_iff)
  have idx: "those (map (py_index (cols x)) y) = Some (map nat y)"
    by (rule those_py_index_nonneg [OF valid])
  obtain l ctx where run: "CrossEntropyFn_forward x y = Inr (l, ctx)"
    using x y assms(2) idx by (simp add: CrossEntropyFn_forward_def Let_def)
  have "l = scalar_loss 1 (CrossEntropyFn_forward x y)"
    by (simp add: run scalar_loss_def)
  also have "\<dots> = (\<Sum>t<T. ln (row_lse x t) - ent x t (nat (y ! t))) / T"
    using scalar_loss_CrossEntropy [OF idx] x y assms(2) by (simp add: sum_subtractf)
  finally have l: "l = (\<Sum>t<T. ln (row_lse x t) - ent x t (nat (y ! t))) / T" .
  have nn: "y ! t \<noteq> -100" if "t < T" for t
    using valid that y(1) by (auto simp: list_all_iff dest!: nth_mem)
  have keep: "filter (\<lambda>t. y ! t \<noteq> -100) [0..<T] = [0..<T]"
    using nn by (simp add: filter_id_conv)
  have sum: "(\<Sum>t<T. if y ! t = -100 then 0 else ln (row_lse x t) - ent x t (nat (y ! t)))
             = (\<Sum>t<T. ln (row_lse x t) - ent x t (nat (y ! t)))"
    using nn by (intro sum.cong) auto
  have ref: "cross_entropy_ref args = Inr (Scalar l)"
    using valid x y assms(2) by (simp add: args l keep sum list_all_iff)
  have "test_func (cross_entropy_test T C) args = Inr (Scalar l)"
    by (simp add: cross_entropy_test_def args value_of_def run)
  moreover have "test_ref (cross_entropy_test T C) args = Inr (Scalar l)"
    using ref by (simp add: cross_entropy_test_def)
  ultimately show ?thesis
    by (rule forward_check_Inr [OF _ _ allclose_Scalar_refl])
qed


lemma forward_check_layer_norm:
  assumes "list_all2 drawn (test_params (layer_norm_test T C)) args"
  shows "forward_check (layer_norm_test T C) args = Inr ()"
proof -
  obtain x g b where args: "args = [T2 x, T1 g, T1 b]" and x: "rows x = T" "cols x = C"
    and gb: "len g = C" "len b = C"
    using assms by (auto simp: layer_norm_test_def list_all2_Cons1 elim!: drawn_T2E drawn_T1E)
  define y where "y = fst (projr (LayerNormFn_forward x g b))"
  define r where "r = \<lparr>rows = rows x, cols = C,
                       ent = (\<lambda>t c. (ent x t c - row_mean x t) / sqrt (row_var x t + 0.00001) * el g c
                                    + el b c)\<rparr>"
  have "test_func (layer_norm_test T C) args = Inr (Tensor y)"
    using x gb by (simp add: layer_norm_test_def args value_of_def y_def LayerNormFn_forward_def Let_def)
  moreover have "test_ref (layer_norm_test T C) args = Inr (Tensor r)"
    using x gb by (simp add: layer_norm_test_def args r_def)
  moreover have "allclose harness_rtol harness_atol (Tensor y) (Tensor r)"
    using x gb
    by (intro allclose_same_entries)
       (simp_all add: y_def r_def LayerNormFn_forward_def Let_def same_shape_def row_mean_def
                      row_var_def ln_eps_def)
  ultimately show ?thesis by (rule forward_check_Inr)
qed

lemma forward_check_linear:
  assumes "list_all2 drawn (test_params (linear_test T C)) args"
  shows "forward_check (linear_test T C) args = Inr ()"
proof -
  obtain x w b where args: "args = [T2 x, T2 w, T1 b]" and x: "rows x = T" "cols x = C"
    and w: "rows w = C" "cols w = C" and b: "len b = C"
    using assms by (auto simp: linear_test_def list_all2_Cons1 elim!: drawn_T2E drawn_T1E)
  have "test_func (linear_test T C) args = Inr (Tensor (linear_out x w b))"
    using x w b by (simp add: linear_test_def args value_of_def LinearFn_forward_ok)
  moreover have "test_ref (linear_test T C) args
                 = Inr (Tensor \<lparr>rows = rows x, cols = rows w,
                                ent = (\<lambda>t u. (\<Sum>k<cols w. ent x t k * ent w u k) + el b (bidx (len b) u))\<rparr>)"
    using x w b by (simp add: linear_test_def args)
  moreover have "allclose harness_rtol harness_atol (Tensor (linear_out x w b))
                   (Tensor \<lparr>rows = rows x, cols = rows w,
                            ent = (\<lambda>t u. (\<Sum>k<cols w. ent x t k * ent w u k) + el b (bidx (len b) u))\<rparr>)"
    using x w by (intro allclose_same_entries) (simp_all add: same_shape_def)
  ultimately show ?thesis by (rule forward_check_Inr)
qed

lemma forward_check_gelu:
  assumes "list_all2 drawn (test_params (gelu_test T C)) args"
  shows "forward_check (gelu_test T C) args = Inr ()"
proof -
  obtain x where args: "args = [T2 x]"
    using assms by (auto simp: gelu_test_def list_all2_Cons1 elim!: drawn_T2E)
  have "test_func (gelu_test T C) args = Inr (Tensor (x\<lparr>ent := (\<lambda>t c. gelu_ref (ent x t c))\<rparr>))"
    by (simp add: gelu_test_def args value_of_def GELUFn_forward_def gelu_ref_def Let_def)
  moreover have "test_ref (gelu_test T C) args = Inr (Tensor (x\<lparr>ent := (\<lambda>t c. gelu_ref (ent x t c))\<rparr>))"
    by (simp add: gelu_test_def args)
  moreover have "allclose harness_rtol harness_atol (Tensor (x\<lparr>ent := (\<lambda>t c. gelu_ref (ent x t c))\<rparr>))
                   (Tensor (x\<lparr>ent := (\<lambda>t c. gelu_ref (ent x t c))\<rparr>))"
    by (intro allclose_same_entries) (simp_all add: same_shape_def)
  ultimately show ?thesis by (rule forward_check_Inr)
qed

lemma forward_check_add:
  assumes "list_all2 drawn (test_params (add_test T C)) args"
  shows "forward_check (add_test T C) args = Inr ()"
proof -
  obtain a b where args: "args = [T2 a, T2 b]" and ab: "same_shape a b"
    using assms by (auto simp: add_test_def list_all2_Cons1 same_shape_def elim!: drawn_T2E)
  define s where "s = \<lparr>rows = rows a, cols = cols a, ent = (\<lambda>t c. ent a t c + ent b t c)\<rparr>"
  have "test_func (add_test T C) args = Inr (Tensor s)"
    using ab by (simp add: add_test_def args value_of_def AddFn_forward_ok s_def)
  moreover have "test_ref (add_test T C) args
                 = Inr (Tensor \<lparr>rows = rows a, cols = cols a, ent = (\<lambda>t c. bent a t c + bent b t c)\<rparr>)"
    using ab by (simp add: add_test_def args)
  moreover have "allclose harness_rtol harness_atol (Tensor s)
                   (Tensor \<lparr>rows = rows a, cols = cols a, ent = (\<lambda>t c. bent a t c + bent b t c)\<rparr>)"
    using ab by (intro allclose_same_entries) (simp_all add: s_def same_shape_def)
  ultimately show ?thesis by (rule forward_check_Inr)
qed

lemma forward_check_embedding:
  assumes "list_all2 drawn (test_params (embedding_test T C)) args"
  shows "forward_check (embedding_test T C) args = Inr ()"
proof -
  obtain x emb where args: "args = [Idx x, T2 emb]" and emb: "rows emb = T" "cols emb = C"
    and x: "length x = T" "list_all (\<lambda>i. 0 \<le> i \<and> i < int T - 1) x"
    using assms by (auto simp: embedding_test_def list_all2_Cons1 elim!: drawn_T2E drawn_IdxE)
  have valid: "list_all (\<lambda>i. 0 \<le> i \<and> i < int (rows emb)) x"
    using x(2) emb by (auto simp: list_all_iff)
  define r where "r = \<lparr>rows = length x, cols = cols emb, ent = (\<lambda>t d. ent emb (nat (x ! t)) d)\<rparr>"
  have "test_func (embedding_test T C) args
        = Inr (Tensor \<lparr>rows = length x, cols = cols emb, ent = (\<lambda>t d. ent emb (map nat x ! t) d)\<rparr>)"
    by (simp add: embedding_test_def args value_of_def EmbeddingFn_forward_nonneg [OF valid])
  moreover have "test_ref (embedding_test T C) args = Inr (Tensor r)"
    using valid by (simp add: embedding_test_def args r_def)
  moreover have "allclose harness_rtol harness_atol
                   (Tensor \<lparr>rows = length x, cols = cols emb, ent = (\<lambda>t d. ent emb (map nat x ! t) d)\<rparr>)
                   (Tensor r)"
    by (intro allclose_same_entries) (simp_all add: r_def same_shape_def)
  ultimately show ?thesis by (rule forward_check_Inr)
qed

lemmas forward_checks = forward_check_cross_entropy forward_check_layer_norm forward_check_linear
  forward_check_gelu forward_check_add forward_check_embedding

text \<open>
  C8: every forward check of the harness passes: for each of the six tests and every
  argument list the random draws may produce, the operator's forward agrees with the
  reference of \<^verbatim>\<open>torch.nn.functional\<close> within the harness's tolerances.
\<close>

theorem harness_forward_checks_pass:
  assumes "0 < T" and "ti \<in> set (harness_tests T C)" and "list_all2 drawn (test_params ti) args"
  shows "forward_check ti args = Inr ()"
  using assms forward_checks by (auto simp: harness_tests_def)


section \<open>Gradcheck as a comparison of Jacobians\<close>

lemma sequence_map_Inr:
  "(\<And>x. x \<in> set xs \<Longrightarrow> f x = Inr (g x)) \<Longrightarrow> sequence (map f xs) = Inr (map g xs)"
  by (induction xs) auto

lemma gradcheck_jacobian:
  assumes "jacobian_ok ti args out"
  shows "slow_gradcheck ti args eps atol rtol =
    (if \<forall>kij\<in>set (input_entries args). \<forall>pq\<in>set (pyval_entries out).
          close rtol atol (gval ti args out kij pq)
                ((fval ti args kij pq eps - fval ti args kij pq (- eps)) / (2 * eps))
     then Inr () else Inl GradcheckError)"
proof -
  let ?ie = "input_entries args" and ?pe = "pyval_entries out"
  let ?cd = "\<lambda>kij pq. (fval ti args kij pq eps - fval ti args kij pq (- eps)) / (2 * eps)"
  have f: "test_func ti args = Inr out" using assms by (simp add: jacobian_ok_def)
  have num: "sequence (map (central_diff (test_func ti) args out eps) ?ie) = Inr (map (\<lambda>kij. map (?cd kij) ?pe) ?ie)"
  proof (rule sequence_map_Inr)
    fix kij assume "kij \<in> set ?ie"
    then obtain a b where "test_func ti (perturb_args args kij eps) = Inr a"
      and "test_func ti (perturb_args args kij (- eps)) = Inr b"
      using assms unfolding jacobian_ok_def by blast
    then show "central_diff (test_func ti) args out eps kij = Inr (map (?cd kij) ?pe)"
      by (simp add: central_diff_def fval_def)
  qed
  have ana: "sequence (map (vjp_row (test_vjp ti) args out) ?pe)
             = Inr (map (\<lambda>pq. map (\<lambda>kij. gval ti args out kij pq) ?ie) ?pe)"
  proof (rule sequence_map_Inr)
    fix pq assume "pq \<in> set ?pe"
    then obtain gs where "test_vjp ti args (onehot out pq) = Inr gs"
      using assms unfolding jacobian_ok_def by blast
    then show "vjp_row (test_vjp ti) args out pq = Inr (map (\<lambda>kij. gval ti args out kij pq) ?ie)"
      by (simp add: vjp_row_def gval_def case_prod_beta)
  qed
  show ?thesis
    by (simp add: slow_gradcheck_def f num ana all_set_conv_all_nth)
qed

lemma central_difference_tendsto:
  assumes "(f has_real_derivative D) (at 0)"
  shows "((\<lambda>h. (f h - f (- h)) / (2 * h)) \<longlongrightarrow> D) (at 0)"
proof -
  have "((\<lambda>h. f (- h)) has_real_derivative - D) (at 0)"
    using DERIV_mirror [of f D 0] assms by simp
  then have "((\<lambda>h. f h - f (- h)) has_real_derivative D - - D) (at 0)"
    by (rule DERIV_diff [OF assms])
  then have "((\<lambda>h. (f h - f (- h)) / h) \<longlongrightarrow> 2 * D) (at 0)"
    by (simp add: DERIV_def)
  then have "((\<lambda>h. (f h - f (- h)) / h * (1 / 2)) \<longlongrightarrow> 2 * D * (1 / 2)) (at 0)"
    by (rule tendsto_mult_right)
  then show ?thesis by (simp add: mult.commute)
qed

lemma close_eventually:
  assumes "(g \<longlongrightarrow> D) (at 0)" and "0 < atol" and "0 \<le> rtol"
  shows "eventually (\<lambda>eps. close rtol atol D (g eps)) (at 0)"
proof -
  have "eventually (\<lambda>eps. dist (g eps) D < atol) (at 0)"
    using assms(1,2) tendsto_iff by blast
  moreover have "close rtol atol D (g eps)" if "dist (g eps) D < atol" for eps
  proof -
    have "\<bar>D - g eps\<bar> < atol" using that by (simp add: dist_real_def abs_minus_commute)
    moreover have "0 \<le> rtol * \<bar>g eps\<bar>" using assms(3) by simp
    ultimately show ?thesis by (simp add: close_def)
  qed
  ultimately show ?thesis by (rule eventually_mono)
qed

lemma gradcheck_eventually:
  assumes ok: "jacobian_ok ti args out" and "0 < atol" and "0 \<le> rtol"
  shows "eventually (\<lambda>eps. slow_gradcheck ti args eps atol rtol = Inr ()) (at 0)"
proof -
  have "eventually (\<lambda>eps. \<forall>kij\<in>set (input_entries args). \<forall>pq\<in>set (pyval_entries out).
          close rtol atol (gval ti args out kij pq)
                ((fval ti args kij pq eps - fval ti args kij pq (- eps)) / (2 * eps))) (at 0)"
  proof (intro eventually_ball_finite finite_set ballI)
    fix kij pq assume "kij \<in> set (input_entries args)" "pq \<in> set (pyval_entries out)"
    then have "(fval ti args kij pq has_real_derivative gval ti args out kij pq) (at 0)"
      using ok by (simp add: jacobian_ok_def)
    then show "eventually (\<lambda>eps. close rtol atol (gval ti args out kij pq)
                ((fval ti args kij pq eps - fval ti args kij pq (- eps)) / (2 * eps))) (at 0)"
      using assms(2,3) by (intro close_eventually central_difference_tendsto)
  qed
  then show ?thesis
    by (rule eventually_mono) (simp add: gradcheck_jacobian [OF ok])
qed

text \<open>
  Where every output entry moves affinely with every input entry, the central difference
  is exact, and gradcheck passes at every step and every non-negative tolerance.
\<close>

lemma gradcheck_exact:
  assumes ok: "jacobian_ok ti args out" and "eps \<noteq> 0" and "0 \<le> atol" and "0 \<le> rtol"
    and aff: "\<forall>kij\<in>set (input_entries args). \<forall>pq\<in>set (pyval_entries out). \<forall>h.
                fval ti args kij pq h = fval ti args kij pq 0 + h * (fval ti args kij pq 1 - fval ti args kij pq 0)"
  shows "slow_gradcheck ti args eps atol rtol = Inr ()"
proof -
  have "close rtol atol (gval ti args out kij pq)
          ((fval ti args kij pq eps - fval ti args kij pq (- eps)) / (2 * eps))"
    if kij: "kij \<in> set (input_entries args)" and pq: "pq \<in> set (pyval_entries out)" for kij pq
  proof -
    define f0 where "f0 = fval ti args kij pq 0"
    define c where "c = fval ti args kij pq 1 - fval ti args kij pq 0"
    have f: "\<And>h. fval ti args kij pq h = f0 + h * c"
      using aff kij pq unfolding f0_def c_def by blast
    have "(fval ti args kij pq has_real_derivative c) (at 0)"
      by (rule DERIV_affine) (simp add: f)
    moreover have "(fval ti args kij pq has_real_derivative gval ti args out kij pq) (at 0)"
      using ok kij pq by (simp add: jacobian_ok_def)
    ultimately have "gval ti args out kij pq = c" by (rule DERIV_unique [symmetric])
    then show ?thesis using assms(2-4) by (simp add: f close_def field_simps)
  qed
  then show ?thesis by (simp add: gradcheck_jacobian [OF ok])
qed

text \<open>
  Where backward passes the zero-upstream check, \<^verbatim>\<open>gradcheck\<close> is decided by the
  Jacobians alone; on the harness's draws it does (\<open>harness_mul_checks\<close>, in
  \<open>Harness_Types\<close>).
\<close>

lemma gradcheck_slow:
  "backward_mul_check ti args = Inr () \<Longrightarrow> gradcheck ti args eps atol rtol = slow_gradcheck ti args eps atol rtol"
  by (simp add: gradcheck_def split: sum.split)


section \<open>The Jacobian of each test\<close>

lemma ball_input_entries:
  "(\<forall>kij\<in>set (input_entries args). P kij) \<longleftrightarrow> (\<forall>k<length args. \<forall>ij\<in>set (arg_entries (args ! k)). P (k, ij))"
  by (auto simp: input_entries_def)

lemma ball_arg_entries [simp]:
  "(\<forall>ij\<in>set (arg_entries (T2 x)). P ij) \<longleftrightarrow> (\<forall>i<rows x. \<forall>j<cols x. P (i, j))"
  "(\<forall>ij\<in>set (arg_entries (T1 v)). P ij) \<longleftrightarrow> (\<forall>j<len v. P (0, j))"
  "(\<forall>ij\<in>set (arg_entries (Idx y)). P ij)"
  by auto

lemma ball_pyval_entries [simp]:
  "(\<forall>pq\<in>set (pyval_entries (Tensor y)). P pq) \<longleftrightarrow> (\<forall>p<rows y. \<forall>q<cols y. P (p, q))"
  "(\<forall>pq\<in>set (pyval_entries (Scalar l)). P pq) \<longleftrightarrow> P (0, 0)"
  by auto

lemma fwd_loss_onehot:
  "p < R \<Longrightarrow> q < K \<Longrightarrow>
   fwd_loss \<lparr>rows = R, cols = K, ent = (\<lambda>t c. if t = p \<and> c = q then 1 else 0)\<rparr> r
   = (case r of Inl _ \<Rightarrow> 0 | Inr (y, _) \<Rightarrow> ent y p q)"
  using sum_delta2_mult [of p R q K "\<lambda>t c. ent (fst (projr r)) t c" 1]
  by (auto simp: fwd_loss_def frob_def mult.commute split: sum.split)

lemma fval_fun:
  "fval ti args kij pq = (\<lambda>h. case test_func ti (perturb_args args kij h) of Inl _ \<Rightarrow> 0 | Inr a \<Rightarrow> pyval_entry a pq)"
  by (rule ext) (simp add: fval_def)

lemma pyval_entry_value_of_Tensor [simp]:
  "(case value_of Tensor r of Inl _ \<Rightarrow> 0 | Inr a \<Rightarrow> pyval_entry a (p, q))
   = (case r of Inl _ \<Rightarrow> 0 | Inr (y, _) \<Rightarrow> ent y p q)"
  by (simp add: value_of_def split: sum.split prod.split)

lemma pyval_entry_value_of_Scalar [simp]:
  "(case value_of Scalar r of Inl _ \<Rightarrow> 0 | Inr a \<Rightarrow> pyval_entry a pq) = scalar_loss 1 r"
  by (simp add: value_of_def scalar_loss_def split: sum.split prod.split)

lemma jacobian_okI:
  assumes "test_func ti args = Inr out"
    and "\<forall>kij\<in>set (input_entries args). \<forall>h. \<exists>a. test_func ti (perturb_args args kij h) = Inr a"
    and "\<forall>pq\<in>set (pyval_entries out). \<exists>gs. test_vjp ti args (onehot out pq) = Inr gs
           \<and> (\<forall>kij\<in>set (input_entries args).
                (fval ti args kij pq has_real_derivative grad_entry (gs ! fst kij) (snd kij)) (at 0))"
  shows "jacobian_ok ti args out"
proof -
  have "(fval ti args kij pq has_real_derivative gval ti args out kij pq) (at 0)"
    if "kij \<in> set (input_entries args)" "pq \<in> set (pyval_entries out)" for kij pq
    using assms(3) that by (force simp: gval_def)
  then show ?thesis using assms by (auto simp: jacobian_ok_def)
qed

lemma jacobian_ok_layer_norm:
  assumes "list_all2 drawn (test_params (layer_norm_test T C)) args" and "0 < C"
  shows "\<exists>out. jacobian_ok (layer_norm_test T C) args out"
proof -
  obtain x g b where args: "args = [T2 x, T1 g, T1 b]" and x: "rows x = T" "cols x = C"
    and gb: "len g = C" "len b = C"
    using assms(1) by (auto simp: layer_norm_test_def list_all2_Cons1 elim!: drawn_T2E drawn_T1E)
  obtain y c0 where run: "LayerNormFn_forward x g b = Inr (y, c0)" and y: "rows y = rows x" "cols y = cols x"
    using LayerNormFn_forward_shape [of g x b] x gb by auto
  have grad: "\<exists>gs. test_vjp (layer_norm_test T C) args (onehot (Tensor y) (p, q)) = Inr gs
      \<and> (\<forall>kij\<in>set (input_entries args).
           (fval (layer_norm_test T C) args kij (p, q) has_real_derivative grad_entry (gs ! fst kij) (snd kij)) (at 0))"
    if pq: "p < rows y" "q < cols y" for p q
  proof -
    define G where "G = \<lparr>rows = rows y, cols = cols y, ent = (\<lambda>t c. if t = p \<and> c = q then 1 else (0 :: real))\<rparr>"
    obtain dx dgamma dbeta where
      bwd: "then_backward (LayerNormFn_forward x g b) (\<lambda>ctx. LayerNormFn_backward ctx G) = Inr (dx, dgamma, dbeta)"
      and dx: "\<forall>i<rows x. \<forall>j<cols x.
                 ((\<lambda>h. fwd_loss G (LayerNormFn_forward (perturb2 x i j h) g b)) has_real_derivative ent dx i j) (at 0)"
      and dg: "\<forall>k<cols x.
                 ((\<lambda>h. fwd_loss G (LayerNormFn_forward x (perturb1 g k h) b)) has_real_derivative el dgamma k) (at 0)"
      and db: "\<forall>k<cols x.
                 ((\<lambda>h. fwd_loss G (LayerNormFn_forward x g (perturb1 b k h))) has_real_derivative el dbeta k) (at 0)"
      using LayerNormFn_grad [of g x b G] x gb y assms(2) by (auto simp: same_shape_def G_def)
    have fl: "fwd_loss G r = (case r of Inl _ \<Rightarrow> 0 | Inr (y, _) \<Rightarrow> ent y p q)" for r :: "error + tensor2 \<times> layernorm_ctx"
      using pq by (simp add: G_def fwd_loss_onehot)
    show ?thesis
      apply (rule exI [of _ "[Grad (T2 dx), Grad (T1 dgamma), Grad (T1 dbeta)]"])
      using dx dg db gb x
      by (simp add: args layer_norm_test_def bwd [unfolded G_def] fl ball_input_entries numeral_eq_Suc All_less_Suc
                    fval_fun perturb_args_def)
  qed
  show ?thesis
  proof (intro exI jacobian_okI)
    show "test_func (layer_norm_test T C) args = Inr (Tensor y)"
      by (simp add: layer_norm_test_def args value_of_def run)
    show "\<forall>kij\<in>set (input_entries args). \<forall>h. \<exists>a. test_func (layer_norm_test T C) (perturb_args args kij h) = Inr a"
      using x gb by (simp add: args layer_norm_test_def ball_input_entries numeral_eq_Suc All_less_Suc
                               perturb_args_def value_of_def LayerNormFn_forward_def Let_def)
    show "\<forall>pq\<in>set (pyval_entries (Tensor y)). \<exists>gs. test_vjp (layer_norm_test T C) args (onehot (Tensor y) pq) = Inr gs
           \<and> (\<forall>kij\<in>set (input_entries args).
                (fval (layer_norm_test T C) args kij pq has_real_derivative grad_entry (gs ! fst kij) (snd kij)) (at 0))"
      using grad by simp
  qed
qed


lemma jacobian_ok_cross_entropy:
  assumes "list_all2 drawn (test_params (cross_entropy_test T C)) args" and "0 < T"
  shows "\<exists>out. jacobian_ok (cross_entropy_test T C) args out"
proof -
  obtain x y where args: "args = [T2 x, Idx y]" and x: "rows x = T" "cols x = C"
    and y: "length y = T" "list_all (\<lambda>i. 0 \<le> i \<and> i < int C - 1) y"
    using assms(1) by (auto simp: cross_entropy_test_def list_all2_Cons1 elim!: drawn_T2E drawn_IdxE)
  have valid: "list_all (\<lambda>i. 0 \<le> i \<and> i < int (cols x)) y"
    using y(2) x by (auto simp: list_all_iff)
  then have valid': "list_all (\<lambda>i. - int (cols x) \<le> i \<and> i < int (cols x)) y"
    by (auto simp: list_all_iff)
  have idx: "those (map (py_index (cols x)) y) = Some (map nat y)"
    by (rule those_py_index_nonneg [OF valid])
  obtain l c0 where run: "CrossEntropyFn_forward x y = Inr (l, c0)"
    using x y assms(2) idx by (simp add: CrossEntropyFn_forward_def Let_def)
  obtain dx where bwd: "then_backward (CrossEntropyFn_forward x y) (\<lambda>ctx. CrossEntropyFn_backward ctx 1)
                        = Inr (dx, NoGrad)"
    and dx: "\<forall>i<rows x. \<forall>j<cols x.
               ((\<lambda>h. scalar_loss 1 (CrossEntropyFn_forward (perturb2 x i j h) y)) has_real_derivative ent dx i j) (at 0)"
    using CrossEntropyFn_grad [OF valid', of 1] x y assms(2) by auto
  show ?thesis
  proof (intro exI jacobian_okI)
    show "test_func (cross_entropy_test T C) args = Inr (Scalar l)"
      by (simp add: cross_entropy_test_def args value_of_def run)
    show "\<forall>kij\<in>set (input_entries args). \<forall>h. \<exists>a. test_func (cross_entropy_test T C) (perturb_args args kij h) = Inr a"
      using x y assms(2) idx
      by (simp add: args cross_entropy_test_def ball_input_entries numeral_eq_Suc All_less_Suc
                    perturb_args_def value_of_def CrossEntropyFn_forward_def Let_def)
    show "\<forall>pq\<in>set (pyval_entries (Scalar l)). \<exists>gs. test_vjp (cross_entropy_test T C) args (onehot (Scalar l) pq) = Inr gs
           \<and> (\<forall>kij\<in>set (input_entries args).
                (fval (cross_entropy_test T C) args kij pq has_real_derivative grad_entry (gs ! fst kij) (snd kij)) (at 0))"
      using dx
      by (simp add: args cross_entropy_test_def bwd ball_input_entries numeral_eq_Suc All_less_Suc
                    fval_fun perturb_args_def)
  qed
qed

lemma jacobian_ok_linear:
  assumes "list_all2 drawn (test_params (linear_test T C)) args"
  shows "\<exists>out. jacobian_ok (linear_test T C) args out"
proof -
  obtain x w b where args: "args = [T2 x, T2 w, T1 b]" and x: "rows x = T" "cols x = C"
    and w: "rows w = C" "cols w = C" and b: "len b = C"
    using assms by (auto simp: linear_test_def list_all2_Cons1 elim!: drawn_T2E drawn_T1E)
  have grad: "\<exists>gs. test_vjp (linear_test T C) args (onehot (Tensor (linear_out x w b)) (p, q)) = Inr gs
      \<and> (\<forall>kij\<in>set (input_entries args).
           (fval (linear_test T C) args kij (p, q) has_real_derivative grad_entry (gs ! fst kij) (snd kij)) (at 0))"
    if pq: "p < rows x" "q < rows w" for p q
  proof -
    define G where "G = \<lparr>rows = rows x, cols = rows w, ent = (\<lambda>t c. if t = p \<and> c = q then 1 else (0 :: real))\<rparr>"
    obtain dx dw db where
      bwd: "then_backward (LinearFn_forward x w b) (\<lambda>ctx. LinearFn_backward ctx G) = Inr (dx, dw, db)"
      and dx: "\<forall>i<rows x. \<forall>j<cols x.
                 ((\<lambda>h. fwd_loss G (LinearFn_forward (perturb2 x i j h) w b)) has_real_derivative ent dx i j) (at 0)"
      and dw: "\<forall>i<rows w. \<forall>j<cols w.
                 ((\<lambda>h. fwd_loss G (LinearFn_forward x (perturb2 w i j h) b)) has_real_derivative ent dw i j) (at 0)"
      and db: "\<forall>k<len b.
                 ((\<lambda>h. fwd_loss G (LinearFn_forward x w (perturb1 b k h))) has_real_derivative el db k) (at 0)"
      using LinearFn_grad [of x w b G] x w b by (auto simp: G_def)
    have fl: "fwd_loss G r = (case r of Inl _ \<Rightarrow> 0 | Inr (y, _) \<Rightarrow> ent y p q)" for r :: "error + tensor2 \<times> linear_ctx"
      using pq by (simp add: G_def fwd_loss_onehot)
    show ?thesis
      apply (rule exI [of _ "[Grad (T2 dx), Grad (T2 dw), Grad (T1 db)]"])
      using dx dw db
      by (simp add: args linear_test_def bwd [unfolded G_def] fl ball_input_entries numeral_eq_Suc All_less_Suc
                    fval_fun perturb_args_def)
  qed
  show ?thesis
  proof (intro exI jacobian_okI)
    show "test_func (linear_test T C) args = Inr (Tensor (linear_out x w b))"
      using x w b by (simp add: linear_test_def args value_of_def LinearFn_forward_ok)
    show "\<forall>kij\<in>set (input_entries args). \<forall>h. \<exists>a. test_func (linear_test T C) (perturb_args args kij h) = Inr a"
      using x w b by (simp add: args linear_test_def ball_input_entries numeral_eq_Suc All_less_Suc
                                perturb_args_def value_of_def LinearFn_forward_ok)
    show "\<forall>pq\<in>set (pyval_entries (Tensor (linear_out x w b))). \<exists>gs.
             test_vjp (linear_test T C) args (onehot (Tensor (linear_out x w b)) pq) = Inr gs
           \<and> (\<forall>kij\<in>set (input_entries args).
                (fval (linear_test T C) args kij pq has_real_derivative grad_entry (gs ! fst kij) (snd kij)) (at 0))"
      using grad by simp
  qed
qed

lemma jacobian_ok_gelu:
  assumes "list_all2 drawn (test_params (gelu_test T C)) args"
  shows "\<exists>out. jacobian_ok (gelu_test T C) args out"
proof -
  obtain x where args: "args = [T2 x]"
    using assms by (auto simp: gelu_test_def list_all2_Cons1 elim!: drawn_T2E)
  define y where "y = x\<lparr>ent := (\<lambda>t c. gelu_ref (ent x t c))\<rparr>"
  have grad: "\<exists>gs. test_vjp (gelu_test T C) args (onehot (Tensor y) (p, q)) = Inr gs
      \<and> (\<forall>kij\<in>set (input_entries args).
           (fval (gelu_test T C) args kij (p, q) has_real_derivative grad_entry (gs ! fst kij) (snd kij)) (at 0))"
    if pq: "p < rows x" "q < cols x" for p q
  proof -
    define G where "G = \<lparr>rows = rows x, cols = cols x, ent = (\<lambda>t c. if t = p \<and> c = q then 1 else (0 :: real))\<rparr>"
    define dx where "dx = projr (then_backward (GELUFn_forward x) (\<lambda>ctx. GELUFn_backward ctx G))"
    have bwd: "then_backward (GELUFn_forward x) (\<lambda>ctx. GELUFn_backward ctx G) = Inr dx"
      by (simp add: dx_def G_def GELUFn_forward_def GELUFn_backward_def Let_def same_shape_def)
    have dx: "((\<lambda>h. fwd_loss G (GELUFn_forward (perturb2 x i j h))) has_real_derivative ent dx i j) (at 0)"
      if "i < rows x" "j < cols x" for i j
      using GELUFn_grad [of G x i j] that bwd by (auto simp: G_def same_shape_def)
    have fl: "fwd_loss G r = (case r of Inl _ \<Rightarrow> 0 | Inr (y, _) \<Rightarrow> ent y p q)" for r :: "error + tensor2 \<times> gelu_ctx"
      using pq by (simp add: G_def fwd_loss_onehot)
    show ?thesis
      apply (rule exI [of _ "[Grad (T2 dx)]"])
      using dx
      by (simp add: args gelu_test_def y_def bwd [unfolded G_def] fl ball_input_entries fval_fun perturb_args_def)
  qed
  show ?thesis
  proof (intro exI jacobian_okI)
    show "test_func (gelu_test T C) args = Inr (Tensor y)"
      by (simp add: gelu_test_def args value_of_def y_def GELUFn_forward_def gelu_ref_def Let_def)
    show "\<forall>kij\<in>set (input_entries args). \<forall>h. \<exists>a. test_func (gelu_test T C) (perturb_args args kij h) = Inr a"
      by (simp add: args gelu_test_def ball_input_entries perturb_args_def value_of_def GELUFn_forward_def Let_def)
    show "\<forall>pq\<in>set (pyval_entries (Tensor y)). \<exists>gs. test_vjp (gelu_test T C) args (onehot (Tensor y) pq) = Inr gs
           \<and> (\<forall>kij\<in>set (input_entries args).
                (fval (gelu_test T C) args kij pq has_real_derivative grad_entry (gs ! fst kij) (snd kij)) (at 0))"
      using grad by (simp add: y_def)
  qed
qed


lemma jacobian_ok_add:
  assumes "list_all2 drawn (test_params (add_test T C)) args"
  shows "\<exists>out. jacobian_ok (add_test T C) args out"
proof -
  obtain a b where args: "args = [T2 a, T2 b]" and ab: "same_shape a b"
    using assms by (auto simp: add_test_def list_all2_Cons1 same_shape_def elim!: drawn_T2E)
  define s where "s = \<lparr>rows = rows a, cols = cols a, ent = (\<lambda>t c. ent a t c + ent b t c)\<rparr>"
  have grad: "\<exists>gs. test_vjp (add_test T C) args (onehot (Tensor s) (p, q)) = Inr gs
      \<and> (\<forall>kij\<in>set (input_entries args).
           (fval (add_test T C) args kij (p, q) has_real_derivative grad_entry (gs ! fst kij) (snd kij)) (at 0))"
    if pq: "p < rows a" "q < cols a" for p q
  proof -
    define G where "G = \<lparr>rows = rows a, cols = cols a, ent = (\<lambda>t c. if t = p \<and> c = q then 1 else (0 :: real))\<rparr>"
    have gG: "same_shape G a" by (simp add: G_def same_shape_def)
    have oh: "onehot (Tensor s) (p, q) = Tensor G" by (simp add: G_def s_def)
    have da: "((\<lambda>h. fwd_loss G (AddFn_forward (perturb2 a i j h) b)) has_real_derivative ent G i j) (at 0)"
      and db: "((\<lambda>h. fwd_loss G (AddFn_forward a (perturb2 b i j h))) has_real_derivative ent G i j) (at 0)"
      if "i < rows a" "j < cols a" for i j
      using AddFn_grad [OF ab gG that] by auto
    have fl: "fwd_loss G r = (case r of Inl _ \<Rightarrow> 0 | Inr (y, _) \<Rightarrow> ent y p q)" for r :: "error + tensor2 \<times> unit"
      using pq by (simp add: G_def fwd_loss_onehot)
    have "rows b = rows a" "cols b = cols a" using ab by (simp_all add: same_shape_def)
    then show ?thesis
      apply (rule_tac exI [of _ "[Grad (T2 G), Grad (T2 G)]"])
      using da db
      by (simp del: onehot.simps add: oh args add_test_def AddFn_forward_ok [OF ab] then_backward_def
                    AddFn_backward_def fl ball_input_entries numeral_eq_Suc
                    All_less_Suc fval_fun perturb_args_def)
  qed
  show ?thesis
  proof (intro exI jacobian_okI)
    show "test_func (add_test T C) args = Inr (Tensor s)"
      using ab by (simp add: add_test_def args value_of_def AddFn_forward_ok s_def)
    show "\<forall>kij\<in>set (input_entries args). \<forall>h. \<exists>a. test_func (add_test T C) (perturb_args args kij h) = Inr a"
      using ab by (simp add: args add_test_def ball_input_entries numeral_eq_Suc All_less_Suc
                             perturb_args_def value_of_def AddFn_forward_ok)
    show "\<forall>pq\<in>set (pyval_entries (Tensor s)). \<exists>gs. test_vjp (add_test T C) args (onehot (Tensor s) pq) = Inr gs
           \<and> (\<forall>kij\<in>set (input_entries args).
                (fval (add_test T C) args kij pq has_real_derivative grad_entry (gs ! fst kij) (snd kij)) (at 0))"
      using grad by (simp add: s_def)
  qed
qed

lemma jacobian_ok_embedding:
  assumes "list_all2 drawn (test_params (embedding_test T C)) args"
  shows "\<exists>out. jacobian_ok (embedding_test T C) args out"
proof -
  obtain x emb where args: "args = [Idx x, T2 emb]" and emb: "rows emb = T" "cols emb = C"
    and x: "length x = T" "list_all (\<lambda>i. 0 \<le> i \<and> i < int T - 1) x"
    using assms by (auto simp: embedding_test_def list_all2_Cons1 elim!: drawn_T2E drawn_IdxE)
  have valid: "list_all (\<lambda>i. 0 \<le> i \<and> i < int (rows emb)) x"
    using x(2) emb by (auto simp: list_all_iff)
  define y where "y = \<lparr>rows = length x, cols = cols emb, ent = (\<lambda>t d. ent emb (map nat x ! t) d)\<rparr>"
  have grad: "\<exists>gs. test_vjp (embedding_test T C) args (onehot (Tensor y) (p, q)) = Inr gs
      \<and> (\<forall>kij\<in>set (input_entries args).
           (fval (embedding_test T C) args kij (p, q) has_real_derivative grad_entry (gs ! fst kij) (snd kij)) (at 0))"
    if pq: "p < length x" "q < cols emb" for p q
  proof -
    define G where "G = \<lparr>rows = length x, cols = cols emb, ent = (\<lambda>t c. if t = p \<and> c = q then 1 else (0 :: real))\<rparr>"
    obtain demb where bwd: "then_backward (EmbeddingFn_forward x emb) (\<lambda>ctx. EmbeddingFn_backward ctx G)
                            = Inr (NoGrad, demb)"
      and demb: "\<forall>n<rows emb. \<forall>d<cols emb.
                   ((\<lambda>h. fwd_loss G (EmbeddingFn_forward x (perturb2 emb n d h))) has_real_derivative ent demb n d) (at 0)"
      using EmbeddingFn_grad [OF valid, of G] by (auto simp: G_def)
    have fl: "fwd_loss G r = (case r of Inl _ \<Rightarrow> 0 | Inr (y, _) \<Rightarrow> ent y p q)" for r :: "error + tensor2 \<times> embedding_ctx"
      using pq by (simp add: G_def fwd_loss_onehot)
    show ?thesis
      apply (rule exI [of _ "[NoGrad, Grad (T2 demb)]"])
      using demb
      by (simp add: args embedding_test_def y_def bwd [unfolded G_def] fl ball_input_entries numeral_eq_Suc
                    All_less_Suc fval_fun perturb_args_def)
  qed
  show ?thesis
  proof (intro exI jacobian_okI)
    show "test_func (embedding_test T C) args = Inr (Tensor y)"
      by (simp add: embedding_test_def args value_of_def EmbeddingFn_forward_nonneg [OF valid] y_def)
    show "\<forall>kij\<in>set (input_entries args). \<forall>h. \<exists>a. test_func (embedding_test T C) (perturb_args args kij h) = Inr a"
      using valid by (simp add: args embedding_test_def ball_input_entries numeral_eq_Suc All_less_Suc
                                perturb_args_def value_of_def EmbeddingFn_forward_nonneg)
    show "\<forall>pq\<in>set (pyval_entries (Tensor y)). \<exists>gs. test_vjp (embedding_test T C) args (onehot (Tensor y) pq) = Inr gs
           \<and> (\<forall>kij\<in>set (input_entries args).
                (fval (embedding_test T C) args kij pq has_real_derivative grad_entry (gs ! fst kij) (snd kij)) (at 0))"
      using grad by (simp add: y_def)
  qed
qed


lemma affine_entries_linear:
  assumes "list_all2 drawn (test_params (linear_test T C)) args"
    and "test_func (linear_test T C) args = Inr out"
  shows "\<forall>kij\<in>set (input_entries args). \<forall>pq\<in>set (pyval_entries out). \<forall>h.
           fval (linear_test T C) args kij pq h
           = fval (linear_test T C) args kij pq 0
             + h * (fval (linear_test T C) args kij pq 1 - fval (linear_test T C) args kij pq 0)"
proof -
  obtain x w b where args: "args = [T2 x, T2 w, T1 b]" and x: "rows x = T" "cols x = C"
    and w: "rows w = C" "cols w = C" and b: "len b = C"
    using assms(1) by (auto simp: linear_test_def list_all2_Cons1 elim!: drawn_T2E drawn_T1E)
  have out: "out = Tensor (linear_out x w b)"
    using assms(2) x w b by (simp add: linear_test_def args value_of_def LinearFn_forward_ok)
  show ?thesis
    using x w b
    by (simp add: out args linear_test_def ball_input_entries numeral_eq_Suc All_less_Suc fval_def
                  perturb_args_def value_of_def LinearFn_forward_ok linear_out_perturb_x
                  linear_out_perturb_w linear_out_perturb_b del: arg_entries.simps ent_linear_out(1))
qed

lemma affine_entries_add:
  assumes "list_all2 drawn (test_params (add_test T C)) args"
    and "test_func (add_test T C) args = Inr out"
  shows "\<forall>kij\<in>set (input_entries args). \<forall>pq\<in>set (pyval_entries out). \<forall>h.
           fval (add_test T C) args kij pq h
           = fval (add_test T C) args kij pq 0
             + h * (fval (add_test T C) args kij pq 1 - fval (add_test T C) args kij pq 0)"
proof -
  obtain a b where args: "args = [T2 a, T2 b]" and ab: "same_shape a b"
    using assms(1) by (auto simp: add_test_def list_all2_Cons1 same_shape_def elim!: drawn_T2E)
  have out: "out = Tensor \<lparr>rows = rows a, cols = cols a, ent = (\<lambda>t c. ent a t c + ent b t c)\<rparr>"
    using assms(2) ab by (simp add: add_test_def args value_of_def AddFn_forward_ok)
  show ?thesis
    using ab
    by (simp add: out args add_test_def ball_input_entries numeral_eq_Suc All_less_Suc fval_def
                  perturb_args_def value_of_def AddFn_forward_ok del: arg_entries.simps)
qed

lemma affine_entries_embedding:
  assumes "list_all2 drawn (test_params (embedding_test T C)) args"
    and "test_func (embedding_test T C) args = Inr out"
  shows "\<forall>kij\<in>set (input_entries args). \<forall>pq\<in>set (pyval_entries out). \<forall>h.
           fval (embedding_test T C) args kij pq h
           = fval (embedding_test T C) args kij pq 0
             + h * (fval (embedding_test T C) args kij pq 1 - fval (embedding_test T C) args kij pq 0)"
proof -
  obtain x emb where args: "args = [Idx x, T2 emb]" and emb: "rows emb = T" "cols emb = C"
    and x: "length x = T" "list_all (\<lambda>i. 0 \<le> i \<and> i < int T - 1) x"
    using assms(1) by (auto simp: embedding_test_def list_all2_Cons1 elim!: drawn_T2E drawn_IdxE)
  have valid: "list_all (\<lambda>i. 0 \<le> i \<and> i < int (rows emb)) x"
    using x(2) emb by (auto simp: list_all_iff)
  have out: "out = Tensor \<lparr>rows = length x, cols = cols emb, ent = (\<lambda>t d. ent emb (map nat x ! t) d)\<rparr>"
    using assms(2) by (simp add: embedding_test_def args value_of_def EmbeddingFn_forward_nonneg [OF valid])
  show ?thesis
    using valid
    by (simp add: out args embedding_test_def ball_input_entries numeral_eq_Suc All_less_Suc fval_def
                  perturb_args_def value_of_def EmbeddingFn_forward_nonneg del: arg_entries.simps(1,2))
qed


section \<open>The harness's checks pass\<close>

lemma harness_jacobians:
  assumes "0 < T" and "0 < C" and "ti \<in> set (harness_tests T C)" and "list_all2 drawn (test_params ti) args"
  shows "\<exists>out. jacobian_ok ti args out"
  using assms jacobian_ok_cross_entropy jacobian_ok_layer_norm jacobian_ok_linear jacobian_ok_gelu
        jacobian_ok_add jacobian_ok_embedding
  by (auto simp: harness_tests_def)

lemma eventually_list_all2:
  "list_all2 (\<lambda>a b. eventually (\<lambda>x. P x a b) F) xs ys \<Longrightarrow> eventually (\<lambda>x. list_all2 (P x) xs ys) F"
  by (induction rule: list_all2_induct) (auto intro: eventually_conj)

lemma run_tests_all_pass:
  "list_all2 (\<lambda>ti args. forward_check ti args = Inr () \<and> gradcheck ti args eps harness_atol harness_rtol = Inr ())
     tis argss \<Longrightarrow>
   run_tests eps tis argss = (map (\<lambda>ti. test_name ti @ '' passed'') tis, None)"
  by (induction rule: list_all2_induct) auto

lemma eventually_at_zero_interval:
  "eventually P (at (0 :: real)) \<Longrightarrow> \<exists>e>0. \<forall>eps. eps \<noteq> 0 \<and> \<bar>eps\<bar> < e \<longrightarrow> P eps"
  by (auto simp: eventually_at dist_real_def)

lemma gradcheck_affine_tests:
  assumes "ti \<in> {linear_test T C, add_test T C, embedding_test T C}"
    and "list_all2 drawn (test_params ti) args"
    and "eps \<noteq> 0" and "0 \<le> atol" and "0 \<le> rtol"
  shows "gradcheck ti args eps atol rtol = Inr ()"
proof -
  have "\<exists>out. jacobian_ok ti args out"
    using assms(1,2) by (auto intro: jacobian_ok_linear jacobian_ok_add jacobian_ok_embedding)
  then obtain out where ok: "jacobian_ok ti args out" ..
  then have run: "test_func ti args = Inr out" by (simp add: jacobian_ok_def)
  from assms(1) consider (lin) "ti = linear_test T C" | (add) "ti = add_test T C" | (emb) "ti = embedding_test T C"
    by blast
  then have "\<forall>kij\<in>set (input_entries args). \<forall>pq\<in>set (pyval_entries out). \<forall>h.
          fval ti args kij pq h = fval ti args kij pq 0 + h * (fval ti args kij pq 1 - fval ti args kij pq 0)"
  proof cases
    case lin
    show ?thesis unfolding lin by (rule affine_entries_linear [OF assms(2) [unfolded lin] run [unfolded lin]])
  next
    case add
    show ?thesis unfolding add by (rule affine_entries_add [OF assms(2) [unfolded add] run [unfolded add]])
  next
    case emb
    show ?thesis unfolding emb by (rule affine_entries_embedding [OF assms(2) [unfolded emb] run [unfolded emb]])
  qed
  then have "slow_gradcheck ti args eps atol rtol = Inr ()" by (rule gradcheck_exact [OF ok assms(3-5)])
  moreover have "backward_mul_check ti args = Inr ()"
    using assms(1,2) mul_check_linear mul_check_add mul_check_embedding by auto
  ultimately show ?thesis by (simp add: gradcheck_slow)
qed

text \<open>
  C10: for the three operators whose outputs are affine in each input entry (Linear, Add,
  Embedding), \<^verbatim>\<open>gradcheck\<close> passes on every argument list the harness may draw, at every
  non-zero step (the harness's \<open>1e-6\<close> included) and every non-negative tolerance: the
  central difference is exact and equals the Jacobian backward computes.
\<close>

theorem harness_gradcheck_exact_affine:
  assumes "ti \<in> {linear_test T C, add_test T C, embedding_test T C}"
    and "list_all2 drawn (test_params ti) args"
    and "eps \<noteq> 0" and "0 \<le> atol" and "0 \<le> rtol"
  shows "gradcheck ti args eps atol rtol = Inr ()"
  using gradcheck_affine_tests [OF assms] .

text \<open>
  C9: for every test of the harness (the three non-affine operators included), every
  argument list it may draw, and every positive absolute tolerance, \<^verbatim>\<open>gradcheck\<close> passes
  for all small enough steps: each central difference converges to the entry of the
  Jacobian that backward computes.
\<close>

theorem harness_gradcheck_small_step:
  assumes "0 < T" and "0 < C" and "ti \<in> set (harness_tests T C)"
    and "list_all2 drawn (test_params ti) args" and "0 < atol" and "0 \<le> rtol"
  shows "\<exists>e>0. \<forall>eps. eps \<noteq> 0 \<and> \<bar>eps\<bar> < e \<longrightarrow> gradcheck ti args eps atol rtol = Inr ()"
proof -
  obtain out where "jacobian_ok ti args out"
    using harness_jacobians [OF assms(1-4)] by blast
  then have "eventually (\<lambda>eps. slow_gradcheck ti args eps atol rtol = Inr ()) (at 0)"
    using assms(5,6) by (rule gradcheck_eventually)
  then have "eventually (\<lambda>eps. gradcheck ti args eps atol rtol = Inr ()) (at 0)"
    by (simp add: gradcheck_slow [OF harness_mul_checks [OF assms(1-4)]])
  then show ?thesis by (rule eventually_at_zero_interval)
qed

text \<open>
  C11: the whole script: for every batch size \<open>T > 0\<close> and feature width \<open>C\<close>, and every
  argument lists the random draws may produce, there is a step size below which the script
  prints \<^verbatim>\<open>passed\<close> for all six tests, in the table's order, then the closing banner,
  and raises nothing.
\<close>

theorem harness_run_passes:
  assumes "0 < T"
    and "list_all2 (\<lambda>ti args. list_all2 drawn (test_params ti) args) (harness_tests T C) argss"
  shows "\<exists>e>0. \<forall>eps. 0 < eps \<and> eps < e \<longrightarrow>
           harness_script T C eps argss
           = ([''cross_entropy passed'', ''layer_norm passed'', ''linear passed'', ''gelu passed'',
               ''add passed'', ''embedding passed'', all_passed_banner], None)"
proof -
  have C: "0 < C"
    using assms(2) by (auto simp: harness_tests_def cross_entropy_test_def list_all2_Cons1 elim!: drawn_IdxE)
  have ev: "eventually (\<lambda>eps. forward_check ti args = Inr ()
              \<and> gradcheck ti args eps harness_atol harness_rtol = Inr ()) (at 0)"
    if ti: "ti \<in> set (harness_tests T C)" and dr: "list_all2 drawn (test_params ti) args" for ti args
  proof -
    have "forward_check ti args = Inr ()"
      using ti dr assms(1) forward_checks by (auto simp: harness_tests_def)
    moreover obtain out where "jacobian_ok ti args out"
      using harness_jacobians [OF assms(1) C ti dr] by blast
    then have "eventually (\<lambda>eps. slow_gradcheck ti args eps harness_atol harness_rtol = Inr ()) (at 0)"
      by (rule gradcheck_eventually) (simp_all add: harness_atol_def harness_rtol_def)
    then have "eventually (\<lambda>eps. gradcheck ti args eps harness_atol harness_rtol = Inr ()) (at 0)"
      by (simp add: gradcheck_slow [OF harness_mul_checks [OF assms(1) C ti dr]])
    ultimately show ?thesis by simp
  qed
  have "list_all2 (\<lambda>ti args. eventually (\<lambda>eps. forward_check ti args = Inr ()
           \<and> gradcheck ti args eps harness_atol harness_rtol = Inr ()) (at 0)) (harness_tests T C) argss"
    using assms(2) ev by (auto simp: list_all2_conv_all_nth)
  then have "eventually (\<lambda>eps. run_tests eps (harness_tests T C) argss
                = (map (\<lambda>ti. test_name ti @ '' passed'') (harness_tests T C), None)) (at 0)"
    by (rule eventually_mono [OF eventually_list_all2 run_tests_all_pass])
  then obtain e where "0 < e" and "\<forall>eps. eps \<noteq> 0 \<and> \<bar>eps\<bar> < e \<longrightarrow>
        run_tests eps (harness_tests T C) argss = (map (\<lambda>ti. test_name ti @ '' passed'') (harness_tests T C), None)"
    using eventually_at_zero_interval by blast
  then show ?thesis
    by (intro exI [of _ e]) (auto simp: harness_script_def harness_tests_def cross_entropy_test_def
                               layer_norm_test_def linear_test_def gelu_test_def add_test_def embedding_test_def)
qed



lemma run_tests_outcome:
  "\<exists>k. fst (run_tests eps tis argss) = map (\<lambda>ti. test_name ti @ '' passed'') (take k tis)
       \<and> (case snd (run_tests eps tis argss) of
            None \<Rightarrow> k = min (length tis) (length argss)
          | Some e \<Rightarrow> k < min (length tis) (length argss)
                     \<and> (forward_check (tis ! k) (argss ! k) = Inl e
                        \<or> forward_check (tis ! k) (argss ! k) = Inr ()
                          \<and> gradcheck (tis ! k) (argss ! k) eps harness_atol harness_rtol = Inl e))"
proof (induction eps tis argss rule: run_tests.induct)
  case (1 eps ti tis args argss)
  show ?case
  proof (cases "forward_check ti args")
    case (Inl e)
    then show ?thesis by (intro exI [of _ 0]) simp
  next
    case fc: (Inr u)
    show ?thesis
    proof (cases "gradcheck ti args eps harness_atol harness_rtol")
      case (Inl e)
      then show ?thesis using fc by (intro exI [of _ 0]) simp
    next
      case gc: (Inr v)
      obtain k where k: "fst (run_tests eps tis argss) = map (\<lambda>ti. test_name ti @ '' passed'') (take k tis)"
        and c: "case snd (run_tests eps tis argss) of
            None \<Rightarrow> k = min (length tis) (length argss)
          | Some e \<Rightarrow> k < min (length tis) (length argss)
                     \<and> (forward_check (tis ! k) (argss ! k) = Inl e
                        \<or> forward_check (tis ! k) (argss ! k) = Inr ()
                          \<and> gradcheck (tis ! k) (argss ! k) eps harness_atol harness_rtol = Inl e)"
        using "1" [OF fc gc] by blast
      show ?thesis using fc gc k c
        by (intro exI [of _ "Suc k"]) (auto simp: case_prod_beta split: option.splits)
    qed
  qed
qed auto

text \<open>
  C17: the script always ends, in one of two ways: after \<open>k\<close> tests it has printed their
  \<^verbatim>\<open>passed\<close> lines in the table's order and then either, when every test passed, the
  closing banner, or, when test \<open>k\<close> raised, nothing more, the exception being the one of
  that test's forward check or of its \<^verbatim>\<open>gradcheck\<close>.
\<close>

theorem harness_script_ends:
  "\<exists>k. (snd (harness_script T C eps argss) = None
         \<and> fst (harness_script T C eps argss)
             = map (\<lambda>ti. test_name ti @ '' passed'') (take k (harness_tests T C)) @ [all_passed_banner]
         \<and> k = min 6 (length argss))
      \<or> (\<exists>e. snd (harness_script T C eps argss) = Some e
         \<and> fst (harness_script T C eps argss) = map (\<lambda>ti. test_name ti @ '' passed'') (take k (harness_tests T C))
         \<and> k < min 6 (length argss)
         \<and> (forward_check (harness_tests T C ! k) (argss ! k) = Inl e
            \<or> forward_check (harness_tests T C ! k) (argss ! k) = Inr ()
              \<and> gradcheck (harness_tests T C ! k) (argss ! k) eps harness_atol harness_rtol = Inl e))"
proof -
  have len: "length (harness_tests T C) = 6" by (simp add: harness_tests_def)
  obtain k where k: "fst (run_tests eps (harness_tests T C) argss)
                     = map (\<lambda>ti. test_name ti @ '' passed'') (take k (harness_tests T C))"
    and c: "case snd (run_tests eps (harness_tests T C) argss) of
            None \<Rightarrow> k = min (length (harness_tests T C)) (length argss)
          | Some e \<Rightarrow> k < min (length (harness_tests T C)) (length argss)
                     \<and> (forward_check (harness_tests T C ! k) (argss ! k) = Inl e
                        \<or> forward_check (harness_tests T C ! k) (argss ! k) = Inr ()
                          \<and> gradcheck (harness_tests T C ! k) (argss ! k) eps harness_atol harness_rtol = Inl e)"
    using run_tests_outcome by blast
  show ?thesis
    using k c unfolding len
    by (intro exI [of _ k]) (auto simp: harness_script_def split: prod.split option.splits)
qed


section \<open>Where an operator and its reference disagree\<close>

text \<open>
  C25: \<^verbatim>\<open>CrossEntropyFn\<close> accepts a single target for a batch of several rows (it
  broadcasts it), while the reference \<^verbatim>\<open>cross_entropy\<close> rejects the batch-size
  mismatch with a \<^verbatim>\<open>ValueError\<close>; the forward check raises that error.
\<close>

theorem cross_entropy_single_target_rejected_by_reference:
  assumes "py_index (cols x) y0 = Some c0" and "1 < rows x"
  shows "(\<exists>l. CrossEntropy_apply [T2 x, Idx [y0]] = Inr (Scalar l))
         \<and> cross_entropy_ref [T2 x, Idx [y0]] = Inl ValueError
         \<and> forward_check (cross_entropy_test (rows x) (cols x)) [T2 x, Idx [y0]] = Inl ValueError"
proof -
  have b: "bcast (rows x) (length [y0]) = Some (rows x)" by simp
  have f: "\<exists>l. CrossEntropy_apply [T2 x, Idx [y0]] = Inr (Scalar l)"
    using assms b by (simp add: CrossEntropyFn_forward_def Let_def value_of_def)
  moreover have r: "cross_entropy_ref [T2 x, Idx [y0]] = Inl ValueError"
    using assms(2) by simp
  moreover have "forward_check (cross_entropy_test (rows x) (cols x)) [T2 x, Idx [y0]] = Inl ValueError"
    using f r by (auto simp: forward_check_def cross_entropy_test_def)
  ultimately show ?thesis by blast
qed

text \<open>
  C20: \<^verbatim>\<open>EmbeddingFn\<close> accepts a negative index (Python indexing from the end), while
  the reference \<^verbatim>\<open>embedding\<close> rejects it with an \<^verbatim>\<open>IndexError\<close>.
\<close>

theorem embedding_negative_index_rejected_by_reference:
  assumes "- int (rows emb) \<le> i" and "i < 0"
  shows "(\<exists>v. Embedding_apply [Idx [i], T2 emb] = Inr v)
         \<and> embedding_ref [Idx [i], T2 emb] = Inl IndexError
         \<and> forward_check (embedding_test (rows emb) (cols emb)) [Idx [i], T2 emb] = Inl IndexError"
proof -
  have f: "\<exists>v. Embedding_apply [Idx [i], T2 emb] = Inr v"
    using assms by (simp add: EmbeddingFn_forward_def py_index_def value_of_def)
  moreover have r: "embedding_ref [Idx [i], T2 emb] = Inl IndexError"
    using assms(2) by simp
  moreover have "forward_check (embedding_test (rows emb) (cols emb)) [Idx [i], T2 emb] = Inl IndexError"
    using f r by (auto simp: forward_check_def embedding_test_def)
  ultimately show ?thesis by blast
qed

text \<open>
  C26: the target \<open>-100\<close> is the reference's default \<^verbatim>\<open>ignore_index\<close>, but
  \<^verbatim>\<open>CrossEntropyFn\<close> reads it as a Python index from the end. With one row and at least
  100 classes the operator returns the loss of class \<open>C - 100\<close>, the reference ignores
  the only row and returns NaN, and the harness's assertion fails.
\<close>

theorem cross_entropy_ignore_index_divergence:
  assumes "100 \<le> cols x" and "rows x = 1"
  shows "CrossEntropy_apply [T2 x, Idx [-100]] = Inr (Scalar (ln (row_lse x 0) - ent x 0 (cols x - 100)))
         \<and> cross_entropy_ref [T2 x, Idx [-100]] = Inl NotANumber
         \<and> forward_check (cross_entropy_test 1 (cols x)) [T2 x, Idx [-100]] = Inl AssertionError"
proof -
  have C: "0 < cols x" using assms(1) by simp
  have idx: "py_index (cols x) (-100) = Some (cols x - 100)"
    using assms(1) by (simp add: py_index_def nat_diff_distrib)
  have L: "0 < row_lse x 0" by (rule row_lse_pos [OF C])
  have "- ln (exp (ent x 0 (cols x - 100)) / row_lse x 0) = ln (row_lse x 0) - ent x 0 (cols x - 100)"
    using L by (simp add: ln_div)
  then have f: "CrossEntropy_apply [T2 x, Idx [-100]] = Inr (Scalar (ln (row_lse x 0) - ent x 0 (cols x - 100)))"
    using assms(2) idx by (simp add: CrossEntropyFn_forward_def Let_def value_of_def row_lse_def)
  moreover have r: "cross_entropy_ref [T2 x, Idx [-100]] = Inl NotANumber"
    using assms(2) by simp
  moreover have "forward_check (cross_entropy_test 1 (cols x)) [T2 x, Idx [-100]] = Inl AssertionError"
    using f r by (simp add: forward_check_def cross_entropy_test_def)
  ultimately show ?thesis by blast
qed


section \<open>Witnesses\<close>

theorem harness_forward_checks_pass_witness:
  "forward_check (add_test 1 1) [T2 \<lparr>rows = 1, cols = 1, ent = (\<lambda>t c. 0.5)\<rparr>, T2 \<lparr>rows = 1, cols = 1, ent = (\<lambda>t c. 0.25)\<rparr>]
   = Inr ()"
proof -
  have h: "0 < (1 :: nat)" "add_test 1 1 \<in> set (harness_tests 1 1)"
    "list_all2 drawn (test_params (add_test 1 1))
       [T2 \<lparr>rows = 1, cols = 1, ent = (\<lambda>t c. 0.5)\<rparr>, T2 \<lparr>rows = 1, cols = 1, ent = (\<lambda>t c. 0.25)\<rparr>]"
    by (simp_all add: harness_tests_def add_test_def)
  show ?thesis by (rule harness_forward_checks_pass [OF h])
qed

theorem harness_gradcheck_exact_affine_witness:
  "gradcheck (linear_test 1 1)
     [T2 \<lparr>rows = 1, cols = 1, ent = (\<lambda>t c. 0.5)\<rparr>, T2 \<lparr>rows = 1, cols = 1, ent = (\<lambda>t c. 0.25)\<rparr>,
      T1 \<lparr>len = 1, el = (\<lambda>c. 0.5)\<rparr>] 0.000001 0.01 0.01 = Inr ()"
proof -
  have h: "linear_test 1 1 \<in> {linear_test 1 1, add_test 1 1, embedding_test 1 1}"
    "list_all2 drawn (test_params (linear_test 1 1))
       [T2 \<lparr>rows = 1, cols = 1, ent = (\<lambda>t c. 0.5)\<rparr>, T2 \<lparr>rows = 1, cols = 1, ent = (\<lambda>t c. 0.25)\<rparr>,
        T1 \<lparr>len = 1, el = (\<lambda>c. 0.5)\<rparr>]"
    "(0.000001 :: real) \<noteq> 0" "0 \<le> (0.01 :: real)" "0 \<le> (0.01 :: real)"
    by (simp_all add: linear_test_def)
  show ?thesis by (rule harness_gradcheck_exact_affine [OF h])
qed

theorem harness_gradcheck_small_step_witness:
  "\<exists>e>0. \<forall>eps. eps \<noteq> 0 \<and> \<bar>eps\<bar> < e \<longrightarrow>
     gradcheck (gelu_test 1 1) [T2 \<lparr>rows = 1, cols = 1, ent = (\<lambda>t c. 0.5)\<rparr>] eps 0.01 0.01 = Inr ()"
proof -
  have h: "0 < (1 :: nat)" "0 < (1 :: nat)" "gelu_test 1 1 \<in> set (harness_tests 1 1)"
    "list_all2 drawn (test_params (gelu_test 1 1)) [T2 \<lparr>rows = 1, cols = 1, ent = (\<lambda>t c. 0.5)\<rparr>]"
    "0 < (0.01 :: real)" "0 \<le> (0.01 :: real)"
    by (simp_all add: harness_tests_def gelu_test_def)
  show ?thesis by (rule harness_gradcheck_small_step [OF h])
qed

theorem harness_run_passes_witness:
  "\<exists>e>0. \<forall>eps. 0 < eps \<and> eps < e \<longrightarrow>
     harness_script 2 2 eps
       [[T2 \<lparr>rows = 2, cols = 2, ent = (\<lambda>t c. 0)\<rparr>, Idx [0, 0]],
        [T2 \<lparr>rows = 2, cols = 2, ent = (\<lambda>t c. 0)\<rparr>, T1 \<lparr>len = 2, el = (\<lambda>c. 0)\<rparr>, T1 \<lparr>len = 2, el = (\<lambda>c. 0)\<rparr>],
        [T2 \<lparr>rows = 2, cols = 2, ent = (\<lambda>t c. 0)\<rparr>, T2 \<lparr>rows = 2, cols = 2, ent = (\<lambda>t c. 0)\<rparr>,
         T1 \<lparr>len = 2, el = (\<lambda>c. 0)\<rparr>],
        [T2 \<lparr>rows = 2, cols = 2, ent = (\<lambda>t c. 0)\<rparr>],
        [T2 \<lparr>rows = 2, cols = 2, ent = (\<lambda>t c. 0)\<rparr>, T2 \<lparr>rows = 2, cols = 2, ent = (\<lambda>t c. 0)\<rparr>],
        [Idx [0, 0], T2 \<lparr>rows = 2, cols = 2, ent = (\<lambda>t c. 0)\<rparr>]]
     = ([''cross_entropy passed'', ''layer_norm passed'', ''linear passed'', ''gelu passed'',
         ''add passed'', ''embedding passed'', all_passed_banner], None)"
proof -
  have h: "0 < (2 :: nat)"
    "list_all2 (\<lambda>ti args. list_all2 drawn (test_params ti) args) (harness_tests 2 2)
       [[T2 \<lparr>rows = 2, cols = 2, ent = (\<lambda>t c. 0)\<rparr>, Idx [0, 0]],
        [T2 \<lparr>rows = 2, cols = 2, ent = (\<lambda>t c. 0)\<rparr>, T1 \<lparr>len = 2, el = (\<lambda>c. 0)\<rparr>, T1 \<lparr>len = 2, el = (\<lambda>c. 0)\<rparr>],
        [T2 \<lparr>rows = 2, cols = 2, ent = (\<lambda>t c. 0)\<rparr>, T2 \<lparr>rows = 2, cols = 2, ent = (\<lambda>t c. 0)\<rparr>,
         T1 \<lparr>len = 2, el = (\<lambda>c. 0)\<rparr>],
        [T2 \<lparr>rows = 2, cols = 2, ent = (\<lambda>t c. 0)\<rparr>],
        [T2 \<lparr>rows = 2, cols = 2, ent = (\<lambda>t c. 0)\<rparr>, T2 \<lparr>rows = 2, cols = 2, ent = (\<lambda>t c. 0)\<rparr>],
        [Idx [0, 0], T2 \<lparr>rows = 2, cols = 2, ent = (\<lambda>t c. 0)\<rparr>]]"
    by (simp_all add: harness_tests_def cross_entropy_test_def layer_norm_test_def linear_test_def
                      gelu_test_def add_test_def embedding_test_def)
  show ?thesis by (rule harness_run_passes [OF h])
qed


theorem cross_entropy_single_target_rejected_by_reference_witness:
  "forward_check (cross_entropy_test 2 2) [T2 \<lparr>rows = 2, cols = 2, ent = (\<lambda>t c. 0)\<rparr>, Idx [1]] = Inl ValueError"
proof -
  have h: "py_index (cols \<lparr>rows = 2, cols = 2, ent = (\<lambda>t c. 0 :: real)\<rparr>) 1 = Some 1"
    "1 < rows \<lparr>rows = 2, cols = 2, ent = (\<lambda>t c. 0 :: real)\<rparr>"
    by (simp_all add: py_index_def)
  show ?thesis using cross_entropy_single_target_rejected_by_reference [OF h] by simp
qed

theorem embedding_negative_index_rejected_by_reference_witness:
  "forward_check (embedding_test 2 1) [Idx [-1], T2 \<lparr>rows = 2, cols = 1, ent = (\<lambda>t c. 0)\<rparr>] = Inl IndexError"
proof -
  have h: "- int (rows \<lparr>rows = 2, cols = 1, ent = (\<lambda>t c. 0 :: real)\<rparr>) \<le> -1" "(-1 :: int) < 0"
    by simp_all
  show ?thesis using embedding_negative_index_rejected_by_reference [OF h] by simp
qed

theorem cross_entropy_ignore_index_divergence_witness:
  "forward_check (cross_entropy_test 1 100) [T2 \<lparr>rows = 1, cols = 100, ent = (\<lambda>t c. 0)\<rparr>, Idx [-100]]
   = Inl AssertionError"
proof -
  have h: "100 \<le> cols \<lparr>rows = 1, cols = 100, ent = (\<lambda>t c. 0 :: real)\<rparr>"
    "rows \<lparr>rows = 1, cols = 100, ent = (\<lambda>t c. 0 :: real)\<rparr> = 1" by simp_all
  show ?thesis using cross_entropy_ignore_index_divergence [OF h] by simp
qed

end
