(* ===== verification/Gradcheck_Step.thy ===== *)
theory Gradcheck_Step
  imports Harness_Checks
begin

text \<open>
  \<^verbatim>\<open>gradcheck\<close> at a fixed step. If an entry of the output, as a function of one input
  entry, has a second derivative bounded by \<open>M\<close> on \<open>[-eps, eps]\<close>, the central
  difference of step \<open>eps\<close> is within \<open>M eps\<close> of the derivative (mean value theorem,
  twice); \<^verbatim>\<open>gradcheck\<close> then passes as soon as \<open>M eps \<le> atol\<close>. For cross entropy
  the second derivative is \<open>s (1 - s) / T \<le> 1\<close>; for GELU, on the entries the harness
  draws (in \<open>[0, 1)\<close>), it is below \<open>12\<close>. With the harness's \<open>eps = 1e-6\<close> and
  \<open>atol = 1e-2\<close> both tests pass; Linear, Add and Embedding pass at every step
  (\<open>gradcheck_affine_tests\<close>). The script at its own constants therefore succeeds exactly
  when the LayerNorm \<^verbatim>\<open>gradcheck\<close> does (\<open>run_tests_harness_step\<close>). A second-derivative
  bound for LayerNorm from \<open>eps = 1e-5\<close> in the variance is of order
  \<open>1 / (sqrt (1e-5))\<^sup>3\<close>, far above \<open>atol / 1e-6\<close>; \<open>LayerNorm_Step\<close> settles that
  check with a third-order bound.
\<close>

definition smooth_entry :: "(real \<Rightarrow> real) \<Rightarrow> real \<Rightarrow> real \<Rightarrow> bool" where
  "smooth_entry f r M \<longleftrightarrow>
     (\<exists>f' f''. \<forall>t. \<bar>t\<bar> \<le> r \<longrightarrow> (f has_real_derivative f' t) (at t) \<and> (f' has_real_derivative f'' t) (at t)
                             \<and> \<bar>f'' t\<bar> \<le> M)"

definition gelu_ref_deriv2 :: "real \<Rightarrow> real" where
  "gelu_ref_deriv2 v =
     (let a = sqrt (2 / pi); th = tanh (a * (v + 0.044715 * v ^ 3));
          b1 = a * (1 + 3 * 0.044715 * v ^ 2); b2 = a * (6 * 0.044715 * v)
      in (1 - th ^ 2) * b1 - v * th * (1 - th ^ 2) * b1 ^ 2 + 0.5 * v * (1 - th ^ 2) * b2)"

section \<open>The central difference at a fixed step\<close>

lemma deriv_moves_bounded:
  assumes "\<And>t. a \<le> t \<Longrightarrow> t \<le> b \<Longrightarrow> (f' has_real_derivative f'' t) (at t)"
    and "\<And>t. a \<le> t \<Longrightarrow> t \<le> b \<Longrightarrow> \<bar>f'' t\<bar> \<le> M" and "a < b"
  shows "\<bar>f' b - f' a\<bar> \<le> M * (b - a)"
proof -
  obtain w where w: "a < w" "w < b" and eq: "f' b - f' a = (b - a) * f'' w"
    using MVT2 [OF assms(3), of f' f''] assms(1) by auto
  have "\<bar>f'' w\<bar> \<le> M" using assms(2) w by simp
  then show ?thesis using assms(3) by (simp add: eq abs_mult mult.commute mult_left_mono)
qed

lemma central_difference_error:
  assumes "smooth_entry f h M" and D: "(f has_real_derivative D) (at 0)" and h: "0 < h"
  shows "\<bar>D - (f h - f (- h)) / (2 * h)\<bar> \<le> M * h"
proof -
  obtain f' f'' where d: "\<And>t. \<bar>t\<bar> \<le> h \<Longrightarrow> (f has_real_derivative f' t) (at t)
                                  \<and> (f' has_real_derivative f'' t) (at t) \<and> \<bar>f'' t\<bar> \<le> M"
    using assms(1) unfolding smooth_entry_def by blast
  have D0: "D = f' 0" using DERIV_unique [OF D] d [of 0] h by simp
  have M: "0 \<le> M" using d [of 0] h by auto
  obtain z where z: "- h < z" "z < h" and mvt: "f h - f (- h) = (h - - h) * f' z"
    using MVT2 [of "- h" h f f'] h d by force
  have cd: "(f h - f (- h)) / (2 * h) = f' z" using mvt h by simp
  have "\<bar>f' 0 - f' z\<bar> \<le> M * \<bar>z\<bar>"
  proof (cases z "0 :: real" rule: linorder_cases)
    case less
    have "\<bar>f' 0 - f' z\<bar> \<le> M * (0 - z)"
      by (rule deriv_moves_bounded [where f'' = f'']) (use d z less in auto)
    then show ?thesis using less by simp
  next
    case equal
    then show ?thesis by simp
  next
    case greater
    have "\<bar>f' z - f' 0\<bar> \<le> M * (z - 0)"
      by (rule deriv_moves_bounded [where f'' = f'']) (use d z greater in auto)
    then show ?thesis using greater by (simp add: abs_minus_commute)
  qed
  also have "\<dots> \<le> M * h" using z M by (intro mult_left_mono) auto
  finally show ?thesis by (simp add: D0 cd)
qed

lemma gradcheck_step:
  assumes ok: "jacobian_ok ti args out" and eps: "0 < eps" and "0 \<le> rtol" and "M * eps \<le> atol"
    and smooth: "\<forall>kij\<in>set (input_entries args). \<forall>pq\<in>set (pyval_entries out).
                   smooth_entry (fval ti args kij pq) eps M"
  shows "slow_gradcheck ti args eps atol rtol = Inr ()"
proof -
  have "close rtol atol (gval ti args out kij pq)
          ((fval ti args kij pq eps - fval ti args kij pq (- eps)) / (2 * eps))"
    if kij: "kij \<in> set (input_entries args)" and pq: "pq \<in> set (pyval_entries out)" for kij pq
  proof -
    have "(fval ti args kij pq has_real_derivative gval ti args out kij pq) (at 0)"
      using ok kij pq by (simp add: jacobian_ok_def)
    then have "\<bar>gval ti args out kij pq - (fval ti args kij pq eps - fval ti args kij pq (- eps)) / (2 * eps)\<bar>
               \<le> M * eps"
      using smooth kij pq eps by (intro central_difference_error) auto
    moreover have "0 \<le> rtol * \<bar>(fval ti args kij pq eps - fval ti args kij pq (- eps)) / (2 * eps)\<bar>"
      using assms(3) by simp
    ultimately show ?thesis using assms(4) unfolding close_def by linarith
  qed
  then show ?thesis by (simp add: gradcheck_jacobian [OF ok])
qed

lemma smooth_entry_const: "0 \<le> M \<Longrightarrow> smooth_entry (\<lambda>t. c) r M"
  unfolding smooth_entry_def by (rule exI [of _ "\<lambda>t. 0"], rule exI [of _ "\<lambda>t. 0"]) auto


section \<open>GELU\<close>

lemma tanh_poly_deriv2:
  fixes a k :: real
  shows "((\<lambda>v. 0.5 * (1 + tanh (a * (v + k * v ^ 3)) + v * (1 - tanh (a * (v + k * v ^ 3)) ^ 2) * (a * (1 + 3 * k * v ^ 2))))
          has_real_derivative
          (1 - tanh (a * (v + k * v ^ 3)) ^ 2) * (a * (1 + 3 * k * v ^ 2))
          - v * tanh (a * (v + k * v ^ 3)) * (1 - tanh (a * (v + k * v ^ 3)) ^ 2) * (a * (1 + 3 * k * v ^ 2)) ^ 2
          + 0.5 * v * (1 - tanh (a * (v + k * v ^ 3)) ^ 2) * (a * (6 * k * v))) (at v)"
  apply (rule derivative_eq_intros refl | simp)+
  apply (simp add: algebra_simps power2_eq_square power3_eq_cube)
  done
lemma gelu_ref_deriv_has_deriv: "(gelu_ref_deriv has_real_derivative gelu_ref_deriv2 v) (at v)"
  using tanh_poly_deriv2 [of "sqrt (2 / pi)" "0.044715" v]
  unfolding gelu_ref_deriv_def [abs_def] gelu_ref_deriv2_def Let_def by simp
lemma abs_mult_le: "\<bar>x\<bar> \<le> X \<Longrightarrow> \<bar>y\<bar> \<le> Y \<Longrightarrow> \<bar>x * y\<bar> \<le> X * (Y :: real)"
  by (simp add: abs_mult mult_mono')

lemma gelu_ref_deriv2_bound:
  assumes v: "\<bar>v\<bar> \<le> 2"
  shows "\<bar>gelu_ref_deriv2 v\<bar> \<le> 12"
proof -
  define a where "a = sqrt (2 / pi)"
  define th where "th = tanh (a * (v + 0.044715 * v ^ 3))"
  define b1 where "b1 = a * (1 + 3 * 0.044715 * v ^ 2)"
  define b2 where "b2 = a * (6 * 0.044715 * v)"
  have a: "0 \<le> a" "a \<le> 1"
    using pi_ge_two by (auto simp: a_def)
  have th: "\<bar>th\<bar> \<le> 1"
    using tanh_real_lt_1 [of "a * (v + 0.044715 * v ^ 3)"] tanh_real_gt_neg1 [of "a * (v + 0.044715 * v ^ 3)"]
    by (simp add: th_def abs_le_iff)
  have "th ^ 2 \<le> 1" using th by (simp add: abs_square_le_1)
  then have u: "\<bar>1 - th ^ 2\<bar> \<le> 1"
    using zero_le_power2 [of th] by (simp add: abs_le_iff)
  have v2: "v ^ 2 \<le> 2 ^ 2"
    using v abs_le_square_iff [of v 2] by simp
  have b1: "\<bar>b1\<bar> \<le> 2"
  proof -
    have "0 \<le> 1 + 3 * 0.044715 * v ^ 2" by simp
    moreover have "1 + 3 * 0.044715 * v ^ 2 \<le> (2 :: real)" using v2 by simp
    ultimately have "\<bar>1 + 3 * 0.044715 * v ^ 2\<bar> \<le> (2 :: real)" by simp
    then show ?thesis using abs_mult_le [of a 1 "1 + 3 * 0.044715 * v ^ 2" 2] a by (simp add: b1_def)
  qed
  have b2: "\<bar>b2\<bar> \<le> 1"
  proof -
    have "\<bar>6 * 0.044715 * v\<bar> \<le> (1 :: real)" using v by (simp add: abs_mult)
    then show ?thesis using abs_mult_le [of a 1 "6 * 0.044715 * v" 1] a by (simp add: b2_def)
  qed
  define A where "A = (1 - th ^ 2) * b1"
  define B where "B = v * th * (1 - th ^ 2) * b1 ^ 2"
  define D where "D = 0.5 * v * (1 - th ^ 2) * b2"
  have t1: "\<bar>A\<bar> \<le> 2" using abs_mult_le [OF u b1] by (simp add: A_def)
  have b1sq: "\<bar>b1 ^ 2\<bar> \<le> 2 * 2" using abs_mult_le [OF b1 b1] by (simp add: power2_eq_square)
  have t2: "\<bar>B\<bar> \<le> 4 * 2"
    using abs_mult_le [OF abs_mult_le [OF abs_mult_le [OF v th] u] b1sq] by (simp add: B_def)
  have "\<bar>0.5 * v\<bar> \<le> (1 :: real)" using v by (simp add: abs_mult)
  then have t3: "\<bar>D\<bar> \<le> 1"
    using abs_mult_le [OF abs_mult_le [OF _ u] b2] by (simp add: D_def)
  have "gelu_ref_deriv2 v = A - B + D"
    by (simp add: gelu_ref_deriv2_def Let_def a_def th_def b1_def b2_def A_def B_def D_def)
  then show ?thesis using t1 t2 t3 unfolding abs_le_iff by linarith
qed

lemma smooth_entry_gelu:
  assumes "\<bar>v\<bar> \<le> 1" and "r \<le> 1"
  shows "smooth_entry (\<lambda>t. gelu_ref (v + t)) r 12"
  unfolding smooth_entry_def
proof (intro exI allI impI conjI)
  fix t :: real assume t: "\<bar>t\<bar> \<le> r"
  have shift: "((\<lambda>t. v + t) has_real_derivative 1) (at t)"
    by (auto intro!: derivative_eq_intros)
  show "((\<lambda>t. gelu_ref (v + t)) has_real_derivative gelu_ref_deriv (v + t)) (at t)"
    using DERIV_chain2 [OF gelu_ref_has_deriv shift] by simp
  show "((\<lambda>t. gelu_ref_deriv (v + t)) has_real_derivative gelu_ref_deriv2 (v + t)) (at t)"
    using DERIV_chain2 [OF gelu_ref_deriv_has_deriv shift] by simp
  show "\<bar>gelu_ref_deriv2 (v + t)\<bar> \<le> 12"
    using assms t by (intro gelu_ref_deriv2_bound) linarith
qed

lemma gradcheck_step_gelu:
  assumes "list_all2 drawn (test_params (gelu_test T C)) args"
    and "0 < eps" and "eps \<le> 1" and "0 \<le> rtol" and "12 * eps \<le> atol"
  shows "gradcheck (gelu_test T C) args eps atol rtol = Inr ()"
proof -
  obtain x where args: "args = [T2 x]" and x: "rows x = T" "cols x = C"
    and x01: "\<forall>t<T. \<forall>k<C. 0 \<le> ent x t k \<and> ent x t k < 1"
    using assms(1) by (auto simp: gelu_test_def list_all2_Cons1 elim!: drawn_T2E)
  obtain out where ok: "jacobian_ok (gelu_test T C) args out"
    using jacobian_ok_gelu [OF assms(1)] by blast
  have out: "out = Tensor (x\<lparr>ent := (\<lambda>t c. gelu_ref (ent x t c))\<rparr>)"
    using ok by (simp add: jacobian_ok_def gelu_test_def args value_of_def GELUFn_forward_def gelu_ref_def Let_def)
  have fv: "fval (gelu_test T C) args (0, i, j) (p, q)
            = (\<lambda>t. gelu_ref (ent x p q + (if p = i \<and> q = j then t else 0)))" for i j p q
    by (simp add: fval_fun args gelu_test_def perturb_args_def value_of_def GELUFn_forward_def gelu_ref_def Let_def)
  have "smooth_entry (fval (gelu_test T C) args (0, i, j) (p, q)) eps 12"
    if "p < T" "q < C" for i j p q
  proof (cases "p = i \<and> q = j")
    case True
    have "\<bar>ent x p q\<bar> \<le> 1" using x01 that by force
    then show ?thesis using True assms(3) by (simp add: fv smooth_entry_gelu)
  next
    case False
    show ?thesis by (simp only: fv if_not_P [OF False] add_0_right) (rule smooth_entry_const, simp)
  qed
  then have "slow_gradcheck (gelu_test T C) args eps atol rtol = Inr ()"
    using assms(2,4,5) x
    by (intro gradcheck_step [OF ok]) (auto simp: out args ball_input_entries)
  then show ?thesis by (simp add: gradcheck_slow [OF mul_check_gelu [OF assms(1)]])
qed


section \<open>Cross entropy\<close>

lemma sum_single_change:
  assumes "i < (n :: nat)" and "\<And>k. k < n \<Longrightarrow> k \<noteq> i \<Longrightarrow> G k = F k"
  shows "(\<Sum>k<n. G k) = (\<Sum>k<n. F k) + (G i - (F i :: real))"
proof -
  have "(\<Sum>k<n. G k) = (\<Sum>k<n. F k + (if k = i then G i - F i else 0))"
    using assms(2) by (intro sum.cong) auto
  then show ?thesis using assms(1) by (simp add: sum.distrib)
qed

lemma row_lse_perturb2:
  assumes "j < cols x"
  shows "row_lse (perturb2 x i j t) k
         = (if k = i then row_lse x i - exp (ent x i j) + exp (ent x i j + t) else row_lse x k)"
proof (cases "k = i")
  case True
  have "(\<Sum>c<cols x. exp (ent (perturb2 x i j t) i c))
        = (\<Sum>c<cols x. exp (ent x i c)) + (exp (ent (perturb2 x i j t) i j) - exp (ent x i j))"
    using assms by (intro sum_single_change) auto
  then show ?thesis using True by (simp add: row_lse_def)
next
  case False
  then show ?thesis by (simp add: row_lse_def)
qed

lemma cross_entropy_loss_perturb:
  assumes idx: "those (map (py_index (cols x)) y) = Some idx"
    and T: "length y = rows x" "0 < rows x" and ij: "i < rows x" "j < cols x"
  shows "scalar_loss 1 (CrossEntropyFn_forward (perturb2 x i j t) y)
         = scalar_loss 1 (CrossEntropyFn_forward x y)
           + (ln (row_lse x i - exp (ent x i j) + exp (ent x i j + t)) - ln (row_lse x i)
              - (if idx ! i = j then 1 else 0) * t) / rows x"
proof -
  let ?F = "\<lambda>x' k. ent x' k (idx ! k) - ln (row_lse x' k)"
  have idx': "those (map (py_index (cols (perturb2 x i j t))) y) = Some idx" using idx by simp
  have T': "length y = rows (perturb2 x i j t)" "0 < rows (perturb2 x i j t)" using T by simp_all
  define S' where "S' = (\<Sum>k<rows x. ?F (perturb2 x i j t) k)"
  define S where "S = (\<Sum>k<rows x. ?F x k)"
  define D where "D = ln (row_lse x i - exp (ent x i j) + exp (ent x i j + t)) - ln (row_lse x i)"
  have "S' = S + (?F (perturb2 x i j t) i - ?F x i)"
    unfolding S'_def S_def using ij by (intro sum_single_change) (auto simp: row_lse_perturb2)
  moreover have "?F (perturb2 x i j t) i - ?F x i = (if idx ! i = j then 1 else 0) * t - D"
    using ij by (simp add: row_lse_perturb2 D_def)
  ultimately have S': "S' = S + ((if idx ! i = j then 1 else 0) * t - D)" by simp
  have l1: "scalar_loss 1 (CrossEntropyFn_forward (perturb2 x i j t) y) = - (S' / rows x)"
    using scalar_loss_CrossEntropy [OF idx' T', of 1] unfolding S'_def by simp
  have l0: "scalar_loss 1 (CrossEntropyFn_forward x y) = - (S / rows x)"
    using scalar_loss_CrossEntropy [OF idx T, of 1] unfolding S_def by simp
  show ?thesis
    unfolding l1 l0 S' D_def [symmetric] using T(2) by (simp add: field_simps)
qed

lemma softmax_entry_deriv:
  "0 < R + exp (a + t) \<Longrightarrow>
   ((\<lambda>t. exp (a + t) / (R + exp (a + t))) has_real_derivative
     R * exp (a + t) / (R + exp (a + t)) ^ 2) (at (t :: real))"
  by (rule derivative_eq_intros refl | simp)+ (simp add: power2_eq_square algebra_simps)

lemma smooth_entry_lse:
  assumes R: "0 \<le> R" and T: "1 \<le> T"
  shows "smooth_entry (\<lambda>t. K + (ln (R + exp (a + t)) - L - d * t) / T) r 1"
  unfolding smooth_entry_def
proof (intro exI allI impI conjI)
  fix t :: real
  have pos: "0 < R + exp (a + t)" using R by (simp add: add_nonneg_pos)
  have d1: "((\<lambda>t. ln (R + exp (a + t)) - L - d * t) has_real_derivative
         exp (a + t) / (R + exp (a + t)) - d) (at t)"
    using pos by (auto intro!: derivative_eq_intros)
  show "((\<lambda>t. K + (ln (R + exp (a + t)) - L - d * t) / T) has_real_derivative
         (exp (a + t) / (R + exp (a + t)) - d) / T) (at t)"
    using DERIV_add [OF DERIV_const [of K] DERIV_cdivide [OF d1, of T]] by (simp only: add_0_left)
  show "((\<lambda>t. (exp (a + t) / (R + exp (a + t)) - d) / T) has_real_derivative
         R * exp (a + t) / (R + exp (a + t)) ^ 2 / T) (at t)"
    using DERIV_cdivide [OF DERIV_diff [OF softmax_entry_deriv [OF pos] DERIV_const [of d]], of T]
    by (simp only: diff_0_right)
  define q where "q = R * exp (a + t) / (R + exp (a + t)) ^ 2"
  have "R * exp (a + t) \<le> (R + exp (a + t)) * (R + exp (a + t))"
    using R by (intro mult_mono) auto
  then have q1: "q \<le> 1"
    using pos unfolding q_def power2_eq_square by (simp add: divide_le_eq_1)
  have q0: "0 \<le> q" using R unfolding q_def by simp
  have "q / T \<le> q" using q0 T by (simp add: divide_le_eq mult_le_cancel_left1)
  moreover have "0 \<le> q / T" using q0 T by simp
  ultimately show "\<bar>R * exp (a + t) / (R + exp (a + t)) ^ 2 / T\<bar> \<le> 1"
    using q1 unfolding q_def [symmetric] by simp
qed

lemma gradcheck_step_cross_entropy:
  assumes "list_all2 drawn (test_params (cross_entropy_test T C)) args" and "0 < T"
    and "0 < eps" and "0 \<le> rtol" and "eps \<le> atol"
  shows "gradcheck (cross_entropy_test T C) args eps atol rtol = Inr ()"
proof -
  obtain x y where args: "args = [T2 x, Idx y]" and x: "rows x = T" "cols x = C"
    and y: "length y = T" "list_all (\<lambda>i. 0 \<le> i \<and> i < int C - 1) y"
    using assms(1) by (auto simp: cross_entropy_test_def list_all2_Cons1 elim!: drawn_T2E drawn_IdxE)
  have valid: "list_all (\<lambda>i. 0 \<le> i \<and> i < int (cols x)) y"
    using y(2) x by (auto simp: list_all_iff)
  have idx: "those (map (py_index (cols x)) y) = Some (map nat y)"
    by (rule those_py_index_nonneg [OF valid])
  obtain out where ok: "jacobian_ok (cross_entropy_test T C) args out"
    using jacobian_ok_cross_entropy [OF assms(1,2)] by blast
  have out: "\<exists>l. out = Scalar l"
    using ok by (auto simp: jacobian_ok_def cross_entropy_test_def args value_of_def split: sum.splits)
  have "smooth_entry (fval (cross_entropy_test T C) args (0, i, j) pq) eps 1"
    if ij: "i < T" "j < C" for i j pq
  proof -
    have R: "0 \<le> row_lse x i - exp (ent x i j)"
      using ij x unfolding row_lse_def by (simp, intro member_le_sum) auto
    have "fval (cross_entropy_test T C) args (0, i, j) pq
          = (\<lambda>t. scalar_loss 1 (CrossEntropyFn_forward x y)
                 + (ln ((row_lse x i - exp (ent x i j)) + exp (ent x i j + t)) - ln (row_lse x i)
                    - (if map nat y ! i = j then 1 else 0) * t) / real T)"
      using cross_entropy_loss_perturb [OF idx] ij x y assms(2)
      by (simp add: fval_fun args cross_entropy_test_def perturb_args_def)
    then show ?thesis
      using smooth_entry_lse [OF R, of "real T"] assms(2) by simp
  qed
  then have "slow_gradcheck (cross_entropy_test T C) args eps atol rtol = Inr ()"
    using assms(3-5) x out
    by (intro gradcheck_step [OF ok, where M = 1]) (auto simp: args ball_input_entries less_Suc_eq)
  then show ?thesis by (simp add: gradcheck_slow [OF mul_check_cross_entropy [OF assms(1,2)]])
qed



section \<open>The harness at its own step\<close>

lemma gradcheck_at_harness_step:
  assumes "0 < T" and "ti \<in> set (harness_tests T C)" and "ti \<noteq> layer_norm_test T C"
    and "list_all2 drawn (test_params ti) args"
  shows "gradcheck ti args 0.000001 harness_atol harness_rtol = Inr ()"
proof -
  consider (ce) "ti = cross_entropy_test T C" | (ge) "ti = gelu_test T C"
    | (aff) "ti \<in> {linear_test T C, add_test T C, embedding_test T C}"
    using assms(2,3) by (auto simp: harness_tests_def)
  then show ?thesis
  proof cases
    case ce
    show ?thesis unfolding ce
      by (rule gradcheck_step_cross_entropy [OF assms(4) [unfolded ce] assms(1)]) (simp_all add: harness_atol_def harness_rtol_def)
  next
    case ge
    show ?thesis unfolding ge
      by (rule gradcheck_step_gelu [OF assms(4) [unfolded ge]]) (simp_all add: harness_atol_def harness_rtol_def)
  next
    case aff
    show ?thesis by (rule gradcheck_affine_tests [OF aff assms(4)]) (simp_all add: harness_atol_def harness_rtol_def)
  qed
qed

lemma run_tests_harness_step:
  assumes T: "0 < T"
    and dr: "list_all2 (\<lambda>ti args. list_all2 drawn (test_params ti) args) (harness_tests T C) argss"
  shows "run_tests 0.000001 (harness_tests T C) argss
         = (case gradcheck (layer_norm_test T C) (argss ! 1) 0.000001 harness_atol harness_rtol of
              Inl e \<Rightarrow> ([''cross_entropy passed''], Some e)
            | Inr _ \<Rightarrow> ([''cross_entropy passed'', ''layer_norm passed'', ''linear passed'', ''gelu passed'',
                         ''add passed'', ''embedding passed''], None))"
proof -
  obtain a1 a2 a3 a4 a5 a6 where argss: "argss = [a1, a2, a3, a4, a5, a6]"
    using dr by (auto simp: harness_tests_def list_all2_Cons1)
  have d: "list_all2 drawn (test_params (cross_entropy_test T C)) a1"
    "list_all2 drawn (test_params (layer_norm_test T C)) a2"
    "list_all2 drawn (test_params (linear_test T C)) a3"
    "list_all2 drawn (test_params (gelu_test T C)) a4"
    "list_all2 drawn (test_params (add_test T C)) a5"
    "list_all2 drawn (test_params (embedding_test T C)) a6"
    using dr by (simp_all add: argss harness_tests_def)
  have ne: "cross_entropy_test T C \<noteq> layer_norm_test T C" "linear_test T C \<noteq> layer_norm_test T C"
    "gelu_test T C \<noteq> layer_norm_test T C" "add_test T C \<noteq> layer_norm_test T C"
    "embedding_test T C \<noteq> layer_norm_test T C"
    by (simp_all add: cross_entropy_test_def layer_norm_test_def linear_test_def gelu_test_def
                      add_test_def embedding_test_def)
  have mem: "set (harness_tests T C) = {cross_entropy_test T C, layer_norm_test T C, linear_test T C,
                                        gelu_test T C, add_test T C, embedding_test T C}"
    by (simp add: harness_tests_def)
  have gc1: "gradcheck (cross_entropy_test T C) a1 0.000001 harness_atol harness_rtol = Inr ()"
    using gradcheck_at_harness_step [where C = C, OF T _ _ d(1)] mem ne by simp
  have gc2: "gradcheck (linear_test T C) a3 0.000001 harness_atol harness_rtol = Inr ()"
    using gradcheck_at_harness_step [where C = C, OF T _ _ d(3)] mem ne by simp
  have gc3: "gradcheck (gelu_test T C) a4 0.000001 harness_atol harness_rtol = Inr ()"
    using gradcheck_at_harness_step [where C = C, OF T _ _ d(4)] mem ne by simp
  have gc4: "gradcheck (add_test T C) a5 0.000001 harness_atol harness_rtol = Inr ()"
    using gradcheck_at_harness_step [where C = C, OF T _ _ d(5)] mem ne by simp
  have gc5: "gradcheck (embedding_test T C) a6 0.000001 harness_atol harness_rtol = Inr ()"
    using gradcheck_at_harness_step [where C = C, OF T _ _ d(6)] mem ne by simp
  note fc = forward_check_cross_entropy [OF d(1) T] forward_check_layer_norm [OF d(2)]
    forward_check_linear [OF d(3)] forward_check_gelu [OF d(4)] forward_check_add [OF d(5)]
    forward_check_embedding [OF d(6)]
  have names: "test_name (cross_entropy_test T C) = ''cross_entropy''" "test_name (layer_norm_test T C) = ''layer_norm''"
    "test_name (linear_test T C) = ''linear''" "test_name (gelu_test T C) = ''gelu''"
    "test_name (add_test T C) = ''add''" "test_name (embedding_test T C) = ''embedding''"
    by (simp_all add: cross_entropy_test_def layer_norm_test_def linear_test_def gelu_test_def
                      add_test_def embedding_test_def)
  show ?thesis
    by (simp add: argss harness_tests_def fc gc1 [simplified] gc2 [simplified] gc3 [simplified] gc4 [simplified] gc5 [simplified] names
                  split: sum.split)
qed

text \<open>
  C12: at the harness's own step \<open>eps = 1e-6\<close> and tolerances \<open>atol = rtol = 1e-2\<close>,
  \<^verbatim>\<open>gradcheck\<close> passes for five of the six tests (all but LayerNorm) on every argument list
  the random draws may produce: the central difference of cross-entropy and of GELU is within
  \<open>eps\<close> and \<open>12 eps\<close> of the derivative, which is the entry backward computes, and the other
  three are affine.
\<close>

theorem harness_gradcheck_at_harness_step:
  assumes "0 < T" and "ti \<in> set (harness_tests T C)" and "ti \<noteq> layer_norm_test T C"
    and "list_all2 drawn (test_params ti) args"
  shows "gradcheck ti args 0.000001 harness_atol harness_rtol = Inr ()"
  using gradcheck_at_harness_step [OF assms] .

theorem harness_gradcheck_at_harness_step_witness:
  "gradcheck (gelu_test 1 1) [T2 \<lparr>rows = 1, cols = 1, ent = (\<lambda>t c. 0.5)\<rparr>] 0.000001 harness_atol harness_rtol
   = Inr ()"
proof -
  have h: "0 < (1 :: nat)" "gelu_test 1 1 \<in> set (harness_tests 1 1)" "gelu_test 1 1 \<noteq> layer_norm_test 1 1"
    "list_all2 drawn (test_params (gelu_test 1 1)) [T2 \<lparr>rows = 1, cols = 1, ent = (\<lambda>t c. 0.5)\<rparr>]"
    by (simp_all add: harness_tests_def gelu_test_def layer_norm_test_def)
  show ?thesis by (rule harness_gradcheck_at_harness_step [OF h])
qed

end
