(* ===== verification/LayerNorm_Step.thy ===== *)
theory LayerNorm_Step
  imports Gradcheck_Step
begin

text \<open>
  The LayerNorm \<^verbatim>\<open>gradcheck\<close> of \<^verbatim>\<open>src/src/modules.py\<close> at the harness's
  real step \<open>eps = 1e-6\<close>. A central difference \<open>(f eps - f (-eps)) / (2 eps)\<close> is within
  \<open>M eps\<^sup>2 / 6\<close> of \<open>f' 0\<close> when the third derivative of \<open>f\<close> is bounded by \<open>M\<close> on
  \<open>[-eps, eps]\<close> (\<open>central_difference_error3\<close>, by three integrations of the bound). Every
  output entry of \<^verbatim>\<open>LayerNormFn\<close>, as a function of one perturbed input entry, is either
  affine (the \<open>gamma\<close> and \<open>beta\<close> entries, and the other rows) or of the form
  \<open>U h \<cdot> w h powr (-1/2) \<cdot> gamma + beta\<close>, with \<open>w\<close> the perturbed row variance plus
  \<open>ln_eps = 1e-5\<close>. Its third derivative is bounded by \<open>36 \<cdot> ln_eps powr (-3/2)\<close>
  (\<open>smooth3_norm_entry\<close>, \<open>smooth3_ln_row\<close>), so the error at \<open>1e-6\<close> is below
  \<open>2.5e-4\<close>, inside \<open>atol = 1e-2\<close> (\<open>gradcheck_step_layer_norm\<close>). With the other five
  tests (\<open>Gradcheck_Step\<close>), the whole script passes on every draw.
\<close>

definition smooth3_entry :: "(real \<Rightarrow> real) \<Rightarrow> real \<Rightarrow> real \<Rightarrow> bool" where
  "smooth3_entry f r M \<longleftrightarrow>
     (\<exists>f1 f2 f3. \<forall>t. \<bar>t\<bar> \<le> r \<longrightarrow> (f has_real_derivative f1 t) (at t) \<and> (f1 has_real_derivative f2 t) (at t)
                               \<and> (f2 has_real_derivative f3 t) (at t) \<and> \<bar>f3 t\<bar> \<le> M)"

section \<open>Central differences with a third-derivative bound\<close>

lemma antideriv_bound:
  assumes "0 \<le> t" and F: "\<And>s. 0 \<le> s \<Longrightarrow> s \<le> t \<Longrightarrow> (F has_real_derivative F' s) (at s)"
    and B: "\<And>s. 0 \<le> s \<Longrightarrow> s \<le> t \<Longrightarrow> (B has_real_derivative B' s) (at s)"
    and le: "\<And>s. 0 \<le> s \<Longrightarrow> s \<le> t \<Longrightarrow> \<bar>F' s\<bar> \<le> B' s"
    and "F 0 = 0" and "B 0 = 0"
  shows "\<bar>F t\<bar> \<le> B t"
proof -
  have up: "(\<lambda>s. B s - F s) 0 \<le> (\<lambda>s. B s - F s) t"
  proof (rule DERIV_nonneg_imp_nondecreasing [OF assms(1)])
    fix s assume "0 \<le> s" "s \<le> t"
    then show "\<exists>y. ((\<lambda>s. B s - F s) has_real_derivative y) (at s) \<and> 0 \<le> y"
      using B F le [of s] by (intro exI [of _ "B' s - F' s"]) (auto intro: DERIV_diff)
  qed
  have lo: "(\<lambda>s. B s + F s) 0 \<le> (\<lambda>s. B s + F s) t"
  proof (rule DERIV_nonneg_imp_nondecreasing [OF assms(1)])
    fix s assume "0 \<le> s" "s \<le> t"
    then show "\<exists>y. ((\<lambda>s. B s + F s) has_real_derivative y) (at s) \<and> 0 \<le> y"
      using B F le [of s] by (intro exI [of _ "B' s + F' s"]) (auto intro: DERIV_add)
  qed
  show ?thesis using up lo assms(5,6) by simp
qed

lemma central_difference_error3:
  assumes sm: "smooth3_entry f h M" and D: "(f has_real_derivative D) (at 0)" and h: "0 < h"
  shows "\<bar>D - (f h - f (- h)) / (2 * h)\<bar> \<le> M * h ^ 2 / 6"
proof -
  obtain f1 f2 f3 where d: "\<And>t. \<bar>t\<bar> \<le> h \<Longrightarrow> (f has_real_derivative f1 t) (at t)
      \<and> (f1 has_real_derivative f2 t) (at t) \<and> (f2 has_real_derivative f3 t) (at t) \<and> \<bar>f3 t\<bar> \<le> M"
    using sm unfolding smooth3_entry_def by blast
  have D0: "D = f1 0" using DERIV_unique [OF D] d [of 0] h by simp
  have inr: "\<bar>s\<bar> \<le> h" "\<bar>- s\<bar> \<le> h" if "0 \<le> s" "s \<le> h" for s using that by auto
  have mirror: "((\<lambda>s. g (- s)) has_real_derivative - g' (- s)) (at s)"
    if "(g has_real_derivative g' (- s)) (at (- s))" for g g' s
    using DERIV_mirror [of g "g' (- s)" s] that by simp
  \<comment> \<open>the odd part of \<open>f\<close> and its first two derivatives\<close>
  define G2 where "G2 s = f2 s - f2 (- s)" for s
  define G1 where "G1 s = f1 s + f1 (- s) - 2 * f1 0" for s
  define G0 where "G0 s = f s - f (- s) - 2 * s * f1 0" for s
  have dG2: "(G2 has_real_derivative f3 s + f3 (- s)) (at s)" if "0 \<le> s" "s \<le> h" for s
    unfolding G2_def [abs_def]
    using DERIV_diff [OF conjunct1 [OF conjunct2 [OF conjunct2 [OF d [OF inr(1) [OF that]]]]]
                         mirror [of f2 f3 s, OF conjunct1 [OF conjunct2 [OF conjunct2 [OF d [OF inr(2) [OF that]]]]]]]
    by simp
  have dG1: "(G1 has_real_derivative G2 s) (at s)" if "0 \<le> s" "s \<le> h" for s
    unfolding G1_def [abs_def] G2_def
    using DERIV_diff [OF DERIV_add [OF conjunct1 [OF conjunct2 [OF d [OF inr(1) [OF that]]]]
                         mirror [of f1 f2 s, OF conjunct1 [OF conjunct2 [OF d [OF inr(2) [OF that]]]]]]
                      DERIV_const [of "2 * f1 0"]]
    by simp
  have dG0: "(G0 has_real_derivative G1 s) (at s)" if "0 \<le> s" "s \<le> h" for s
  proof -
    have lin: "((\<lambda>s. 2 * s * f1 0) has_real_derivative 2 * f1 0) (at s)"
      by (auto intro!: derivative_eq_intros)
    show ?thesis
      unfolding G0_def [abs_def] G1_def
      using DERIV_diff [OF DERIV_diff [OF conjunct1 [OF d [OF inr(1) [OF that]]]
                           mirror [of f f1 s, OF conjunct1 [OF d [OF inr(2) [OF that]]]]] lin]
      by (simp add: algebra_simps)
  qed
  have b2: "\<bar>G2 s\<bar> \<le> 2 * M * s" if "0 \<le> s" "s \<le> h" for s
  proof (rule antideriv_bound [where F = G2 and F' = "\<lambda>s. f3 s + f3 (- s)" and B = "\<lambda>s. 2 * M * s" and B' = "\<lambda>s. 2 * M"])
    show "\<And>u. 0 \<le> u \<Longrightarrow> u \<le> s \<Longrightarrow> (G2 has_real_derivative f3 u + f3 (- u)) (at u)"
      using dG2 that by simp
    show "\<And>u. 0 \<le> u \<Longrightarrow> u \<le> s \<Longrightarrow> ((\<lambda>s. 2 * M * s) has_real_derivative 2 * M) (at u)"
      by (auto intro!: derivative_eq_intros)
    show "\<And>u. 0 \<le> u \<Longrightarrow> u \<le> s \<Longrightarrow> \<bar>f3 u + f3 (- u)\<bar> \<le> 2 * M"
    proof -
      fix u assume "0 \<le> u" "u \<le> s"
      then have "\<bar>f3 u\<bar> \<le> M" "\<bar>f3 (- u)\<bar> \<le> M" using d that by auto
      then show "\<bar>f3 u + f3 (- u)\<bar> \<le> 2 * M" by linarith
    qed
  qed (use that in \<open>simp_all add: G2_def\<close>)
  have b1: "\<bar>G1 s\<bar> \<le> M * s ^ 2" if "0 \<le> s" "s \<le> h" for s
    by (rule antideriv_bound [where F = G1 and F' = G2 and B = "\<lambda>s. M * s ^ 2" and B' = "\<lambda>s. 2 * M * s"])
       (use that dG1 b2 in \<open>auto intro!: derivative_eq_intros simp: G1_def\<close>)
  have b0: "\<bar>G0 h\<bar> \<le> M * h ^ 3 / 3"
    by (rule antideriv_bound [where F = G0 and F' = G1 and B = "\<lambda>s. M * s ^ 3 / 3" and B' = "\<lambda>s. M * s ^ 2"])
       (use h dG0 b1 in \<open>auto intro!: derivative_eq_intros simp: G0_def\<close>)
  have "D - (f h - f (- h)) / (2 * h) = - G0 h / (2 * h)"
    using h by (simp add: D0 G0_def field_simps)
  also have "\<bar>\<dots>\<bar> = \<bar>G0 h\<bar> / (2 * h)" using h by (simp add: abs_divide)
  also have "\<dots> \<le> (M * h ^ 3 / 3) / (2 * h)" using b0 h by (intro divide_right_mono) auto
  also have "\<dots> = M * h ^ 2 / 6" using h by (simp add: field_simps power2_eq_square power3_eq_cube)
  finally show ?thesis .
qed


lemma gradcheck_step3:
  assumes ok: "jacobian_ok ti args out" and eps: "0 < eps" and "0 \<le> rtol" and "M * eps ^ 2 / 6 \<le> atol"
    and smooth: "\<forall>kij\<in>set (input_entries args). \<forall>pq\<in>set (pyval_entries out).
                   smooth3_entry (fval ti args kij pq) eps M"
  shows "slow_gradcheck ti args eps atol rtol = Inr ()"
proof -
  have "close rtol atol (gval ti args out kij pq)
          ((fval ti args kij pq eps - fval ti args kij pq (- eps)) / (2 * eps))"
    if kij: "kij \<in> set (input_entries args)" and pq: "pq \<in> set (pyval_entries out)" for kij pq
  proof -
    have "(fval ti args kij pq has_real_derivative gval ti args out kij pq) (at 0)"
      using ok kij pq by (simp add: jacobian_ok_def)
    then have "\<bar>gval ti args out kij pq - (fval ti args kij pq eps - fval ti args kij pq (- eps)) / (2 * eps)\<bar>
               \<le> M * eps ^ 2 / 6"
      using smooth kij pq eps by (intro central_difference_error3) auto
    moreover have "0 \<le> rtol * \<bar>(fval ti args kij pq eps - fval ti args kij pq (- eps)) / (2 * eps)\<bar>"
      using assms(3) by simp
    ultimately show ?thesis using assms(4) unfolding close_def by linarith
  qed
  then show ?thesis by (simp add: gradcheck_jacobian [OF ok])
qed

lemma smooth3_entry_affine: "0 \<le> M \<Longrightarrow> smooth3_entry (\<lambda>t. c + t * d) r M"
  unfolding smooth3_entry_def
  by (rule exI [of _ "\<lambda>t. d"], rule exI [of _ "\<lambda>t. 0"], rule exI [of _ "\<lambda>t. 0"])
     (auto intro!: derivative_eq_intros)

lemma smooth3_entry_const: "0 \<le> M \<Longrightarrow> smooth3_entry (\<lambda>t. c) r M"
  using smooth3_entry_affine [of M c 0 r] by simp

subsection \<open>Derivatives of a normalised entry\<close>

lemma DERIV_powr_fun:
  assumes "(w has_real_derivative w') (at t)" "0 < w t"
  shows "((\<lambda>h. w h powr c) has_real_derivative c * w' * w t powr (c - 1)) (at t)"
  using assms by (auto intro!: derivative_eq_intros simp: algebra_simps)

lemma norm_entry_d1:
  assumes w: "(w has_real_derivative 2 * m t) (at t)" and U: "(U has_real_derivative \<delta>) (at t)"
    and pos: "0 < w t"
  shows "((\<lambda>h. U h * w h powr (-1/2) * \<gamma> + \<beta>) has_real_derivative
           \<gamma> * (\<delta> * w t powr (-1/2) - U t * m t * w t powr (-3/2))) (at t)"
proof -
  have "((\<lambda>h. w h powr (-1/2)) has_real_derivative (-1/2) * (2 * m t) * w t powr (-1/2 - 1)) (at t)"
    by (rule DERIV_powr_fun [OF w pos])
  then have p: "((\<lambda>h. w h powr (-1/2)) has_real_derivative - (m t * w t powr (-3/2))) (at t)"
    by simp
  show ?thesis
    using DERIV_add [OF DERIV_mult [OF DERIV_mult [OF U p] DERIV_const [of \<gamma>]] DERIV_const [of \<beta>]]
    by (rule DERIV_cong) (simp add: algebra_simps)
qed

lemma norm_entry_d2:
  assumes w: "(w has_real_derivative 2 * m t) (at t)" and m: "(m has_real_derivative a) (at t)"
    and U: "(U has_real_derivative \<delta>) (at t)" and pos: "0 < w t"
  shows "((\<lambda>h. \<gamma> * (\<delta> * w h powr (-1/2) - U h * m h * w h powr (-3/2))) has_real_derivative
           \<gamma> * (- 2 * \<delta> * m t * w t powr (-3/2) - U t * a * w t powr (-3/2)
                + 3 * U t * m t ^ 2 * w t powr (-5/2))) (at t)"
proof -
  note p1 = DERIV_powr_fun [OF w pos, of "-1/2"] and p3 = DERIV_powr_fun [OF w pos, of "-3/2"]
  show ?thesis
    using DERIV_cmult [OF DERIV_diff [OF DERIV_cmult [OF p1, of \<delta>] DERIV_mult [OF DERIV_mult [OF U m] p3]], of \<gamma>]
    by (rule DERIV_cong) (simp add: algebra_simps power2_eq_square)
qed

lemma norm_entry_d3:
  assumes w: "(w has_real_derivative 2 * m t) (at t)" and m: "(m has_real_derivative a) (at t)"
    and U: "(U has_real_derivative \<delta>) (at t)" and pos: "0 < w t"
  shows "((\<lambda>h. \<gamma> * (- 2 * \<delta> * m h * w h powr (-3/2) - U h * a * w h powr (-3/2)
                + 3 * U h * m h ^ 2 * w h powr (-5/2))) has_real_derivative
           \<gamma> * (- 3 * \<delta> * a * w t powr (-3/2) + 9 * \<delta> * m t ^ 2 * w t powr (-5/2)
                + 9 * U t * a * m t * w t powr (-5/2) - 15 * U t * m t ^ 3 * w t powr (-7/2))) (at t)"
proof -
  note p3 = DERIV_powr_fun [OF w pos, of "-3/2"] and p5 = DERIV_powr_fun [OF w pos, of "-5/2"]
  have t1: "((\<lambda>h. - 2 * \<delta> * m h * w h powr (-3/2)) has_real_derivative
              - 2 * \<delta> * a * w t powr (-3/2) + 2 * (-3/2) * m t * w t powr (-3/2 - 1) * (- 2 * \<delta> * m t)) (at t)"
    using DERIV_mult [OF DERIV_cmult [OF m, of "- 2 * \<delta>"] p3] by (simp add: algebra_simps)
  have t2: "((\<lambda>h. U h * a * w h powr (-3/2)) has_real_derivative
              \<delta> * a * w t powr (-3/2) + 2 * (-3/2) * m t * w t powr (-3/2 - 1) * (U t * a)) (at t)"
    using DERIV_mult [OF DERIV_mult [OF U DERIV_const [of a]] p3] by (simp add: algebra_simps)
  have t3: "((\<lambda>h. 3 * U h * m h ^ 2 * w h powr (-5/2)) has_real_derivative
              (3 * \<delta> * m t ^ 2 + 3 * U t * (2 * a * m t)) * w t powr (-5/2)
              + 2 * (-5/2) * m t * w t powr (-5/2 - 1) * (3 * U t * m t ^ 2)) (at t)"
    using DERIV_mult [OF DERIV_mult [OF DERIV_cmult [OF U, of 3] DERIV_power [OF m, of 2]] p5]
    by (simp add: algebra_simps)
  show ?thesis
    using DERIV_cmult [OF DERIV_add [OF DERIV_diff [OF t1 t2] t3], of \<gamma>]
    by (rule DERIV_cong) (simp add: algebra_simps power2_eq_square power3_eq_cube)
qed

lemma powr_shift_one:
  fixes W :: real
  shows "0 < W \<Longrightarrow> W * W powr (c - 1) = W powr c"
  using powr_add [of W 1 "c - 1"] by simp

lemma norm_entry_d3_bound:
  fixes W :: real
  assumes eps: "0 < \<epsilon>" "\<epsilon> \<le> W" and mW: "m\<^sup>2 \<le> W" and UmW: "\<bar>U * m\<bar> \<le> W"
    and a: "\<bar>a\<bar> \<le> 1" and d: "\<bar>\<delta>\<bar> \<le> 1" and g: "\<bar>\<gamma>\<bar> \<le> 1"
  shows "\<bar>\<gamma> * (- 3 * \<delta> * a * W powr (-3/2) + 9 * \<delta> * m ^ 2 * W powr (-5/2)
                + 9 * U * a * m * W powr (-5/2) - 15 * U * m ^ 3 * W powr (-7/2))\<bar>
         \<le> 36 * \<epsilon> powr (-3/2)"
proof -
  have W: "0 < W" using eps by linarith
  define P3 P5 P7 where "P3 = W powr (-3/2)" and "P5 = W powr (-5/2)" and "P7 = W powr (-7/2)"
  have P: "0 \<le> P3" "0 \<le> P5" "0 \<le> P7" unfolding P3_def P5_def P7_def by simp_all
  have e5: "W * P5 = P3" unfolding P3_def P5_def using powr_shift_one [OF W, of "-3/2"] by simp
  have e7: "W * P7 = P5" unfolding P5_def P7_def using powr_shift_one [OF W, of "-5/2"] by simp
  have b1: "\<bar>3 * \<delta> * a * P3\<bar> \<le> 3 * P3"
  proof -
    have "\<bar>\<delta>\<bar> * \<bar>a\<bar> * P3 \<le> 1 * P3" using mult_mono [OF d a] P by (intro mult_right_mono) auto
    then show ?thesis using P by (simp add: abs_mult)
  qed
  have b2: "\<bar>9 * \<delta> * m ^ 2 * P5\<bar> \<le> 9 * P3"
  proof -
    have "\<bar>\<delta>\<bar> * m\<^sup>2 \<le> W" using mult_mono [OF d mW] by simp
    then have "\<bar>\<delta>\<bar> * m\<^sup>2 * P5 \<le> W * P5" using P by (intro mult_right_mono)
    then show ?thesis using e5 P by (simp add: abs_mult mult.assoc)
  qed
  have b3: "\<bar>9 * U * a * m * P5\<bar> \<le> 9 * P3"
  proof -
    have "\<bar>U * m\<bar> * \<bar>a\<bar> \<le> W" using mult_mono [OF UmW a] W by simp
    then have "\<bar>U * m\<bar> * \<bar>a\<bar> * P5 \<le> W * P5" using P by (intro mult_right_mono)
    then show ?thesis using e5 P by (simp add: abs_mult algebra_simps)
  qed
  have b4: "\<bar>15 * U * m ^ 3 * P7\<bar> \<le> 15 * P3"
  proof -
    have "\<bar>U * m\<bar> * m\<^sup>2 \<le> W * W" using mult_mono [OF UmW mW] W by simp
    then have "\<bar>U * m\<bar> * m\<^sup>2 * P7 \<le> W * W * P7" using P by (intro mult_right_mono)
    moreover have "W * W * P7 = P3" using e5 e7 by (simp add: mult.assoc)
    ultimately show ?thesis using P by (simp add: abs_mult power2_eq_square power3_eq_cube algebra_simps)
  qed
  have "P3 \<le> \<epsilon> powr (-3/2)" unfolding P3_def using eps by (intro powr_mono2') auto
  moreover have "\<bar>- 3 * \<delta> * a * P3 + 9 * \<delta> * m ^ 2 * P5 + 9 * U * a * m * P5 - 15 * U * m ^ 3 * P7\<bar> \<le> 36 * P3"
    using b1 b2 b3 b4 by linarith
  ultimately have "\<bar>- 3 * \<delta> * a * P3 + 9 * \<delta> * m ^ 2 * P5 + 9 * U * a * m * P5 - 15 * U * m ^ 3 * P7\<bar>
                   \<le> 36 * \<epsilon> powr (-3/2)" by linarith
  then have "\<bar>\<gamma>\<bar> * \<bar>- 3 * \<delta> * a * P3 + 9 * \<delta> * m ^ 2 * P5 + 9 * U * a * m * P5 - 15 * U * m ^ 3 * P7\<bar>
             \<le> 1 * (36 * \<epsilon> powr (-3/2))" using g by (intro mult_mono) auto
  then show ?thesis unfolding P3_def P5_def P7_def by (simp add: abs_mult)
qed

lemma smooth3_norm_entry:
  fixes w m U :: "real \<Rightarrow> real"
  assumes w: "\<And>t. (w has_real_derivative 2 * m t) (at t)" and m: "\<And>t. (m has_real_derivative a) (at t)"
    and U: "\<And>t. (U has_real_derivative \<delta>) (at t)"
    and eps: "0 < \<epsilon>" and lo: "\<And>t. \<bar>t\<bar> \<le> r \<Longrightarrow> \<epsilon> \<le> w t"
    and mW: "\<And>t. \<bar>t\<bar> \<le> r \<Longrightarrow> (m t)\<^sup>2 \<le> w t" and UmW: "\<And>t. \<bar>t\<bar> \<le> r \<Longrightarrow> \<bar>U t * m t\<bar> \<le> w t"
    and a: "\<bar>a\<bar> \<le> 1" and d: "\<bar>\<delta>\<bar> \<le> 1" and g: "\<bar>\<gamma>\<bar> \<le> 1"
  shows "smooth3_entry (\<lambda>h. U h * w h powr (-1/2) * \<gamma> + \<beta>) r (36 * \<epsilon> powr (-3/2))"
  unfolding smooth3_entry_def
proof (intro exI allI impI conjI)
  fix t :: real assume t: "\<bar>t\<bar> \<le> r"
  then have pos: "0 < w t" using lo [OF t] eps by linarith
  show "((\<lambda>h. U h * w h powr (-1/2) * \<gamma> + \<beta>) has_real_derivative
          \<gamma> * (\<delta> * w t powr (-1/2) - U t * m t * w t powr (-3/2))) (at t)"
    by (rule norm_entry_d1 [where m = m, OF w [of t] U [of t] pos])
  show "((\<lambda>h. \<gamma> * (\<delta> * w h powr (-1/2) - U h * m h * w h powr (-3/2))) has_real_derivative
           \<gamma> * (- 2 * \<delta> * m t * w t powr (-3/2) - U t * a * w t powr (-3/2)
                + 3 * U t * m t ^ 2 * w t powr (-5/2))) (at t)"
    by (rule norm_entry_d2 [where m = m, OF w [of t] m [of t] U [of t] pos])
  show "((\<lambda>h. \<gamma> * (- 2 * \<delta> * m h * w h powr (-3/2) - U h * a * w h powr (-3/2)
                + 3 * U h * m h ^ 2 * w h powr (-5/2))) has_real_derivative
           \<gamma> * (- 3 * \<delta> * a * w t powr (-3/2) + 9 * \<delta> * m t ^ 2 * w t powr (-5/2)
                + 9 * U t * a * m t * w t powr (-5/2) - 15 * U t * m t ^ 3 * w t powr (-7/2))) (at t)"
    by (rule norm_entry_d3 [where m = m, OF w [of t] m [of t] U [of t] pos])
  show "\<bar>\<gamma> * (- 3 * \<delta> * a * w t powr (-3/2) + 9 * \<delta> * m t ^ 2 * w t powr (-5/2)
                + 9 * U t * a * m t * w t powr (-5/2) - 15 * U t * m t ^ 3 * w t powr (-7/2))\<bar>
         \<le> 36 * \<epsilon> powr (-3/2)"
    by (rule norm_entry_d3_bound [OF eps(1) lo [OF t] mW [OF t] UmW [OF t] a d g])
qed

subsection \<open>One normalised row along a perturbation direction\<close>

lemma sum_ln_dir: "j < C \<Longrightarrow> (\<Sum>c<C. ln_dir C j c) = 0"
  by (simp add: ln_dir_def sum_subtractf)

lemma abs_ln_dir:
  assumes "0 < C" shows "\<bar>ln_dir C j c\<bar> \<le> 1"
proof -
  have "0 \<le> 1 / real C" "1 / real C \<le> 1" using assms by simp_all
  then show ?thesis unfolding ln_dir_def by auto
qed

lemma abs_prod_le_sum_sq:
  fixes f :: "nat \<Rightarrow> real"
  assumes "q < C" "j < C"
  shows "\<bar>f q * f j\<bar> \<le> (\<Sum>c<C. (f c)\<^sup>2)"
proof -
  have "(f q)\<^sup>2 \<le> (\<Sum>c<C. (f c)\<^sup>2)" "(f j)\<^sup>2 \<le> (\<Sum>c<C. (f c)\<^sup>2)"
    using assms by (auto intro!: member_le_sum)
  moreover have "2 * \<bar>f q * f j\<bar> \<le> (f q)\<^sup>2 + (f j)\<^sup>2"
    using sum_squares_bound [of "\<bar>f q\<bar>" "\<bar>f j\<bar>"] by (simp add: abs_mult)
  ultimately show ?thesis by linarith
qed

lemma smooth3_ln_row:
  fixes mu :: "nat \<Rightarrow> real"
  assumes C: "0 < C" and jq: "j < C" "q < C" and sum0: "(\<Sum>c<C. mu c) = 0" and g: "\<bar>\<gamma>\<bar> \<le> 1"
  shows "smooth3_entry (\<lambda>h. (mu q + h * ln_dir C j q)
                             * (1 / sqrt ((\<Sum>c<C. (mu c + h * ln_dir C j c) ^ 2) / C + ln_eps)) * \<gamma> + \<beta>)
                       r (36 * ln_eps powr (-3/2))"
proof -
  define d where "d = ln_dir C j"
  define f where "f t c = mu c + t * d c" for t c
  define w where "w t = (\<Sum>c<C. (f t c)\<^sup>2) / C + ln_eps" for t
  define m where "m t = (\<Sum>c<C. f t c * d c) / C" for t
  define a where "a = (\<Sum>c<C. d c * d c) / C"
  have d1: "\<bar>d c\<bar> \<le> 1" for c unfolding d_def by (rule abs_ln_dir [OF C])
  have sf: "(\<Sum>c<C. f t c) = 0" for t
    using sum0 sum_ln_dir [OF jq(1)] by (simp add: f_def d_def sum.distrib sum_distrib_left [symmetric])
  have mj: "m t = f t j / C" for t
    using sum_ln_dir_mult [OF jq(1) sf, of "f t"] sf by (simp add: m_def d_def)
  have S0: "0 \<le> (\<Sum>c<C. (f t c)\<^sup>2)" for t by (simp add: sum_nonneg)
  have wS: "(\<Sum>c<C. (f t c)\<^sup>2) / C \<le> w t" for t unfolding w_def using ln_eps_pos by linarith
  have dw: "(w has_real_derivative 2 * m t) (at t)" for t
    unfolding w_def [abs_def] m_def f_def
    apply (rule derivative_eq_intros refl | simp add: C)+
    apply (simp add: sum_distrib_left sum_divide_distrib algebra_simps)
    done
  have dm: "(m has_real_derivative a) (at t)" for t
    unfolding m_def [abs_def] a_def f_def
    by (rule derivative_eq_intros refl | simp add: C)+
  have dU: "((\<lambda>h. mu q + h * d q) has_real_derivative d q) (at t)" for t
    by (auto intro!: derivative_eq_intros)
  have lo: "ln_eps \<le> w t" for t
  proof -
    have "0 \<le> (\<Sum>c<C. (f t c)\<^sup>2) / C" using S0 [of t] by simp
    then show ?thesis unfolding w_def by linarith
  qed
  have mW: "(m t)\<^sup>2 \<le> w t" for t
  proof -
    have "(f t j)\<^sup>2 \<le> (\<Sum>c<C. (f t c)\<^sup>2)" using abs_prod_le_sum_sq [OF jq(1) jq(1), of "f t"]
      by (simp add: power2_eq_square)
    then have "(f t j)\<^sup>2 / (real C * real C) \<le> (\<Sum>c<C. (f t c)\<^sup>2) / (real C * real C)"
      by (rule divide_right_mono) simp
    also have "\<dots> \<le> (\<Sum>c<C. (f t c)\<^sup>2) / C"
    proof (rule divide_left_mono [OF _ S0])
      show "real C \<le> real C * real C" using C by simp
      show "0 < real C * real C * real C" using C by simp
    qed
    finally have "(f t j)\<^sup>2 / (real C * real C) \<le> (\<Sum>c<C. (f t c)\<^sup>2) / C" .
    then show ?thesis using wS [of t] by (simp add: mj power_divide power2_eq_square)
  qed
  have UmW: "\<bar>(mu q + t * d q) * m t\<bar> \<le> w t" for t
  proof -
    have "\<bar>f t q * f t j\<bar> / C \<le> (\<Sum>c<C. (f t c)\<^sup>2) / C"
      using abs_prod_le_sum_sq [OF jq(2) jq(1), of "f t"] C by (simp add: divide_right_mono)
    then show ?thesis using wS [of t] by (simp add: mj f_def abs_mult)
  qed
  have a1: "\<bar>a\<bar> \<le> 1"
  proof -
    have "(\<Sum>c<C. d c * d c) \<le> (\<Sum>c<(C::nat). 1)"
      using d1 by (intro sum_mono) (simp add: abs_square_le_1 flip: power2_eq_square)
    moreover have "0 \<le> (\<Sum>c<C. d c * d c)" by (simp add: sum_nonneg)
    ultimately show ?thesis using C by (simp add: a_def)
  qed
  have "smooth3_entry (\<lambda>h. (mu q + h * d q) * w h powr (-1/2) * \<gamma> + \<beta>) r (36 * ln_eps powr (-3/2))"
    by (rule smooth3_norm_entry [OF dw dm dU ln_eps_pos lo mW UmW a1 d1 g])
  moreover have "w h powr (-1/2) = 1 / sqrt ((\<Sum>c<C. (mu c + h * d c) ^ 2) / C + ln_eps)" for h
  proof -
    have "0 < w h" using lo [of h] ln_eps_pos by linarith
    then show ?thesis by (simp add: powr_minus_divide powr_half_sqrt w_def f_def)
  qed
  ultimately show ?thesis by (simp add: d_def)
qed

subsection \<open>The LayerNorm check at a fixed step\<close>

lemma smooth3_entry_affine_fun:
  assumes "0 \<le> M" and f: "\<And>t. f t = c + t * d"
  shows "smooth3_entry f r M"
proof -
  have "f = (\<lambda>t. c + t * d)" by (rule ext) (rule f)
  then show ?thesis using smooth3_entry_affine [OF assms(1)] by simp
qed

lemma ln_forward_entry:
  assumes "len g = cols x" "len b = cols x" "q < cols x"
  shows "(case LayerNormFn_forward x g b of Inl _ \<Rightarrow> 0 | Inr (y, _) \<Rightarrow> ent y p q)
         = (ent x p q - row_mean x p) * (1 / sqrt (row_var x p + ln_eps)) * el g q + el b q"
  using assms by (simp add: LayerNormFn_forward_def Let_def row_mean_def row_var_def)

lemma gradcheck_step_layer_norm:
  assumes dr: "list_all2 drawn (test_params (layer_norm_test T C)) args" and C: "0 < C"
    and eps: "0 < eps" and "0 \<le> rtol" and "36 * ln_eps powr (-3/2) * eps ^ 2 / 6 \<le> atol"
  shows "gradcheck (layer_norm_test T C) args eps atol rtol = Inr ()"
proof -
  obtain x g b where args: "args = [T2 x, T1 g, T1 b]" and x: "rows x = T" "cols x = C"
    and gb: "len g = C" "len b = C" and g01: "\<forall>k<C. 0 \<le> el g k \<and> el g k < 1"
    using dr by (auto simp: layer_norm_test_def list_all2_Cons1 elim!: drawn_T2E drawn_T1E)
  obtain out where ok: "jacobian_ok (layer_norm_test T C) args out"
    using jacobian_ok_layer_norm [OF dr C] by blast
  obtain y c0 where run: "LayerNormFn_forward x g b = Inr (y, c0)" and y: "rows y = T" "cols y = C"
    using LayerNormFn_forward_shape [of g x b] x gb by auto
  have out: "out = Tensor y"
    using ok by (simp add: jacobian_ok_def layer_norm_test_def args value_of_def run)
  define M where "M = 36 * ln_eps powr (-3/2)"
  have M: "0 \<le> M" by (simp add: M_def)
  define A where "A p q = (ent x p q - row_mean x p) * (1 / sqrt (row_var x p + ln_eps))" for p q
  have fv: "fval (layer_norm_test T C) args (k, i, j) (p, q)
            = (\<lambda>h. case LayerNormFn_forward (perturb2 x i j h) g b of Inl _ \<Rightarrow> 0 | Inr (y, _) \<Rightarrow> ent y p q)"
    if "k = 0" for k i j p q
    using that by (simp add: fval_fun args layer_norm_test_def perturb_args_def)
  have s0: "smooth3_entry (fval (layer_norm_test T C) args (0, i, j) (p, q)) eps M"
    if "j < C" "q < C" for i j p q
  proof (cases "p = i")
    case True
    have "\<bar>el g q\<bar> \<le> 1" using g01 that(2) by fastforce
    then have "smooth3_entry (\<lambda>h. ((ent x i q - row_mean x i) + h * ln_dir C j q)
                 * (1 / sqrt ((\<Sum>c<C. ((ent x i c - row_mean x i) + h * ln_dir C j c) ^ 2) / C + ln_eps))
                 * el g q + el b q) eps M"
      unfolding M_def using row_centered_sum [of x i] C x that by (intro smooth3_ln_row) auto
    then show ?thesis
      using that True x gb
      by (simp add: fv ln_forward_entry centered_perturb2 row_var_perturb2 del: ent_perturb2)
  next
    case False
    then show ?thesis
      using that x gb smooth3_entry_const [OF M, of "A p q * el g q + el b q" eps]
      by (simp add: fv ln_forward_entry centered_perturb2 row_var_perturb2 A_def del: ent_perturb2)
         (simp add: row_var_def)
  qed
  have s1: "smooth3_entry (fval (layer_norm_test T C) args (1, 0, j) (p, q)) eps M"
    if "q < C" for j p q
    using that x gb
    by (intro smooth3_entry_affine_fun [OF M, where c = "A p q * el g q + el b q" and d = "if q = j then A p q else 0"])
       (simp add: fval_fun args layer_norm_test_def perturb_args_def ln_forward_entry A_def algebra_simps add_divide_distrib diff_divide_distrib)
  have s2: "smooth3_entry (fval (layer_norm_test T C) args (2, 0, j) (p, q)) eps M"
    if "q < C" for j p q
    using that x gb
    by (intro smooth3_entry_affine_fun [OF M, where c = "A p q * el g q + el b q" and d = "if q = j then 1 else 0"])
       (simp add: fval_fun args layer_norm_test_def perturb_args_def ln_forward_entry A_def)
  have "slow_gradcheck (layer_norm_test T C) args eps atol rtol = Inr ()"
    using assms(4,5) eps x gb y s0 s1 s2
    by (intro gradcheck_step3 [OF ok, where M = M])
       (auto simp: M_def out args ball_input_entries numeral_eq_Suc All_less_Suc)
  then show ?thesis by (simp add: gradcheck_slow [OF mul_check_layer_norm [OF dr C]])
qed

subsection \<open>At the harness's constants\<close>

lemma ln_eps_powr_bound: "ln_eps powr (-3/2) \<le> 40000000"
proof -
  have s: "0.003 \<le> sqrt ln_eps" by (rule real_le_rsqrt) (simp add: ln_eps_def power2_eq_square)
  have "ln_eps powr (3/2) = ln_eps powr (1 + 1/2)" by simp
  also have "\<dots> = ln_eps * sqrt ln_eps" by (simp only: powr_add powr_half_sqrt [OF less_imp_le [OF ln_eps_pos]]) (simp add: ln_eps_def)
  finally have e: "ln_eps powr (-3/2) = 1 / (ln_eps * sqrt ln_eps)" by (simp add: powr_minus_divide)
  have "ln_eps * 0.003 \<le> ln_eps * sqrt ln_eps" using s by (simp add: less_imp_le)
  then have "1 / (ln_eps * sqrt ln_eps) \<le> 1 / (ln_eps * 0.003)"
    by (intro divide_left_mono) (simp_all add: ln_eps_def)
  moreover have "1 / (ln_eps * 0.003) \<le> 40000000" by (simp add: ln_eps_def)
  ultimately show ?thesis unfolding e by linarith
qed

lemma gradcheck_layer_norm_harness:
  assumes "list_all2 drawn (test_params (layer_norm_test T C)) args" and "0 < C"
  shows "gradcheck (layer_norm_test T C) args 0.000001 harness_atol harness_rtol = Inr ()"
proof (rule gradcheck_step_layer_norm [OF assms])
  show "36 * ln_eps powr (-3/2) * 0.000001 ^ 2 / 6 \<le> harness_atol"
  proof -
    have "36 * P * 0.000001 ^ 2 / 6 \<le> (0.01 :: real)" if "P \<le> 40000000" for P
      using that by (simp add: power2_eq_square)
    then show ?thesis using ln_eps_powr_bound by (simp add: harness_atol_def)
  qed
qed (simp_all add: harness_rtol_def)

lemma harness_script_passes:
  assumes T: "0 < T" and C: "0 < C"
    and dr: "list_all2 (\<lambda>ti args. list_all2 drawn (test_params ti) args) (harness_tests T C) argss"
  shows "harness_script T C 0.000001 argss
         = ([''cross_entropy passed'', ''layer_norm passed'', ''linear passed'', ''gelu passed'',
             ''add passed'', ''embedding passed'', all_passed_banner], None)"
proof -
  have "list_all2 drawn (test_params (layer_norm_test T C)) (argss ! 1)"
    using list_all2_nthD [OF dr, of 1] list_all2_lengthD [OF dr] by (simp add: harness_tests_def)
  then show ?thesis
    using run_tests_harness_step [OF T dr] gradcheck_layer_norm_harness [OF _ C]
    by (simp add: harness_script_def)
qed

section \<open>The LayerNorm check and the script at the harness's constants\<close>

text \<open>
  C13: at the harness's step \<open>eps = 1e-6\<close> and tolerances \<open>atol = rtol = 1e-2\<close>, the
  LayerNorm \<^verbatim>\<open>gradcheck\<close> passes on every argument list the random draws may produce, for
  every positive width: the numerical Jacobian of \<^verbatim>\<open>LayerNormFn.forward\<close> is within
  \<open>6e-12 \<cdot> ln_eps powr (-3/2) < 2.5e-4\<close> of the one \<^verbatim>\<open>LayerNormFn.backward\<close> computes,
  and the zero-upstream check passes.
\<close>

theorem layer_norm_gradcheck_at_harness_step:
  assumes "list_all2 drawn (test_params (layer_norm_test T C)) args" and "0 < C"
  shows "gradcheck (layer_norm_test T C) args 0.000001 harness_atol harness_rtol = Inr ()"
  using gradcheck_layer_norm_harness [OF assms] .

theorem layer_norm_gradcheck_at_harness_step_witness:
  "gradcheck (layer_norm_test 1 2)
     [T2 \<lparr>rows = 1, cols = 2, ent = (\<lambda>t c. 0.5)\<rparr>, T1 \<lparr>len = 2, el = (\<lambda>c. 0.5)\<rparr>, T1 \<lparr>len = 2, el = (\<lambda>c. 0.5)\<rparr>]
     0.000001 harness_atol harness_rtol = Inr ()"
proof -
  have h: "list_all2 drawn (test_params (layer_norm_test 1 2))
     [T2 \<lparr>rows = 1, cols = 2, ent = (\<lambda>t c. 0.5)\<rparr>, T1 \<lparr>len = 2, el = (\<lambda>c. 0.5)\<rparr>, T1 \<lparr>len = 2, el = (\<lambda>c. 0.5)\<rparr>]"
    "0 < (2 :: nat)"
    by (simp_all add: layer_norm_test_def)
  show ?thesis by (rule layer_norm_gradcheck_at_harness_step [OF h])
qed

text \<open>
  C14: the script as written (\<open>T, C = 32, 64\<close>, step \<open>1e-6\<close>) prints \<^verbatim>\<open>passed\<close> for all six
  tests, in the order of \<^verbatim>\<open>tests\<close>, then the closing banner, and raises nothing, on every
  argument list the random draws may produce.
\<close>

theorem harness_main_passes:
  assumes "list_all2 (\<lambda>ti args. list_all2 drawn (test_params ti) args) (harness_tests 32 64) argss"
  shows "harness_main argss
           = ([''cross_entropy passed'', ''layer_norm passed'', ''linear passed'', ''gelu passed'',
               ''add passed'', ''embedding passed'', all_passed_banner], None)"
  using harness_script_passes [of 32 64 argss] assms by (simp add: harness_main_def)

theorem harness_main_passes_witness:
  "harness_main
     [[T2 \<lparr>rows = 32, cols = 64, ent = (\<lambda>t c. 0.5)\<rparr>, Idx (replicate 32 0)], [T2 \<lparr>rows = 32, cols = 64, ent = (\<lambda>t c. 0.5)\<rparr>, T1 \<lparr>len = 64, el = (\<lambda>c. 0.5)\<rparr>, T1 \<lparr>len = 64, el = (\<lambda>c. 0.5)\<rparr>], [T2 \<lparr>rows = 32, cols = 64, ent = (\<lambda>t c. 0.5)\<rparr>, T2 \<lparr>rows = 64, cols = 64, ent = (\<lambda>t c. 0.5)\<rparr>, T1 \<lparr>len = 64, el = (\<lambda>c. 0.5)\<rparr>],
      [T2 \<lparr>rows = 32, cols = 64, ent = (\<lambda>t c. 0.5)\<rparr>], [T2 \<lparr>rows = 32, cols = 64, ent = (\<lambda>t c. 0.5)\<rparr>, T2 \<lparr>rows = 32, cols = 64, ent = (\<lambda>t c. 0.5)\<rparr>], [Idx (replicate 32 0), T2 \<lparr>rows = 32, cols = 64, ent = (\<lambda>t c. 0.5)\<rparr>]]
     = ([''cross_entropy passed'', ''layer_norm passed'', ''linear passed'', ''gelu passed'',
         ''add passed'', ''embedding passed'', all_passed_banner], None)"
proof -
  have h: "list_all2 (\<lambda>ti args. list_all2 drawn (test_params ti) args) (harness_tests 32 64)
     [[T2 \<lparr>rows = 32, cols = 64, ent = (\<lambda>t c. 0.5)\<rparr>, Idx (replicate 32 0)], [T2 \<lparr>rows = 32, cols = 64, ent = (\<lambda>t c. 0.5)\<rparr>, T1 \<lparr>len = 64, el = (\<lambda>c. 0.5)\<rparr>, T1 \<lparr>len = 64, el = (\<lambda>c. 0.5)\<rparr>], [T2 \<lparr>rows = 32, cols = 64, ent = (\<lambda>t c. 0.5)\<rparr>, T2 \<lparr>rows = 64, cols = 64, ent = (\<lambda>t c. 0.5)\<rparr>, T1 \<lparr>len = 64, el = (\<lambda>c. 0.5)\<rparr>],
      [T2 \<lparr>rows = 32, cols = 64, ent = (\<lambda>t c. 0.5)\<rparr>], [T2 \<lparr>rows = 32, cols = 64, ent = (\<lambda>t c. 0.5)\<rparr>, T2 \<lparr>rows = 32, cols = 64, ent = (\<lambda>t c. 0.5)\<rparr>], [Idx (replicate 32 0), T2 \<lparr>rows = 32, cols = 64, ent = (\<lambda>t c. 0.5)\<rparr>]]"
    by (simp add: harness_tests_def cross_entropy_test_def layer_norm_test_def linear_test_def
                  gelu_test_def add_test_def embedding_test_def list_all_iff)
  show ?thesis by (rule harness_main_passes [OF h])
qed

end
