(* ===== verification/Attention_Stub.thy ===== *)
theory Attention_Stub
  imports Prelude
begin

text \<open>
  The unfinished \<^verbatim>\<open>MHAttentionFn\<close> of \<^verbatim>\<open>src/src/modules.py\<close> (lines 171-183, marked
  \<^verbatim>\<open>TODO\<close>): its forward unpacks four weights, reshapes the input into heads, computes
  \<open>q\<close>, \<open>k\<close>, \<open>v\<close> and the scores \<open>s\<close>, and returns \<^verbatim>\<open>None\<close>; it saves no context and
  has no backward. No value it computes leaves the function, so what it does is decided by
  the shapes alone: whether one of its statements raises, or it returns \<^verbatim>\<open>None\<close>
  (\<open>Inr ()\<close>). The model is therefore one of shapes (lists of dimensions), with the shape
  rules of the PyTorch calls it makes: tuple unpacking, \<^verbatim>\<open>reshape\<close>, \<^verbatim>\<open>matmul\<close> with
  its batch broadcasting, and \<^verbatim>\<open>transpose\<close>.
\<close>

type_synonym shape = "nat list"

text \<open>Broadcasting of batch dimensions, aligned on the right.\<close>

fun bcast_dims :: "nat list \<Rightarrow> nat list \<Rightarrow> nat list option" where
  "bcast_dims [] ys = Some ys"
| "bcast_dims xs [] = Some xs"
| "bcast_dims (x # xs) (y # ys) =
     (case bcast x y of None \<Rightarrow> None | Some z \<Rightarrow> map_option (Cons z) (bcast_dims xs ys))"

definition broadcast_shapes :: "shape \<Rightarrow> shape \<Rightarrow> shape option" where
  "broadcast_shapes a b = map_option rev (bcast_dims (rev a) (rev b))"

text \<open>
  \<^verbatim>\<open>torch.matmul\<close>: both arguments at least one-dimensional; a vector is made a matrix
  (a row on the left, a column on the right) and the added dimension dropped from the result;
  the inner dimensions must agree and the batch dimensions broadcast.
\<close>

definition matmul_shape :: "shape \<Rightarrow> shape \<Rightarrow> shape result" where
  "matmul_shape a b =
     (if a = [] \<or> b = [] then Inl RuntimeError
      else
        (let a' = (if length a = 1 then 1 # a else a); b' = (if length b = 1 then b @ [1] else b);
             n = a' ! (length a' - 2); m = last a'; m' = b' ! (length b' - 2); p = last b'
         in if m \<noteq> m' then Inl RuntimeError
            else (case broadcast_shapes (butlast (butlast a')) (butlast (butlast b')) of
                    None \<Rightarrow> Inl RuntimeError
                  | Some bs \<Rightarrow> Inr (bs @ (if length a = 1 then [] else [n]) @ (if length b = 1 then [] else [p])))))"

definition reshape_shape :: "shape \<Rightarrow> shape \<Rightarrow> shape result" where
  "reshape_shape s s' = (if prod_list s = prod_list s' then Inr s' else Inl RuntimeError)"

definition transpose_shape :: "shape \<Rightarrow> nat \<Rightarrow> nat \<Rightarrow> shape result" where
  "transpose_shape s d1 d2 =
     (if d1 < length s \<and> d2 < length s then Inr (s[d1 := s ! d2, d2 := s ! d1]) else Inl IndexError)"

text \<open>
  The forward, statement by statement: \<^verbatim>\<open>w_q, w_k, w_v, w_o = w_qkvo\<close> and the two
  shape unpackings raise \<^verbatim>\<open>ValueError\<close> on a wrong count; the \<open>C\<close> of \<^verbatim>\<open>w_q\<close> is
  overwritten by the one of \<open>x\<close>; then the reshape, the three products and the scores.
\<close>

definition MHAttentionFn_forward :: "shape \<Rightarrow> shape list \<Rightarrow> unit result" where
  "MHAttentionFn_forward x w_qkvo =
     (case w_qkvo of
        [w_q, w_k, w_v, w_o] \<Rightarrow>
          (case w_q of
             [H, C, Ca] \<Rightarrow>
               (case x of
                  [T, C'] \<Rightarrow>
                    (case reshape_shape x [H, T, Ca] of
                       Inl e \<Rightarrow> Inl e
                     | Inr x' \<Rightarrow>
                         (case matmul_shape x' w_q of
                            Inl e \<Rightarrow> Inl e
                          | Inr q \<Rightarrow>
                              (case matmul_shape x' w_k of
                                 Inl e \<Rightarrow> Inl e
                               | Inr k \<Rightarrow>
                                   (case matmul_shape x' w_v of
                                      Inl e \<Rightarrow> Inl e
                                    | Inr v \<Rightarrow>
                                        (case transpose_shape q 1 2 of
                                           Inl e \<Rightarrow> Inl e
                                         | Inr qt \<Rightarrow>
                                             (case matmul_shape k qt of
                                                Inl e \<Rightarrow> Inl e
                                              | Inr s \<Rightarrow> Inr ()))))))
                | _ \<Rightarrow> Inl ValueError)
           | _ \<Rightarrow> Inl ValueError)
      | _ \<Rightarrow> Inl ValueError)"

lemma matmul_shape_batched3:
  "matmul_shape [H, T, Ca] [H', Cw, P]
   = (if Ca \<noteq> Cw then Inl RuntimeError
      else case bcast H H' of None \<Rightarrow> Inl RuntimeError | Some h \<Rightarrow> Inr [h, T, P])"
  by (simp add: matmul_shape_def broadcast_shapes_def split: option.split)

lemma bcast_same_dim [simp]: "bcast H H = Some H"
  by (simp add: bcast_def)

text \<open>The shape rule agrees with \<^verbatim>\<open>torch.matmul\<close> on each of its cases.\<close>

lemma matmul_shape_examples:
  "matmul_shape [2, 3] [3, 4] = Inr [2, 4] \<and> matmul_shape [3] [3] = Inr []
   \<and> matmul_shape [3] [3, 4] = Inr [4] \<and> matmul_shape [2, 3] [3] = Inr [2]
   \<and> matmul_shape [5, 2, 3] [3, 4] = Inr [5, 2, 4] \<and> matmul_shape [3] [2, 3, 4] = Inr [2, 4]
   \<and> matmul_shape [9, 1, 2, 3] [7, 3, 4] = Inr [9, 7, 2, 4]
   \<and> matmul_shape [2, 2, 3] [7, 3, 4] = Inl RuntimeError \<and> matmul_shape [2, 3] [4, 4] = Inl RuntimeError
   \<and> matmul_shape [] [3] = Inl RuntimeError"
  by (simp add: matmul_shape_def broadcast_shapes_def bcast_def)

lemma mha_forward_same_weights:
  assumes "0 < T"
  shows "MHAttentionFn_forward [T, C] [[H, Cw, Ca], [H, Cw, Ca], [H, Cw, Ca], wo] = Inr ()
         \<longleftrightarrow> C = H * Ca \<and> Cw = Ca"
  using assms
  by (auto simp: MHAttentionFn_forward_def reshape_shape_def matmul_shape_batched3 transpose_shape_def)

text \<open>
  C34: with its three projection weights of one shape \<open>(H, Cw, Ca)\<close> and an input of
  \<open>T > 0\<close> rows, the stub's forward returns (\<^verbatim>\<open>None\<close>) exactly when the input's width
  is \<open>H * Ca\<close> (the reshape into heads) and \<open>Cw = Ca\<close> (the product with \<^verbatim>\<open>w_q\<close>);
  otherwise it raises. \<^verbatim>\<open>w_o\<close> is never used.
\<close>

theorem mha_forward_ok_iff:
  assumes "0 < T"
  shows "MHAttentionFn_forward [T, C] [[H, Cw, Ca], [H, Cw, Ca], [H, Cw, Ca], wo] = Inr ()
         \<longleftrightarrow> C = H * Ca \<and> Cw = Ca"
  using mha_forward_same_weights [OF assms] .

text \<open>
  C23: with weights of the shape \<open>(H, C, Ca)\<close> the stub unpacks, for \<open>C = H * Ca\<close> split
  into \<open>H > 1\<close> heads of width \<open>Ca > 0\<close>, the forward raises \<^verbatim>\<open>RuntimeError\<close> at
  \<^verbatim>\<open>q = x @ w_q\<close>: the reshaped input has inner dimension \<open>Ca\<close>, \<^verbatim>\<open>w_q\<close> has \<open>C\<close>.
  Only a single head gets through.
\<close>

theorem mha_forward_head_split_fails:
  assumes "0 < T" and "0 < Ca" and "1 < H"
  shows "MHAttentionFn_forward [T, H * Ca] [[H, H * Ca, Ca], [H, H * Ca, Ca], [H, H * Ca, Ca], wo]
         = Inl RuntimeError"
proof -
  have "Ca \<noteq> H * Ca" using assms(2,3) by simp
  then show ?thesis
    by (simp add: MHAttentionFn_forward_def reshape_shape_def matmul_shape_batched3)
qed

theorem mha_forward_ok_iff_witness:
  "MHAttentionFn_forward [4, 8] [[1, 8, 8], [1, 8, 8], [1, 8, 8], [8, 8]] = Inr ()"
proof -
  have "0 < (4 :: nat)" by simp
  from mha_forward_ok_iff [OF this, of 8 1 8 8 "[8, 8]"] show ?thesis by simp
qed

theorem mha_forward_head_split_fails_witness:
  "MHAttentionFn_forward [4, 8] [[2, 8, 4], [2, 8, 4], [2, 8, 4], [8, 8]] = Inl RuntimeError"
proof -
  have h: "0 < (4 :: nat)" "0 < (4 :: nat)" "1 < (2 :: nat)" by simp_all
  from mha_forward_head_split_fails [OF h, of "[8, 8]"] show ?thesis by simp
qed

end
