(* ===== verification/Spec2Isabelle.thy ===== *)
theory Spec2Isabelle
  imports Harness_Types LayerNorm_Step Attention_Stub
begin

text \<open>
  \<^bold>\<open>A verification library for \<^verbatim>\<open>src/src/modules.py\<close>\<close> (atzuur/genshin-gpt): six
  differentiable operators written as PyTorch \<^verbatim>\<open>autograd.Function\<close>s, each with a
  hand-derived forward and backward, the \<^verbatim>\<open>nn.Module\<close> wrappers that own their
  parameters, a test harness that compares forward with a reference and backward with
  finite differences (\<^verbatim>\<open>gradcheck\<close>), and an unfinished multi-head attention operator.

  \<^bold>\<open>How the parts interact.\<close> A module calls its operator's forward with its own
  parameters; forward returns the output and saves a context; the autograd engine later
  calls backward with that context and the gradient of the output, and receives one
  gradient per input (\<^verbatim>\<open>None\<close> for index inputs). The engine, the tensor library and
  the random initialisation are external.

  \<^bold>\<open>Theories and what they model.\<close>
  \<^item> \<open>Prelude\<close>: tensors of rank 1 and 2 as records of a shape and an entry function
    (\<open>tensor1\<close>, \<open>tensor2\<close>), the exceptions as \<open>error\<close>, Python's negative
    indexing \<open>py_index\<close>, PyTorch broadcasting \<open>bcast\<close>/\<open>bidx\<close>/\<open>bcast2\<close>/\<open>bent\<close>,
    and the engine's use of an operator, \<open>then_backward\<close> (backward on the context
    forward saved). The specification of a backward is stated with \<open>perturb2\<close>/\<open>perturb1\<close>
    (move one input entry by \<open>h\<close>) and \<open>fwd_loss g\<close> (the inner product of the upstream
    gradient with the output): a backward is correct when each entry it returns is the
    derivative at \<open>h = 0\<close> of \<open>fwd_loss g (forward (perturb \<dots> h))\<close>, which is what
    \<^verbatim>\<open>gradcheck\<close> approximates. Shared lemmas: sums with one singled-out index,
    \<open>DERIV_affine\<close>, \<open>DERIV_frob_affine\<close>, \<open>DERIV_frob_single\<close>.
  \<^item> \<open>Add_Op\<close>: \<^verbatim>\<open>AddFn\<close> (lines 129-137) as \<open>AddFn_forward\<close>, \<open>AddFn_backward\<close>.
  \<^item> \<open>Linear_Op\<close>: \<^verbatim>\<open>LinearFn\<close> (lines 76-89) with \<open>linear_ctx\<close>.
  \<^item> \<open>Gelu_Op\<close>: \<^verbatim>\<open>GELUFn\<close> (lines 106-118) with \<open>gelu_ctx\<close>; \<open>gelu_ref\<close> is the
    harness's reference \<^verbatim>\<open>gelu(approximate="tanh")\<close>.
  \<^item> \<open>Layer_Norm\<close>: \<^verbatim>\<open>LayerNormFn\<close> (lines 34-61) with \<open>layernorm_ctx\<close>, the row
    statistics \<open>row_mean\<close>, \<open>row_var\<close>, and the calculus of one normalised row
    (\<open>DERIV_row_var\<close>, \<open>DERIV_inv_sqrt\<close>, \<open>DERIV_ln_row_objective\<close>).
  \<^item> \<open>Embedding_Op\<close>: \<^verbatim>\<open>EmbeddingFn\<close> (lines 148-158); backward's
    \<^verbatim>\<open>index_add\<close> is the loop \<open>index_add_loop\<close>, related to its closed form by
    \<open>index_add_loop_ent\<close> (and \<open>index_add_loop_zero_src\<close> for a zero source).
  \<^item> \<open>Cross_Entropy\<close>: \<^verbatim>\<open>CrossEntropyFn\<close> (lines 9-23) with \<open>ce_ctx\<close>; the loss is a
    scalar, its objective \<open>scalar_loss g\<close>.
  \<^item> \<open>Torch_Modules\<close>: the six \<^verbatim>\<open>nn.Module\<close> classes. \<^verbatim>\<open>LayerNorm\<close>,
    \<^verbatim>\<open>Linear\<close>, \<^verbatim>\<open>Embedding\<close> as parameter records and forwards that pass their own
    parameters; their constructors: \<open>LayerNorm_init\<close> (ones and zeros), and, for the random
    ones, relations on the parameters they may draw: \<open>Linear_init_drawn\<close>
    (\<^verbatim>\<open>kaiming_uniform_\<close> with \<open>a = sqrt 5\<close>, bound \<open>kaiming_uniform_bound\<close>; bias
    uniform within \<open>linear_bound\<close>, lines 97-100) and \<open>Embedding_init_drawn\<close> (shape
    only, since \<^verbatim>\<open>normal_\<close> is unbounded); the parameterless wrappers
    \<open>CrossEntropy_forward\<close>, \<open>GELU_forward\<close>, \<open>Add_forward\<close>.
  \<^item> \<open>Harness\<close>: the \<^verbatim>\<open>__main__\<close> block (lines 186-244). Arguments and results of
    \<^verbatim>\<open>Function.apply\<close> (\<open>arg\<close>, \<open>pyval\<close>); each operator applied to its argument
    list (\<open>*_apply\<close>) and the engine's backward of that application (\<open>*_vjp\<close>); the
    references of \<^verbatim>\<open>torch.nn.functional\<close> (\<open>*_ref\<close>, modelled from PyTorch's
    semantics); the test table (\<open>cross_entropy_test\<close> \<dots> \<open>embedding_test\<close>,
    \<open>harness_tests\<close>); the random draws as the relation \<open>drawn\<close>; \<^verbatim>\<open>allclose\<close>;
    \<^verbatim>\<open>gradcheck\<close> as the entrywise comparison of the central-difference Jacobian
    (\<open>central_diff\<close>) with the Jacobian of one backward per output entry
    (\<open>vjp_row\<close>), \<open>slow_gradcheck\<close>, followed by the check that backward multiplies by
    the upstream gradient (\<open>backward_mul_check\<close>: a backward on \<open>zeros_like\<close> the output
    must return zero gradients of the inputs' sizes, \<open>zero_grad_ok\<close>); the loop \<open>run_tests\<close>, which returns the printed lines and the
    exception that stopped it; the script \<open>harness_script T C eps\<close>, the loop followed by
    the closing banner \<open>all_passed_banner\<close> when nothing was raised, and
    \<open>harness_main\<close>, the script at its constants \<open>T, C = 32, 64\<close>, \<open>eps = 1e-6\<close>.
  \<^item> \<open>Harness_Checks\<close>: the Jacobian of every test (\<open>jacobian_ok\<close>: forward and
    backward succeed, and each analytic entry is the derivative of the numerical one),
    from which the outcome of \<open>slow_gradcheck\<close> follows (\<open>gradcheck_jacobian\<close>), and
    \<open>gradcheck_slow\<close>, which reduces \<^verbatim>\<open>gradcheck\<close> to it where the zero-upstream check
    passes; the forward checks (\<open>forward_checks\<close>), the affine tests
    (\<open>gradcheck_affine_tests\<close>), and the outcome of the loop (\<open>run_tests_outcome\<close>,
    by computation induction on \<open>run_tests\<close>).
  \<^item> \<open>Gradcheck_Step\<close>: the central difference at a fixed step. \<open>smooth_entry f r M\<close>
    (a second derivative bounded by \<open>M\<close> on \<open>[-r, r]\<close>) bounds its error by \<open>M eps\<close>
    (\<open>central_difference_error\<close>, the mean value theorem twice), hence \<open>gradcheck_step\<close>.
    The bounds \<open>M = 1\<close> for cross entropy (\<open>smooth_entry_lse\<close>: the loss along one
    logit is \<open>ln (R + exp (a + t)) / T\<close> plus an affine term, with second derivative
    \<open>s (1 - s) / T\<close>) and \<open>M = 12\<close> for GELU on inputs in \<open>[-1, 1]\<close>
    (\<open>gelu_ref_deriv2_bound\<close>, with \<open>gelu_ref_deriv2\<close> the second derivative of the tanh
    form).
  \<^item> \<open>LayerNorm_Step\<close>: the LayerNorm check at the fixed step. \<open>smooth3_entry f r M\<close>
    (a third derivative bounded by \<open>M\<close> on \<open>[-r, r]\<close>) bounds the error of a central
    difference by \<open>M eps\<^sup>2 / 6\<close> (\<open>central_difference_error3\<close>: the second-order terms
    cancel, and \<open>antideriv_bound\<close> integrates the bound three times), hence
    \<open>gradcheck_step3\<close>. An output entry of \<^verbatim>\<open>LayerNormFn\<close> along one input entry of its
    row is \<open>U h \<cdot> w h powr (-1/2) \<cdot> gamma + beta\<close>, with \<open>w\<close> the moved row's variance plus
    \<open>ln_eps\<close>; its derivatives (\<open>norm_entry_d1\<close>, \<open>norm_entry_d2\<close>,
    \<open>norm_entry_d3\<close>) and the bound \<open>36 \<cdot> ln_eps powr (-3/2)\<close> (\<open>norm_entry_d3_bound\<close>,
    \<open>smooth3_norm_entry\<close>, \<open>smooth3_ln_row\<close>) use only that the row is centred, that the
    gain is drawn in \<open>[0, 1)\<close> and that \<open>w \<ge> ln_eps\<close>; the gain and bias entries and
    the other rows are affine. \<open>gradcheck_step_layer_norm\<close> and
    \<open>harness_script_passes\<close> follow.
  \<^item> \<open>Harness_Types\<close>: the engine's validation of a backward's outputs, \<open>grad_fits\<close>
    (a float input receives a gradient of its shape, an index input \<^verbatim>\<open>None\<close>) and
    \<open>pyval_fits\<close> (an upstream gradient of the output's shape); per test, the typing
    (\<open>typed_*\<close>) and the zero-upstream check (\<open>mul_check_*\<close>, \<open>harness_mul_checks\<close>).
  \<^item> \<open>Attention_Stub\<close>: \<^verbatim>\<open>MHAttentionFn\<close> (lines 171-183), whose forward returns
    \<^verbatim>\<open>None\<close> and saves nothing, so that only its shapes decide what it does: shapes as
    lists of dimensions, the shape rules of \<^verbatim>\<open>reshape\<close>, \<^verbatim>\<open>transpose\<close> and
    \<^verbatim>\<open>torch.matmul\<close> with batch broadcasting (\<open>matmul_shape\<close>, checked against
    PyTorch's cases in \<open>matmul_shape_examples\<close>), and \<open>MHAttentionFn_forward\<close>
    statement by statement.

  \<^bold>\<open>What is proved.\<close> For every operator, run through the engine on the shapes its
  module supplies, backward succeeds and returns the exact partial derivatives of forward's
  objective for every differentiable input entry (C1-C5, C7); LayerNorm's proof
  differentiates the mean and the variance through \<open>1 / sqrt\<close>, cross entropy's the
  log-sum-exp. Embedding's loop accumulates repeated indices (C6), and for distinct indices
  its scatter undoes forward's gather (C18, a round trip). The harness: on every input its
  draws may produce each forward agrees with its reference (C8); \<^verbatim>\<open>gradcheck\<close> passes
  for all small enough steps (C9), and for Linear, Add and Embedding at every step (C10);
  below some step the script prints \<^verbatim>\<open>passed\<close> six times and the banner, raising nothing
  (C11). At the harness's own step \<open>1e-6\<close> and tolerance \<open>1e-2\<close>, \<^verbatim>\<open>gradcheck\<close>
  passes for cross entropy, GELU and the affine tests (C12) and for LayerNorm (C13), so the
  script as written prints all six \<^verbatim>\<open>passed\<close> lines and the banner on every draw (C14).
  Every backward is well typed: on drawn arguments forward succeeds and, for an upstream gradient of the output's shape,
  backward returns gradients the engine accepts (C15); with a zero upstream gradient they
  are zero, so gradcheck's second check passes (C16). The script always ends, after a
  prefix of the tests, with the banner or with the exception of the test that raised it
  (C17). Behaviours the spec does not state: Embedding's backward rejects the negative
  indices its forward accepts (C19), which the reference rejects too (C20); LayerNorm's
  backward divides by zero for zero features (C21), so its gradcheck raises though there is
  nothing to compare (C22); the attention stub fails for every split into more than one
  head (C23); cross entropy broadcasts a single target to all rows (C24), which the
  reference rejects (C25), and reads the reference's \<^verbatim>\<open>ignore_index\<close> \<open>-100\<close> as a
  class counted from the end (C26). The error behaviour of each forward is characterised
  exactly (C27, C31-C34, the stub's in C34). Further: the loss is non-negative, the saved
  softmax rows sum to one, gradient rows sum to zero (C28-C30), LayerNorm is row-wise (C35),
  Add commutes (C36), LayerNorm at its initial parameters normalises each row to mean 0 and
  mean square \<open>v / (v + eps) < 1\<close> (C37), a Linear module as its constructor draws it maps
  inputs in \<open>[-1, 1]\<close> to outputs bounded by \<open>(in_c + 1) / sqrt in_c\<close> (C38), and a
  well-shaped Linear module never fails (C39).

  \<^bold>\<open>Choices and limits.\<close> Values are reals: floating-point rounding, overflow of the
  unshifted \<^verbatim>\<open>exp\<close>, and the single-precision constant of GELU are not modelled; with
  exact reals the forward checks hold with zero error. Tensors have rank at most 2, as
  every call of the harness does; broadcasting is modelled where the code relies on it
  (bias expansion, gain and bias, targets, the upstream gradient of GELU). Gradient
  theorems assume the module's shapes (gain, bias and targets of the matching length,
  upstream gradient of the output's shape); off those shapes only the errors are
  characterised. No loop needs fuel: every definition is total, \<open>index_add_loop\<close>
  recurses on the index list and \<open>run_tests\<close> on the test table. The step bounds use
  the ranges of the draws: \<open>M = 1\<close> holds for any logits, \<open>M = 12\<close> for GELU on
  \<open>[-2, 2]\<close>, which contains every draw in \<open>[0, 1)\<close> moved by at most \<open>eps \<le> 1\<close>; both
  \<open>1e-6\<close> and \<open>12e-6\<close> are below \<open>atol = 1e-2\<close>. For LayerNorm a second-derivative
  bound would grow like \<open>(v + 1e-5) powr (-3/2)\<close> in the row variance \<open>v\<close>, which the draws
  do not keep away from zero, and \<open>1e-6\<close> times it exceeds \<open>1e-2\<close>; the third-order
  bound \<open>36 \<cdot> 1e-5 powr (-3/2) \<le> 1.44e9\<close> times \<open>eps\<^sup>2 / 6\<close> is below \<open>2.5e-4\<close>, for
  every width \<open>C > 0\<close> and every draw. Not modelled: the random generator (the draws are a relation, and the
  random initialisers are relations on the parameters they may produce) and
  \<^verbatim>\<open>torch.manual_seed\<close> (line 6); gradcheck's reentrancy check (a second backward
  compared with the first, which deterministic backwards pass) and its batched and
  forward-mode checks (off by default); NaN as a value: the model raises
  \<open>NotANumber\<close> where Python returns NaN, which the forward check turns into the
  \<^verbatim>\<open>AssertionError\<close> of \<^verbatim>\<open>allclose\<close> as Python does, but which \<^verbatim>\<open>gradcheck\<close>
  propagates (only cross entropy on an empty batch returns NaN); the autograd engine beyond
  \<open>then_backward\<close> (in particular its reduction of a broadcast gradient to the input's
  shape), and the values inside \<^verbatim>\<open>MHAttentionFn\<close> (none of them leaves the function;
  the spec excludes the stub, so it is modelled from the source alone).

  \<^bold>\<open>Plan for later work.\<close> The engine's reverse-order composition of backwards as a
  chain rule across operators (a model of \<^verbatim>\<open>loss.backward()\<close> through a stack of
  modules, which the file never runs); a quantitative form of the spec's ``one-hot logits
  give loss \<open>\<approx>\<close> 0''.
\<close>

end
